theory Spec2Isabelle
  imports Complex_Main
begin

section \<open>Python strings\<close>

text \<open>
  A Python \<open>str\<close> is modelled as a \<open>string\<close>; every \<open>char\<close> stands for one code point
  below 256.  The functions of this section are the built-ins the bot calls on its
  strings, restricted to that range.
\<close>

text \<open>\<open>str.isspace\<close> on one code point below 256.\<close>

definition py_isspace :: "char \<Rightarrow> bool" where
  "py_isspace c =
     (let n = (of_char c :: nat)
      in (9 \<le> n \<and> n \<le> 13) \<or> (28 \<le> n \<and> n \<le> 32) \<or> n = 133 \<or> n = 160)"

text \<open>\<open>s.strip()\<close>.\<close>

definition py_strip :: "string \<Rightarrow> string" where
  "py_strip s = rev (dropWhile py_isspace (rev (dropWhile py_isspace s)))"

text \<open>
  \<open>s.split()\<close>: the maximal runs of characters that are not whitespace, in order.
  \<open>split_acc cur s\<close> scans \<open>s\<close> with the token read so far in \<open>cur\<close>.
\<close>

fun split_acc :: "string \<Rightarrow> string \<Rightarrow> string list" where
  "split_acc cur [] = (if cur = [] then [] else [cur])"
| "split_acc cur (c # cs) =
     (if py_isspace c
      then (if cur = [] then split_acc [] cs else cur # split_acc [] cs)
      else split_acc (cur @ [c]) cs)"

definition py_split :: "string \<Rightarrow> string list" where
  "py_split s = split_acc [] s"

text \<open>\<open>sep.join(parts)\<close>.\<close>

fun py_join :: "string \<Rightarrow> string list \<Rightarrow> string" where
  "py_join sep [] = []"
| "py_join sep [p] = p"
| "py_join sep (p # q # ps) = p @ sep @ py_join sep (q # ps)"

text \<open>\<open>str(n)\<close> for an integer: decimal digits, with a minus sign when negative.\<close>

definition digit_char :: "nat \<Rightarrow> char" where
  "digit_char d = char_of (48 + d)"

fun str_nat :: "nat \<Rightarrow> string" where
  "str_nat n = (if n < 10 then [digit_char n] else str_nat (n div 10) @ [digit_char (n mod 10)])"

declare str_nat.simps [simp del]

definition py_str :: "int \<Rightarrow> string" where
  "py_str i = (if i < 0 then CHR ''-'' # str_nat (nat (- i)) else str_nat (nat i))"

section \<open>The customer name of a chat (bot.py)\<close>

text \<open>
  \<open>AssignmentBot._derive_customer_name\<close>.  \<open>if title:\<close> is false for \<open>None\<close> and for
  the empty string; \<open>parts[2:]\<close> is \<open>drop 2 parts\<close>.
\<close>

definition derive_customer_name :: "string option \<Rightarrow> int \<Rightarrow> string" where
  "derive_customer_name title chat_id =
     (let synthetic = ''Auto Customer '' @ py_str chat_id
      in case title of
           None \<Rightarrow> synthetic
         | Some t \<Rightarrow>
             if t = [] then synthetic
             else
               let parts = py_split t;
                   candidate = (if length parts > 2 then py_join '' '' (drop 2 parts) else t);
                   candidate' = py_strip candidate
               in if candidate' \<noteq> [] then candidate' else synthetic)"

section \<open>The SQLite store (storage.py)\<close>

text \<open>
  The four tables of \<open>_initialise_schema\<close>, each a list of rows.  A \<open>TEXT\<close> column that
  may hold \<open>NULL\<close> is a \<open>string option\<close>.  The draft's \<open>state\<close> column holds the JSON text
  of a dict; \<open>json.dumps\<close> and \<open>json.loads\<close> are inverse on the dicts the bot stores, so
  the column is modelled by the dict itself (record \<open>draft\<close>), its sub-dicts as association
  lists; a sub-dict that is absent reads as the empty one, as \<open>draft.get(k) or {}\<close> and
  \<open>draft.setdefault(k, {})\<close> treat it.
\<close>

record user_row =
  telegram_id :: int
  username :: "string option"
  first_name :: "string option"
  last_name :: "string option"
  started_at :: string
  u_updated_at :: string

record chat_row =
  chat_id :: int
  title :: "string option"
  created_at :: string
  c_updated_at :: string

record assignment_row =
  a_chat_id :: int
  user_id :: int
  assigned_at :: string
  api_key :: "string option"
  api_secret :: "string option"
  credentials_status :: "string option"
  customer_docname :: "string option"

record draft =
  stage :: "string option"
  data :: "(string \<times> string) list"
  d_chat_id :: "int option"
  choices :: "(string \<times> string list) list"
  pages :: "(string \<times> int) list"

record draft_row =
  d_user_id :: int
  state :: draft
  d_updated_at :: string

record db =
  users :: "user_row list"
  chats :: "chat_row list"
  assignments :: "assignment_row list"
  item_drafts :: "draft_row list"

definition empty_db :: db where
  "empty_db = \<lparr>users = [], chats = [], assignments = [], item_drafts = []\<rparr>"

text \<open>
  \<open>AssignmentError\<close> carries its message; \<open>IntegrityError\<close> is what \<open>sqlite3\<close> raises when an
  \<open>INSERT\<close> violates a \<open>PRIMARY KEY\<close> or \<open>UNIQUE\<close> constraint of the schema; \<open>KeyError\<close> is
  Python's, for a dict read at a key it lacks.
\<close>

datatype error = AssignmentError string | IntegrityError | KeyError string

text \<open>
  \<open>INSERT\<close> into a table: \<open>conflicts\<close> tells which existing rows share a \<open>PRIMARY KEY\<close> or
  \<open>UNIQUE\<close> value with the new row.  Foreign keys are declared in the schema, but
  \<open>PRAGMA foreign_keys = ON\<close> is run on the connection of \<open>_initialise_schema\<close> only, and
  every operation opens a connection of its own, so they are not enforced.
\<close>

definition sql_insert :: "('r \<Rightarrow> bool) \<Rightarrow> 'r \<Rightarrow> 'r list \<Rightarrow> error + 'r list" where
  "sql_insert conflicts r tbl = (if list_ex conflicts tbl then Inl IntegrityError else Inr (tbl @ [r]))"

text \<open>\<open>fetchone()\<close>: the first row of the result, or \<open>None\<close>.\<close>

definition fetchone :: "'r list \<Rightarrow> 'r option" where
  "fetchone rows = (case rows of [] \<Rightarrow> None | r # _ \<Rightarrow> Some r)"

text \<open>\<open>UPDATE \<dots> WHERE\<close>: the rows that match are rewritten; \<open>rowcount\<close> counts them.\<close>

definition sql_update :: "('r \<Rightarrow> bool) \<Rightarrow> ('r \<Rightarrow> 'r) \<Rightarrow> 'r list \<Rightarrow> 'r list" where
  "sql_update cond upd tbl = map (\<lambda>r. if cond r then upd r else r) tbl"

definition rowcount :: "('r \<Rightarrow> bool) \<Rightarrow> 'r list \<Rightarrow> nat" where
  "rowcount cond tbl = length (filter cond tbl)"

text \<open>
  \<open>AssignmentStorage._connection\<close>: the body runs on the connection's working copy of the
  database.  When it returns, \<open>conn.commit()\<close> makes the copy the database; when it raises,
  the commit is skipped and \<open>conn.close()\<close> drops the copy.  A body returns its outcome and
  its working copy.
\<close>

definition connection :: "(db \<Rightarrow> (error + 'a) \<times> db) \<Rightarrow> db \<Rightarrow> (error + 'a) \<times> db" where
  "connection body s =
     (case body s of
        (Inl e, working) \<Rightarrow> (Inl e, s)
      | (Inr v, working) \<Rightarrow> (Inr v, working))"

subsection \<open>Users\<close>

definition record_user_body ::
  "string \<Rightarrow> int \<Rightarrow> string option \<Rightarrow> string option \<Rightarrow> string option \<Rightarrow> db \<Rightarrow> (error + bool) \<times> db"
where
  "record_user_body now tid uname fname lname s =
     (case fetchone (filter (\<lambda>u. telegram_id u = tid) (users s)) of
        Some row \<Rightarrow>
          (Inr False,
           s\<lparr>users := sql_update (\<lambda>u. telegram_id u = tid)
              (\<lambda>u. u\<lparr>username := uname, first_name := fname, last_name := lname, u_updated_at := now\<rparr>)
              (users s)\<rparr>)
      | None \<Rightarrow>
          (case sql_insert (\<lambda>u. telegram_id u = tid)
                  \<lparr>telegram_id = tid, username = uname, first_name = fname, last_name = lname,
                   started_at = now, u_updated_at = now\<rparr> (users s) of
             Inl e \<Rightarrow> (Inl e, s)
           | Inr tbl \<Rightarrow> (Inr True, s\<lparr>users := tbl\<rparr>)))"

definition record_user ::
  "string \<Rightarrow> int \<Rightarrow> string option \<Rightarrow> string option \<Rightarrow> string option \<Rightarrow> db \<Rightarrow> (error + bool) \<times> db"
where
  "record_user now tid uname fname lname = connection (record_user_body now tid uname fname lname)"

text \<open>The dataclass \<open>Candidate\<close> and its property \<open>display_label\<close>.\<close>

record candidate =
  cand_telegram_id :: int
  cand_username :: "string option"
  cand_first_name :: "string option"
  cand_last_name :: "string option"
  cand_started_at :: string

text \<open>Python's truth value of an \<open>Optional[str]\<close>: neither \<open>None\<close> nor empty.\<close>

definition truthy :: "string option \<Rightarrow> bool" where
  "truthy v = (case v of None \<Rightarrow> False | Some t \<Rightarrow> t \<noteq> [])"

definition display_label :: "candidate \<Rightarrow> string" where
  "display_label c =
     (let name_parts = map the (filter truthy [cand_first_name c, cand_last_name c])
      in if name_parts \<noteq> [] then py_join '' '' name_parts
         else if truthy (cand_username c) then CHR ''@'' # the (cand_username c)
         else py_str (cand_telegram_id c))"

definition to_candidate :: "user_row \<Rightarrow> candidate" where
  "to_candidate u =
     \<lparr>cand_telegram_id = telegram_id u, cand_username = username u, cand_first_name = first_name u,
      cand_last_name = last_name u, cand_started_at = started_at u\<rparr>"

definition get_user :: "db \<Rightarrow> int \<Rightarrow> candidate option" where
  "get_user s tid = map_option to_candidate (fetchone (filter (\<lambda>u. telegram_id u = tid) (users s)))"

text \<open>
  The \<open>ORDER BY\<close> expression of \<open>list_unassigned_users\<close>,
  \<open>COALESCE(NULLIF(TRIM(first_name || ' ' || IFNULL(last_name, '')), ''), username, telegram_id)\<close>.
  \<open>||\<close> with a \<open>NULL\<close> operand is \<open>NULL\<close>; \<open>TRIM\<close> removes spaces at both ends; the value is
  a text or, when the id is reached, an integer.
\<close>

datatype sqlval = SqlInt int | SqlText string

definition sql_trim :: "string \<Rightarrow> string" where
  "sql_trim t = rev (dropWhile (\<lambda>c. c = CHR '' '') (rev (dropWhile (\<lambda>c. c = CHR '' '') t)))"

definition order_key :: "user_row \<Rightarrow> sqlval" where
  "order_key u =
     (let fallback = (case username u of Some n \<Rightarrow> SqlText n | None \<Rightarrow> SqlInt (telegram_id u))
      in case first_name u of
           None \<Rightarrow> fallback
         | Some f \<Rightarrow>
             let t = sql_trim (f @ '' '' @ (case last_name u of None \<Rightarrow> [] | Some l \<Rightarrow> l))
             in if t \<noteq> [] then SqlText t else fallback)"

text \<open>
  SQLite's ascending order: every integer sorts before every text; integers by value;
  texts by the \<open>BINARY\<close> collation, which compares character codes from the left and puts
  a proper prefix first.
\<close>

fun text_le :: "string \<Rightarrow> string \<Rightarrow> bool" where
  "text_le [] ys = True"
| "text_le (x # xs) [] = False"
| "text_le (x # xs) (y # ys) =
     ((of_char x :: nat) < of_char y \<or> (x = y \<and> text_le xs ys))"

fun sql_le :: "sqlval \<Rightarrow> sqlval \<Rightarrow> bool" where
  "sql_le (SqlInt a) (SqlInt b) = (a \<le> b)"
| "sql_le (SqlInt a) (SqlText t) = True"
| "sql_le (SqlText t) (SqlInt b) = False"
| "sql_le (SqlText t) (SqlText u) = text_le t u"

text \<open>
  \<open>ORDER BY\<close>.  The query reads \<open>users\<close> in the order of its rowid, which is \<open>telegram_id\<close>
  (the \<open>INTEGER PRIMARY KEY\<close> of the table), and sorts what it read by the key; rows of
  equal key stay in the order in which they were read.
\<close>

definition rowid_scan :: "user_row list \<Rightarrow> user_row list" where
  "rowid_scan rows = sort_key telegram_id rows"

fun insert_row :: "user_row \<Rightarrow> user_row list \<Rightarrow> user_row list" where
  "insert_row u [] = [u]"
| "insert_row u (v # vs) =
     (if sql_le (order_key u) (order_key v) then u # v # vs else v # insert_row u vs)"

definition order_by_label :: "user_row list \<Rightarrow> user_row list" where
  "order_by_label rows = foldr insert_row rows []"

text \<open>\<open>LIMIT ?\<close>: a negative limit is no limit in SQLite.\<close>

definition sql_limit :: "int \<Rightarrow> 'r list \<Rightarrow> 'r list" where
  "sql_limit n rows = (if n < 0 then rows else take (nat n) rows)"

definition unassigned :: "db \<Rightarrow> user_row \<Rightarrow> bool" where
  "unassigned s u = (\<not> list_ex (\<lambda>a. user_id a = telegram_id u) (assignments s))"

definition list_unassigned_users :: "db \<Rightarrow> int \<Rightarrow> candidate list" where
  "list_unassigned_users s limit =
     map to_candidate (sql_limit limit (order_by_label (filter (unassigned s) (rowid_scan (users s)))))"

subsection \<open>Chats\<close>

definition record_group_chat_body :: "string \<Rightarrow> int \<Rightarrow> string option \<Rightarrow> db \<Rightarrow> (error + unit) \<times> db" where
  "record_group_chat_body now cid ttl s =
     (case fetchone (filter (\<lambda>c. chat_id c = cid) (chats s)) of
        Some existing \<Rightarrow>
          (Inr (),
           s\<lparr>chats := sql_update (\<lambda>c. chat_id c = cid)
              (\<lambda>c. c\<lparr>title := (case ttl of Some t \<Rightarrow> Some t | None \<Rightarrow> title c), c_updated_at := now\<rparr>)
              (chats s)\<rparr>)
      | None \<Rightarrow>
          (case sql_insert (\<lambda>c. chat_id c = cid)
                  \<lparr>chat_id = cid, title = ttl, created_at = now, c_updated_at = now\<rparr> (chats s) of
             Inl e \<Rightarrow> (Inl e, s)
           | Inr tbl \<Rightarrow> (Inr (), s\<lparr>chats := tbl\<rparr>)))"

definition record_group_chat :: "string \<Rightarrow> int \<Rightarrow> string option \<Rightarrow> db \<Rightarrow> (error + unit) \<times> db" where
  "record_group_chat now cid ttl = connection (record_group_chat_body now cid ttl)"

definition get_chat :: "db \<Rightarrow> int \<Rightarrow> chat_row option" where
  "get_chat s cid = fetchone (filter (\<lambda>c. chat_id c = cid) (chats s))"

subsection \<open>Assignments\<close>

text \<open>
  The dict that \<open>get_group_assignment\<close> and \<open>get_user_assignment\<close> return: a row of
  \<open>assignments JOIN chats JOIN users\<close>.
\<close>

record assignment =
  j_chat_id :: int
  j_user_id :: int
  j_assigned_at :: string
  j_api_key :: "string option"
  j_api_secret :: "string option"
  j_credentials_status :: "string option"
  j_customer_docname :: "string option"
  j_title :: "string option"
  j_username :: "string option"
  j_first_name :: "string option"
  j_last_name :: "string option"

definition joined :: "assignment_row \<Rightarrow> chat_row \<Rightarrow> user_row \<Rightarrow> assignment" where
  "joined a c u =
     \<lparr>j_chat_id = a_chat_id a, j_user_id = user_id a, j_assigned_at = assigned_at a,
      j_api_key = api_key a, j_api_secret = api_secret a,
      j_credentials_status = credentials_status a, j_customer_docname = customer_docname a,
      j_title = title c, j_username = username u, j_first_name = first_name u,
      j_last_name = last_name u\<rparr>"

definition joined_rows :: "db \<Rightarrow> assignment list" where
  "joined_rows s =
     [joined a c u. a \<leftarrow> assignments s, c \<leftarrow> chats s, chat_id c = a_chat_id a,
                    u \<leftarrow> users s, telegram_id u = user_id a]"

definition get_group_assignment :: "db \<Rightarrow> int \<Rightarrow> assignment option" where
  "get_group_assignment s cid = fetchone (filter (\<lambda>j. j_chat_id j = cid) (joined_rows s))"

definition get_user_assignment :: "db \<Rightarrow> int \<Rightarrow> assignment option" where
  "get_user_assignment s tid = fetchone (filter (\<lambda>j. j_user_id j = tid) (joined_rows s))"

definition assign_sales_manager_body :: "string \<Rightarrow> int \<Rightarrow> int \<Rightarrow> db \<Rightarrow> (error + unit) \<times> db" where
  "assign_sales_manager_body now cid uid s =
     (case (case fetchone (filter (\<lambda>c. chat_id c = cid) (chats s)) of
              Some chat_row \<Rightarrow> Inr s
            | None \<Rightarrow>
                map_sum id (\<lambda>tbl. s\<lparr>chats := tbl\<rparr>)
                  (sql_insert (\<lambda>c. chat_id c = cid)
                     \<lparr>chat_id = cid, title = None, created_at = now, c_updated_at = now\<rparr> (chats s))) of
        Inl e \<Rightarrow> (Inl e, s)
      | Inr s1 \<Rightarrow>
          if fetchone (filter (\<lambda>u. telegram_id u = uid) (users s1)) = None
          then (Inl (AssignmentError ''Foydalanuvchi botga shaxsiy chatda /start yubormagan.''), s1)
          else if fetchone (filter (\<lambda>a. a_chat_id a = cid) (assignments s1)) \<noteq> None
          then (Inl (AssignmentError ''Bu guruh uchun sales manager allaqachon tanlangan.''), s1)
          else if fetchone (filter (\<lambda>a. user_id a = uid) (assignments s1)) \<noteq> None
          then (Inl (AssignmentError
                  ''Bu foydalanuvchi boshqa guruhda sales manager sifatida tayinlangan.''), s1)
          else
            (case sql_insert (\<lambda>a. a_chat_id a = cid \<or> user_id a = uid)
                    \<lparr>a_chat_id = cid, user_id = uid, assigned_at = now, api_key = None,
                     api_secret = None, credentials_status = Some ''pending_key'',
                     customer_docname = None\<rparr> (assignments s1) of
               Inl e \<Rightarrow> (Inl e, s1)
             | Inr tbl \<Rightarrow> (Inr (), s1\<lparr>assignments := tbl\<rparr>)))"

definition assign_sales_manager :: "string \<Rightarrow> int \<Rightarrow> int \<Rightarrow> db \<Rightarrow> (error + unit) \<times> db" where
  "assign_sales_manager now cid uid = connection (assign_sales_manager_body now cid uid)"

definition not_found :: error where
  "not_found = AssignmentError ''Foydalanuvchi sales manager sifatida topilmadi.''"

text \<open>
  The three credential updates share their shape: one \<open>UPDATE assignments \<dots> WHERE user_id = ?\<close>,
  then \<open>AssignmentError\<close> when no row matched.
\<close>

definition update_credentials ::
  "(assignment_row \<Rightarrow> assignment_row) \<Rightarrow> int \<Rightarrow> db \<Rightarrow> (error + unit) \<times> db"
where
  "update_credentials upd uid s =
     (let working = s\<lparr>assignments := sql_update (\<lambda>a. user_id a = uid) upd (assignments s)\<rparr>
      in if rowcount (\<lambda>a. user_id a = uid) (assignments s) = 0
         then (Inl not_found, working) else (Inr (), working))"

definition store_api_key :: "int \<Rightarrow> string \<Rightarrow> db \<Rightarrow> (error + unit) \<times> db" where
  "store_api_key uid key =
     connection (update_credentials
       (\<lambda>a. a\<lparr>api_key := Some key, credentials_status := Some ''pending_secret''\<rparr>) uid)"

definition store_api_secret :: "int \<Rightarrow> string \<Rightarrow> bool \<Rightarrow> db \<Rightarrow> (error + unit) \<times> db" where
  "store_api_secret uid secret verified =
     (let status = (if verified then ''active'' else ''pending_secret'')
      in connection (update_credentials
           (\<lambda>a. a\<lparr>api_secret := Some secret, credentials_status := Some status\<rparr>) uid))"

definition reset_credentials :: "int \<Rightarrow> db \<Rightarrow> (error + unit) \<times> db" where
  "reset_credentials uid =
     connection (update_credentials
       (\<lambda>a. a\<lparr>api_key := None, api_secret := None, credentials_status := Some ''pending_key''\<rparr>) uid)"

definition reset_all :: "db \<Rightarrow> (error + unit) \<times> db" where
  "reset_all = connection (\<lambda>s. (Inr (), s\<lparr>assignments := [], chats := [], users := []\<rparr>))"

definition clear_all_assignments :: "db \<Rightarrow> (error + unit) \<times> db" where
  "clear_all_assignments = connection (\<lambda>s. (Inr (), s\<lparr>assignments := []\<rparr>))"

definition store_customer_doc :: "int \<Rightarrow> string \<Rightarrow> db \<Rightarrow> (error + unit) \<times> db" where
  "store_customer_doc cid docname =
     connection (\<lambda>s. (Inr (),
       s\<lparr>assignments := sql_update (\<lambda>a. a_chat_id a = cid)
          (\<lambda>a. a\<lparr>customer_docname := Some docname\<rparr>) (assignments s)\<rparr>))"

subsection \<open>Item drafts\<close>

definition get_item_draft :: "db \<Rightarrow> int \<Rightarrow> draft option" where
  "get_item_draft s uid = map_option state (fetchone (filter (\<lambda>d. d_user_id d = uid) (item_drafts s)))"

text \<open>\<open>INSERT \<dots> ON CONFLICT(user_id) DO UPDATE\<close>.\<close>

definition save_item_draft :: "string \<Rightarrow> int \<Rightarrow> draft \<Rightarrow> db \<Rightarrow> (error + unit) \<times> db" where
  "save_item_draft now uid st =
     connection (\<lambda>s. (Inr (),
       s\<lparr>item_drafts :=
          (if list_ex (\<lambda>d. d_user_id d = uid) (item_drafts s)
           then sql_update (\<lambda>d. d_user_id d = uid) (\<lambda>d. d\<lparr>state := st, d_updated_at := now\<rparr>)
                  (item_drafts s)
           else item_drafts s @ [\<lparr>d_user_id = uid, state = st, d_updated_at = now\<rparr>])\<rparr>))"

definition delete_item_draft :: "int \<Rightarrow> db \<Rightarrow> (error + unit) \<times> db" where
  "delete_item_draft uid =
     connection (\<lambda>s. (Inr (), s\<lparr>item_drafts := filter (\<lambda>d. d_user_id d \<noteq> uid) (item_drafts s)\<rparr>))"

subsection \<open>Sequences of storage operations\<close>

text \<open>
  One constructor for each method of \<open>AssignmentStorage\<close> that writes; \<open>apply_op\<close> is the
  database the call leaves, whether it returned or raised.
\<close>

datatype op =
    RecordUser string int "string option" "string option" "string option"
  | RecordGroupChat string int "string option"
  | AssignSalesManager string int int
  | StoreApiKey int string
  | StoreApiSecret int string bool
  | ResetCredentials int
  | ResetAll
  | ClearAllAssignments
  | StoreCustomerDoc int string
  | SaveItemDraft string int draft
  | DeleteItemDraft int

fun apply_op :: "op \<Rightarrow> db \<Rightarrow> db" where
  "apply_op (RecordUser now tid uname fname lname) s = snd (record_user now tid uname fname lname s)"
| "apply_op (RecordGroupChat now cid ttl) s = snd (record_group_chat now cid ttl s)"
| "apply_op (AssignSalesManager now cid uid) s = snd (assign_sales_manager now cid uid s)"
| "apply_op (StoreApiKey uid key) s = snd (store_api_key uid key s)"
| "apply_op (StoreApiSecret uid secret verified) s = snd (store_api_secret uid secret verified s)"
| "apply_op (ResetCredentials uid) s = snd (reset_credentials uid s)"
| "apply_op ResetAll s = snd (reset_all s)"
| "apply_op ClearAllAssignments s = snd (clear_all_assignments s)"
| "apply_op (StoreCustomerDoc cid docname) s = snd (store_customer_doc cid docname s)"
| "apply_op (SaveItemDraft now uid st) s = snd (save_item_draft now uid st s)"
| "apply_op (DeleteItemDraft uid) s = snd (delete_item_draft uid s)"

definition run_ops :: "op list \<Rightarrow> db \<Rightarrow> db" where
  "run_ops ops s = fold apply_op ops s"

section \<open>The bot (bot.py)\<close>

subsection \<open>Configuration, the outside world, and what a handler does\<close>

text \<open>The fields of \<open>AssignmentBotConfig\<close> the handlers read, and the bot's user name.\<close>

record config =
  erpnext_base_url :: "string option"
  admin_ids :: "int list"
  bot_username :: "string option"

definition is_admin :: "config \<Rightarrow> int \<Rightarrow> bool" where
  "is_admin cfg tid = (tid \<in> set (admin_ids cfg))"

text \<open>
  What the HTTP request of \<open>_verify_credentials\<close> comes back with: a response, with its status
  code and the detail text read from its body, or an exception, with its text.
\<close>

datatype http_result = HttpResponse int string | HttpException string

text \<open>
  The outside world during one event: the answers of the ERPNext server to the inner
  \<open>_request\<close> functions, exceptions included; whether \<open>get_chat_member\<close> returns for a chat
  and a user; and whether Telegram lets the bot write to a user (it raises \<open>Forbidden\<close>
  otherwise).
\<close>

record world =
  w_verify :: "string \<Rightarrow> string \<Rightarrow> http_result"
  w_find_customer :: "string \<Rightarrow> string \<Rightarrow> string \<Rightarrow> bool \<times> string option \<times> string option"
  w_create_customer :: "string \<Rightarrow> string \<Rightarrow> string \<Rightarrow> bool \<times> string option \<times> string option"
  w_resource_names :: "string \<Rightarrow> string \<Rightarrow> string \<Rightarrow> int \<Rightarrow> bool \<times> string option \<times> string list"
  w_create_item :: "string \<Rightarrow> string \<Rightarrow> string \<Rightarrow> string \<Rightarrow> string \<Rightarrow> string \<Rightarrow> bool \<times> string option"
  w_chat_member :: "int \<Rightarrow> int \<Rightarrow> bool"
  w_can_message :: "int \<Rightarrow> bool"

text \<open>An inline button: its label and its \<open>callback_data\<close>.\<close>

record button =
  b_label :: string
  b_callback_data :: string

text \<open>
  What a handler does besides writing to the store, in order: the messages it sends, the
  requests it makes to ERPNext, and the exception it ends with when one escapes.
\<close>

datatype action =
    ReplyText string
  | ReplyKeyboard string "button list list"
  | EditMessageText string
  | EditKeyboard string "button list list"
  | SendMessage int string
  | Answer "string option" bool
  | VerifyRequest string string
  | FindCustomer string string string
  | CreateCustomer string string string
  | FetchResourceNames string string string int
  | CreateItem string string string string string string
  | Raised error

text \<open>
  The characters outside ASCII in the messages, as the UTF-8 bytes that \<open>bot.py\<close> holds for
  them: the sign that ends a shortened label, the sign before the text of a created item,
  the sign before each line of it, the signs on the buttons to the page before and the page
  after, and the signs before the search button and the congratulation.
\<close>

definition ellipsis :: string where
  "ellipsis = map char_of [226, 128, 154, 195, 132, 194, 182 :: nat]"

definition check_mark :: string where
  "check_mark = map char_of [226, 128, 154, 195, 186, 195, 150 :: nat]"

definition bullet :: string where
  "bullet = map char_of [226, 128, 154, 195, 132, 194, 162 :: nat]"

definition left_arrow :: string where
  "left_arrow = map char_of [226, 128, 154, 194, 168, 195, 150, 195, 148, 226, 136, 143, 195, 168 :: nat]"

definition right_arrow :: string where
  "right_arrow = map char_of [226, 128, 154, 195, 187, 194, 176, 195, 148, 226, 136, 143, 195, 168 :: nat]"

definition magnifier :: string where
  "magnifier = map char_of [239, 163, 191, 195, 188, 195, 174, 195, 167 :: nat]"

definition party :: string where
  "party = map char_of [239, 163, 191, 195, 188, 195, 169, 195, 162 :: nat]"

definition newline :: string where
  "newline = [char_of (10 :: nat)]"

definition dquote :: string where
  "dquote = [char_of (34 :: nat)]"

subsection \<open>Helpers\<close>

text \<open>\<open>re.fullmatch(r"[A-Fa-f0-9]{15}", value)\<close> and \<open>re.fullmatch(r"[A-Fa-f0-9]{15,16}", value)\<close>.\<close>

definition is_hex :: "char \<Rightarrow> bool" where
  "is_hex c =
     (let n = (of_char c :: nat)
      in (48 \<le> n \<and> n \<le> 57) \<or> (65 \<le> n \<and> n \<le> 70) \<or> (97 \<le> n \<and> n \<le> 102))"

definition validate_api_key :: "string \<Rightarrow> bool" where
  "validate_api_key v = (length v = 15 \<and> list_all is_hex v)"

definition validate_api_secret :: "string \<Rightarrow> bool" where
  "validate_api_secret v = ((length v = 15 \<or> length v = 16) \<and> list_all is_hex v)"

definition format_assignment_label :: "assignment \<Rightarrow> string" where
  "format_assignment_label a =
     (let label = py_join '' '' (map the (filter truthy [j_first_name a, j_last_name a]));
          label' = (if label = [] \<and> truthy (j_username a) then CHR ''@'' # the (j_username a) else label)
      in if label' = [] then py_str (j_user_id a) else label')"

text \<open>
  \<open>_verify_credentials\<close>: without a base URL the check is skipped and counts as passed;
  otherwise the request decides.
\<close>

definition verify_credentials ::
  "config \<Rightarrow> world \<Rightarrow> string \<Rightarrow> string \<Rightarrow> action list \<times> bool \<times> string option"
where
  "verify_credentials cfg w key secret =
     (if \<not> truthy (erpnext_base_url cfg) then ([], True, None)
      else if key = [] \<or> secret = [] then ([], False, Some ''API kalit yoki secret topilmadi.'')
      else
        ([VerifyRequest key secret],
         (case w_verify w key secret of
            HttpResponse code detail \<Rightarrow>
              if 200 \<le> code \<and> code < 300 then (True, None)
              else (False, Some (''HTTP '' @ py_str code @ '': '' @ detail))
          | HttpException msg \<Rightarrow> (False, Some msg))))"

definition find_customer ::
  "config \<Rightarrow> world \<Rightarrow> string \<Rightarrow> string \<Rightarrow> string \<Rightarrow> action list \<times> bool \<times> string option \<times> string option"
where
  "find_customer cfg w key secret name =
     (if \<not> truthy (erpnext_base_url cfg) then ([], False, None, Some ''ERPNext URL not configured'')
      else ([FindCustomer key secret name], w_find_customer w key secret name))"

definition create_customer ::
  "config \<Rightarrow> world \<Rightarrow> string \<Rightarrow> string \<Rightarrow> string \<Rightarrow> action list \<times> bool \<times> string option \<times> string option"
where
  "create_customer cfg w key secret name =
     (if \<not> truthy (erpnext_base_url cfg) then ([], False, None, Some ''ERPNext URL not configured'')
      else ([CreateCustomer key secret name], w_create_customer w key secret name))"

definition fetch_resource_names ::
  "config \<Rightarrow> world \<Rightarrow> string \<Rightarrow> string \<Rightarrow> string \<Rightarrow> int \<Rightarrow> action list \<times> bool \<times> string option \<times> string list"
where
  "fetch_resource_names cfg w key secret doctype limit =
     (if \<not> truthy (erpnext_base_url cfg) then ([], False, Some ''ERPNext URL sozlanmagan.'', [])
      else ([FetchResourceNames key secret doctype limit], w_resource_names w key secret doctype limit))"

definition create_item ::
  "config \<Rightarrow> world \<Rightarrow> string \<Rightarrow> string \<Rightarrow> string \<Rightarrow> string \<Rightarrow> string \<Rightarrow> string \<Rightarrow> action list \<times> bool \<times> string option"
where
  "create_item cfg w key secret item_code item_name item_group uom =
     (if \<not> truthy (erpnext_base_url cfg) then ([], False, Some ''ERPNext URL sozlanmagan.'')
      else ([CreateItem key secret item_code item_name item_group uom],
            w_create_item w key secret item_code item_name item_group uom))"

text \<open>
  \<open>_ensure_customer_exists\<close>.  The customer is looked up, and created when the lookup gives
  no document name; a document name obtained either way is stored on the assignment and
  announced in the chat.
\<close>

definition ensure_customer_exists ::
  "config \<Rightarrow> world \<Rightarrow> assignment \<Rightarrow> string option \<Rightarrow> string option \<Rightarrow> db \<Rightarrow> action list \<times> db"
where
  "ensure_customer_exists cfg w a key secret s =
     (if truthy (j_customer_docname a) then ([], s)
      else if \<not> truthy key \<or> \<not> truthy secret then ([], s)
      else if \<not> truthy (erpnext_base_url cfg) then ([], s)
      else
        let customer_name = derive_customer_name (j_title a) (j_chat_id a);
            (find_reqs, found, docname, detail) = find_customer cfg w (the key) (the secret) customer_name;
            (reqs, success, docname') =
              (if truthy docname then (find_reqs, True, docname)
               else
                 let (create_reqs, ok, created, detail') =
                       create_customer cfg w (the key) (the secret) customer_name
                 in (find_reqs @ create_reqs, ok, created))
        in if \<not> success then (reqs, s)
           else if \<not> truthy docname' then (reqs, s)
           else
             (reqs @ [SendMessage (j_chat_id a)
                (''Yangi mijoz yaratildi: '' @ customer_name @ '' ('' @ the docname' @ '').'')],
              snd (store_customer_doc (j_chat_id a) (the docname') s)))"

subsection \<open>The credential handshake\<close>

text \<open>\<open>assignment.get("credentials_status") or "pending_key"\<close>.\<close>

definition status_of :: "assignment \<Rightarrow> string" where
  "status_of a = (if truthy (j_credentials_status a) then the (j_credentials_status a) else ''pending_key'')"

text \<open>
  \<open>handle_private_message\<close>, for the sender's id and the text of the message (the filter of
  the handler lets only text messages through).
\<close>

definition handle_private_message :: "config \<Rightarrow> world \<Rightarrow> int \<Rightarrow> string \<Rightarrow> db \<Rightarrow> action list \<times> db" where
  "handle_private_message cfg w uid message_text s =
     (let text = py_strip message_text
      in if text = [] then ([], s)
         else
           case get_user_assignment s uid of
             None \<Rightarrow> ([ReplyText ''Siz sales manager sifatida tayinlanmagansiz.''], s)
           | Some a \<Rightarrow>
               if status_of a = ''pending_key'' then
                 (if \<not> validate_api_key text
                  then ([ReplyText ''API kalit formati noto'g'ri. Masalan: 3739e78cec4e139''], s)
                  else
                    case store_api_key uid text s of
                      (Inl e, s') \<Rightarrow> ([Raised e], s')
                    | (Inr u, s') \<Rightarrow>
                        ([ReplyText ''API kalit saqlandi. Endi API secret key yuboring.''], s'))
               else if status_of a = ''pending_secret'' then
                 (if \<not> validate_api_secret text
                  then ([ReplyText
                     ''API secret formati noto'g'ri. Masalan: 2a428d03deaceb8 (15-16 ta hex belgi)''], s)
                  else
                    let api_key = (if truthy (j_api_key a) then the (j_api_key a) else []);
                        (reqs, verified, error_detail) = verify_credentials cfg w api_key text
                    in case store_api_secret uid text verified s of
                         (Inl e, s') \<Rightarrow> (reqs @ [Raised e], s')
                       | (Inr u, s') \<Rightarrow>
                           let (acts, s'') =
                                 (if verified then
                                    (let (ensured, s2) =
                                           ensure_customer_exists cfg w a (Some api_key) (Some text) s'
                                     in (ReplyText (''API kalit muvaffaqqiyatli kiritildi.'' @ newline @
                                           ''ERPNext bilan ham muvaffaqqiyatli ulandi.'') # ensured, s2))
                                  else
                                    (let extra = (if truthy error_detail
                                                  then newline @ ''Ma'lumot: '' @ the error_detail else [])
                                     in ([ReplyText (''API secret saqlandi, biroq ERPNext bilan ulanish amalga oshmadi. Lutfan ma'lumotlarni tekshiring.'' @ extra)], s')));
                               label = format_assignment_label a;
                               group_message =
                                 (if verified then label @ '' ERPNext API kalitlarini kiritdi.''
                                  else label @ '' API ma'lumotlarini yubordi, ammo ERPNext bilan ulanish amalga oshmadi.'')
                           in (reqs @ acts @ [SendMessage (j_chat_id a) group_message], s''))
               else ([ReplyText ''API ma'lumotlari allaqachon saqlangan. Yangi Item jarayonini guruhda /new orqali boshlang.''], s))"

text \<open>\<open>handle_reset_api\<close>, for a message in a private chat (\<open>private\<close>) or elsewhere.\<close>

definition handle_reset_api :: "bool \<Rightarrow> int \<Rightarrow> db \<Rightarrow> action list \<times> db" where
  "handle_reset_api private uid s =
     (if \<not> private then ([], s)
      else
        case get_user_assignment s uid of
          None \<Rightarrow> ([ReplyText ''Sizga hali guruh biriktirilmagan.''], s)
        | Some a \<Rightarrow>
            case reset_credentials uid s of
              (Inl e, s') \<Rightarrow> ([Raised e], s')
            | (Inr u, s') \<Rightarrow>
                ([ReplyText ''API kalitlari reset qilindi. Iltimos, yangi API kalitni yuboring.'',
                  SendMessage (j_chat_id a) (format_assignment_label a @ '' API kalitlarini yangilamoqda.'')],
                 s'))"

text \<open>\<open>handle_clear_assignments\<close>.\<close>

definition handle_clear_assignments :: "config \<Rightarrow> int \<Rightarrow> db \<Rightarrow> action list \<times> db" where
  "handle_clear_assignments cfg uid s =
     (if \<not> is_admin cfg uid then ([ReplyText ''Bu buyruq faqat adminlar uchun.''], s)
      else
        ([ReplyText ''Barcha sales manager tayinlovlari va API ma'lumotlari o'chirildi.''],
         snd (clear_all_assignments s)))"

subsection \<open>More Python built-ins\<close>

text \<open>\<open>str.lower\<close> on one code point below 256, and on a string.\<close>

definition lower_char :: "char \<Rightarrow> char" where
  "lower_char c =
     (let n = (of_char c :: nat)
      in if (65 \<le> n \<and> n \<le> 90) \<or> (192 \<le> n \<and> n \<le> 222 \<and> n \<noteq> 215) then char_of (n + 32) else c)"

definition py_lower :: "string \<Rightarrow> string" where
  "py_lower t = map lower_char t"

text \<open>
  \<open>s.split(sep, maxsplit)\<close> for a separator of one character: \<open>split_on n sep cur s\<close> cuts at
  the first \<open>n\<close> separators, with the part read so far in \<open>cur\<close>.  \<open>s.split(sep)\<close> cuts at
  every separator.
\<close>

fun split_on :: "nat \<Rightarrow> char \<Rightarrow> string \<Rightarrow> string \<Rightarrow> string list" where
  "split_on n sep cur [] = [cur]"
| "split_on n sep cur (c # cs) =
     (if c = sep \<and> 0 < n then cur # split_on (n - 1) sep [] cs else split_on n sep (cur @ [c]) cs)"

definition py_split_max :: "char \<Rightarrow> nat \<Rightarrow> string \<Rightarrow> string list" where
  "py_split_max sep maxsplit t = split_on maxsplit sep [] t"

definition py_split_sep :: "char \<Rightarrow> string \<Rightarrow> string list" where
  "py_split_sep sep t = split_on (length t) sep [] t"

text \<open>
  \<open>int(s)\<close> for a string: whitespace at both ends is dropped, a sign may come first, then
  decimal digits, where single underscores may stand between two digits.  \<open>None\<close> stands
  for \<open>ValueError\<close>.  The whitespace of \<open>int\<close> is tab to carriage return, the space, and the
  blanks 133 and 160; the separators 28 to 31, which \<open>str.strip\<close> drops, are an error here.
\<close>

definition int_isspace :: "char \<Rightarrow> bool" where
  "int_isspace c =
     (let n = (of_char c :: nat)
      in (9 \<le> n \<and> n \<le> 13) \<or> n = 32 \<or> n = 133 \<or> n = 160)"

definition is_digit :: "char \<Rightarrow> bool" where
  "is_digit c = (let n = (of_char c :: nat) in 48 \<le> n \<and> n \<le> 57)"

fun digits_ok :: "string \<Rightarrow> bool" where
  "digits_ok [] = False"
| "digits_ok [c] = is_digit c"
| "digits_ok (c # d # cs) =
     (is_digit c \<and> (if d = CHR ''_'' then digits_ok cs else digits_ok (d # cs)))"

definition digits_value :: "string \<Rightarrow> int" where
  "digits_value ds = foldl (\<lambda>acc c. 10 * acc + (int (of_char c) - 48)) 0 (filter is_digit ds)"

definition py_int :: "string \<Rightarrow> int option" where
  "py_int t =
     (let u = rev (dropWhile int_isspace (rev (dropWhile int_isspace t)));
          (negative, body) =
            (case u of
               [] \<Rightarrow> (False, [])
             | c # cs \<Rightarrow>
                 if c = CHR ''-'' then (True, cs)
                 else if c = CHR ''+'' then (False, cs)
                 else (False, u))
      in if digits_ok body
         then Some (if negative then - digits_value body else digits_value body)
         else None)"

text \<open>Rows of two, as the loops over \<open>CHOICE_COLUMNS\<close> and \<open>_chunk(candidates, size=2)\<close> build them.\<close>

fun rows_of_two :: "'a list \<Rightarrow> 'a list list" where
  "rows_of_two [] = []"
| "rows_of_two [x] = [[x]]"
| "rows_of_two (x # y # zs) = [x, y] # rows_of_two zs"

text \<open>A dict as an association list: \<open>d[k] = v\<close> replaces the entry of \<open>k\<close> or adds one.\<close>

fun dict_set :: "'k \<Rightarrow> 'v \<Rightarrow> ('k \<times> 'v) list \<Rightarrow> ('k \<times> 'v) list" where
  "dict_set k v [] = [(k, v)]"
| "dict_set k v (p # ps) = (if fst p = k then (k, v) # ps else p # dict_set k v ps)"

subsection \<open>Choice menus\<close>

definition CHOICE_PAGE_SIZE :: int where
  "CHOICE_PAGE_SIZE = 6"

text \<open>\<open>CHOICE_CONFIG\<close>: for each kind, the key of its option list in the draft and its prompt.\<close>

definition CHOICE_CONFIG :: "string \<Rightarrow> (string \<times> string) option" where
  "CHOICE_CONFIG kind =
     (if kind = ''item_group''
      then Some (''item_groups'', ''3-qadam: Item Group tanlang (tugmani bosing yoki nomini yozing).'')
      else if kind = ''uom''
      then Some (''uoms'', ''4-qadam: O'lchov birligini tanlang (tugmani bosing yoki nomini yozing).'')
      else None)"

text \<open>\<open>(draft.get("choices") or {}).get(key, [])\<close> and \<open>pages.get(kind, 0)\<close>.\<close>

definition choices_of :: "draft \<Rightarrow> string \<Rightarrow> string list" where
  "choices_of d key = (case map_of (choices d) key of None \<Rightarrow> [] | Some options \<Rightarrow> options)"

definition page_of :: "draft \<Rightarrow> string \<Rightarrow> int" where
  "page_of d kind = (case map_of (pages d) kind of None \<Rightarrow> 0 | Some p \<Rightarrow> p)"

text \<open>\<open>_match_choice\<close>.\<close>

definition match_choice :: "string \<Rightarrow> string list \<Rightarrow> string option" where
  "match_choice text_value options =
     (if options = [] then Some text_value
      else find (\<lambda>option. py_lower option = py_lower text_value) options)"

text \<open>Where a handler shows a menu: in a reply to a message, or in place of the message of a button.\<close>

datatype target = ViaMessage | ViaQuery

definition pick_button :: "string \<Rightarrow> int \<Rightarrow> int \<Rightarrow> int \<Rightarrow> string \<Rightarrow> button" where
  "pick_button kind cid uid idx option =
     \<lparr>b_label = (if length option \<le> 32 then option else take 29 option @ ellipsis),
      b_callback_data = ''pick_'' @ kind @ '':'' @ py_str cid @ '':'' @ py_str uid @ '':'' @ py_str idx\<rparr>"

definition page_button :: "string \<Rightarrow> string \<Rightarrow> int \<Rightarrow> int \<Rightarrow> int \<Rightarrow> button" where
  "page_button label kind cid uid page =
     \<lparr>b_label = label,
      b_callback_data = ''page_'' @ kind @ '':'' @ py_str cid @ '':'' @ py_str uid @ '':'' @ py_str page\<rparr>"

text \<open>
  \<open>_send_choice_keyboard\<close>.  It returns what it sends and the draft with the page it showed
  written into \<open>pages\<close>; that draft is the caller's dict, which no caller saves afterwards.
\<close>

definition send_choice_keyboard :: "string \<Rightarrow> draft \<Rightarrow> int \<Rightarrow> int \<Rightarrow> target \<Rightarrow> action list \<times> draft" where
  "send_choice_keyboard kind d cid uid tgt =
     (case CHOICE_CONFIG kind of
        None \<Rightarrow> ([], d)
      | Some (choices_key, prompt) \<Rightarrow>
          let options = choices_of d choices_key
          in if options = []
             then ([case tgt of
                      ViaQuery \<Rightarrow> EditMessageText ''Tanlash uchun ma'lumot topilmadi.''
                    | ViaMessage \<Rightarrow> ReplyText ''Tanlash uchun ma'lumot topilmadi.''], d)
             else
               let page0 = page_of d kind;
                   max_page = max 0 ((int (length options) - 1) div CHOICE_PAGE_SIZE);
                   page = max 0 (min page0 max_page);
                   d' = d\<lparr>pages := dict_set kind page (pages d)\<rparr>;
                   start = page * CHOICE_PAGE_SIZE;
                   end = min (int (length options)) (start + CHOICE_PAGE_SIZE);
                   chunk = take (nat (end - start)) (drop (nat start) options);
                   rows = rows_of_two
                     (map (\<lambda>(idx, option). pick_button kind cid uid idx option)
                        (zip (map (\<lambda>i. start + int i) [0..<length chunk]) chunk));
                   nav_buttons =
                     (if page > 0 then [page_button (left_arrow @ '' Oldingi'') kind cid uid (page - 1)] else []) @
                     (if end < int (length options)
                      then [page_button (''Keyingi '' @ right_arrow) kind cid uid (page + 1)] else []);
                   rows' = (if nav_buttons \<noteq> [] then rows @ [nav_buttons] else rows);
                   info = ''Sahifa '' @ py_str (page + 1) @ ''/'' @ py_str (max_page + 1) @
                          ''. Jami: '' @ py_str (int (length options)) @ ''.'';
                   text = prompt @ newline @ info
               in ([case tgt of
                      ViaQuery \<Rightarrow> EditKeyboard text rows'
                    | ViaMessage \<Rightarrow> ReplyKeyboard text rows'], d'))"

subsection \<open>The item draft\<close>

text \<open>
  \<open>_prompt_item_group\<close> and \<open>_prompt_uom\<close>.  \<open>message_chat\<close> is the chat of the message the
  handler answers; \<open>draft.setdefault("chat_id", \<dots>)\<close> sets the chat only when the draft has
  none.
\<close>

definition prompt_item_group ::
  "config \<Rightarrow> world \<Rightarrow> string \<Rightarrow> int \<Rightarrow> int \<Rightarrow> draft \<Rightarrow> string \<Rightarrow> string \<Rightarrow> db \<Rightarrow> action list \<times> db"
where
  "prompt_item_group cfg w now uid message_chat d key secret s =
     (let (reqs, success, error_detail, groups) =
            fetch_resource_names cfg w key secret ''Item Group'' 500
      in if \<not> success \<or> groups = []
         then
           (let extra = (if truthy error_detail then newline @ ''Ma'lumot: '' @ the error_detail else [])
            in (reqs @ [ReplyText (''Item group ro'yxatini olishda xatolik yuz berdi.'' @ extra)],
                snd (delete_item_draft uid s)))
         else
           let d' = d\<lparr>stage := Some ''await_item_group'',
                      choices := dict_set ''item_groups'' groups (choices d),
                      pages := dict_set ''item_group'' 0 (pages d),
                      d_chat_id := (case d_chat_id d of None \<Rightarrow> Some message_chat | Some c \<Rightarrow> Some c)\<rparr>
           in (reqs @ fst (send_choice_keyboard ''item_group'' d' message_chat uid ViaMessage),
               snd (save_item_draft now uid d' s)))"

definition prompt_uom ::
  "config \<Rightarrow> world \<Rightarrow> string \<Rightarrow> int \<Rightarrow> int \<Rightarrow> draft \<Rightarrow> string \<Rightarrow> string \<Rightarrow> db \<Rightarrow> action list \<times> db"
where
  "prompt_uom cfg w now uid message_chat d key secret s =
     (let (reqs, success, error_detail, uoms) = fetch_resource_names cfg w key secret ''UOM'' 500
      in if \<not> success \<or> uoms = []
         then
           (let extra = (if truthy error_detail then newline @ ''Ma'lumot: '' @ the error_detail else [])
            in (reqs @ [ReplyText (''O'lchov birliklari ro'yxatini olishda xatolik yuz berdi.'' @ extra)],
                snd (delete_item_draft uid s)))
         else
           let d' = d\<lparr>stage := Some ''await_uom'',
                      choices := dict_set ''uoms'' uoms (choices d),
                      pages := dict_set ''uom'' 0 (pages d)\<rparr>
           in (reqs @ fst (send_choice_keyboard ''uom'' d' message_chat uid ViaMessage) @
                 (if truthy (bot_username cfg)
                  then [ReplyKeyboard
                          ''Yuqoridagi tugmalar bilan tanlang yoki pastdagi qidiruv tugmasini bosing.''
                          [[\<lparr>b_label = magnifier @ '' UOM qidirish'', b_callback_data = []\<rparr>]]]
                  else []),
               snd (save_item_draft now uid d' s)))"

text \<open>
  \<open>_progress_item_creation\<close>.  \<open>d\<close> is the caller's draft; \<open>data[k]\<close> of a key that is missing
  raises \<open>KeyError\<close>.
\<close>

definition progress_item_creation ::
  "config \<Rightarrow> world \<Rightarrow> string \<Rightarrow> int \<Rightarrow> int \<Rightarrow> assignment \<Rightarrow> draft \<Rightarrow> string \<Rightarrow> db \<Rightarrow> action list \<times> db"
where
  "progress_item_creation cfg w now uid message_chat a d txt s =
     (if \<not> truthy (j_api_key a) \<or> \<not> truthy (j_api_secret a)
      then ([ReplyText ''API credentiallari topilmadi. Avval ularni qayta kiriting.''],
            snd (delete_item_draft uid s))
      else
        let api_key = the (j_api_key a);
            api_secret = the (j_api_secret a);
            text_value = py_strip txt
        in if text_value = []
           then ([ReplyText ''Bo'sh qiymat qabul qilinmaydi. Qaytadan kiriting.''], s)
           else if stage d = Some ''await_item_code''
           then
             ([ReplyText ''2-qadam: Item Name ni kiriting.''],
              snd (save_item_draft now uid
                     (d\<lparr>data := dict_set ''item_code'' text_value (data d),
                        stage := Some ''await_item_name''\<rparr>) s))
           else if stage d = Some ''await_item_name''
           then
             prompt_item_group cfg w now uid message_chat
               (d\<lparr>data := dict_set ''item_name'' text_value (data d)\<rparr>) api_key api_secret s
           else if stage d = Some ''await_item_group''
           then
             (let selected = match_choice text_value (choices_of d ''item_groups'')
              in if \<not> truthy selected
                 then ([ReplyText
                    ''Noto'g'ri item group. Ro'yxatdan birini tanlang yoki aniq nomini kiriting.''], s)
                 else
                   prompt_uom cfg w now uid message_chat
                     (d\<lparr>data := dict_set ''item_group'' (the selected) (data d)\<rparr>) api_key api_secret s)
           else if stage d = Some ''await_uom''
           then
             (let selected = match_choice text_value (choices_of d ''uoms'')
              in if \<not> truthy selected
                 then ([ReplyText
                    ''Noto'g'ri o'lchov birligi. Ro'yxatdan birini tanlang yoki aniq nomini kiriting.''], s)
                 else
                   let data' = dict_set ''stock_uom'' (the selected) (data d)
                   in case (map_of data' ''item_code'', map_of data' ''item_name'',
                            map_of data' ''item_group'') of
                        (Some item_code, Some item_name, Some item_group) \<Rightarrow>
                          (let (reqs, success, error_detail) =
                                 create_item cfg w api_key api_secret item_code item_name item_group
                                   (the selected)
                           in if success
                              then
                                (reqs @ [ReplyText
                                   (check_mark @ '' Item ERPNext ga muvaffaqiyatli yaratildi.'' @ newline @
                                    bullet @ '' Item Code: '' @ item_code @ newline @
                                    bullet @ '' Item Name: '' @ item_name @ newline @
                                    bullet @ '' Item Group: '' @ item_group @ newline @
                                    bullet @ '' UOM: '' @ the selected)],
                                 snd (delete_item_draft uid s))
                              else
                                (let extra = (if truthy error_detail
                                              then newline @ ''Ma'lumot: '' @ the error_detail else [])
                                 in (reqs @ [ReplyText (''Item yaratishda xatolik yuz berdi.'' @ extra)], s)))
                      | (None, _, _) \<Rightarrow> ([Raised (KeyError ''item_code'')], s)
                      | (_, None, _) \<Rightarrow> ([Raised (KeyError ''item_name'')], s)
                      | (_, _, None) \<Rightarrow> ([Raised (KeyError ''item_group'')], s))
           else
             ([ReplyText ''Jarayon topilmadi. /new orqali qayta boshlang.''],
              snd (delete_item_draft uid s)))"

text \<open>
  \<open>_maybe_progress_group_item_flow\<close>, for the chat, the sender and the text of a group
  message.
\<close>

definition maybe_progress_group_item_flow ::
  "config \<Rightarrow> world \<Rightarrow> string \<Rightarrow> int \<Rightarrow> int \<Rightarrow> string \<Rightarrow> db \<Rightarrow> action list \<times> db"
where
  "maybe_progress_group_item_flow cfg w now cid uid message_text s =
     (let text = py_strip message_text
      in if text = [] then ([], s)
         else
           case get_group_assignment s cid of
             None \<Rightarrow> ([], s)
           | Some a \<Rightarrow>
               if j_user_id a \<noteq> uid \<or> j_credentials_status a \<noteq> Some ''active'' then ([], s)
               else
                 case get_item_draft s uid of
                   None \<Rightarrow> ([], s)
                 | Some d \<Rightarrow>
                     if \<not> truthy (stage d) then ([], s)
                     else if d_chat_id d \<noteq> None \<and> d_chat_id d \<noteq> Some 0 \<and> d_chat_id d \<noteq> Some cid
                     then
                       ([ReplyText
                           ''Item yaratish boshqa guruhda boshlangan. /new bilan shu guruhda qayta boshlang.''],
                        snd (delete_item_draft uid s))
                     else
                       progress_item_creation cfg w now uid cid a
                         (d\<lparr>d_chat_id := (case d_chat_id d of None \<Rightarrow> Some cid | Some c \<Rightarrow> Some c)\<rparr>)
                         text s)"

text \<open>
  A Telegram user as the handlers read it, and \<open>handle_group_activity\<close> for a chat, its
  title, the sender when the update has one, and the text of the message when it has one.
\<close>

record tg_user =
  tg_id :: int
  tg_username :: "string option"
  tg_first_name :: "string option"
  tg_last_name :: "string option"
  tg_is_bot :: bool

definition record_tg_user :: "string \<Rightarrow> tg_user \<Rightarrow> db \<Rightarrow> (error + bool) \<times> db" where
  "record_tg_user now u = record_user now (tg_id u) (tg_username u) (tg_first_name u) (tg_last_name u)"

definition handle_group_activity ::
  "config \<Rightarrow> world \<Rightarrow> string \<Rightarrow> int \<Rightarrow> string option \<Rightarrow> tg_user option \<Rightarrow> string option \<Rightarrow> db
     \<Rightarrow> action list \<times> db"
where
  "handle_group_activity cfg w now cid ttl user message_text s =
     (case record_group_chat now cid ttl s of
        (Inl e, s1) \<Rightarrow> ([Raised e], s1)
      | (Inr u, s1) \<Rightarrow>
          case user of
            None \<Rightarrow> ([], s1)
          | Some usr \<Rightarrow>
              if tg_is_bot usr then ([], s1)
              else
                case record_tg_user now usr s1 of
                  (Inl e, s2) \<Rightarrow> ([Raised e], s2)
                | (Inr created, s2) \<Rightarrow>
                    maybe_progress_group_item_flow cfg w now cid (tg_id usr)
                      (case message_text of None \<Rightarrow> [] | Some t \<Rightarrow> t) s2)"

text \<open>\<open>handle_new_item\<close>, for a chat that is a group or supergroup (\<open>in_group\<close>) or not.\<close>

definition handle_new_item :: "config \<Rightarrow> world \<Rightarrow> string \<Rightarrow> bool \<Rightarrow> int \<Rightarrow> int \<Rightarrow> db \<Rightarrow> action list \<times> db" where
  "handle_new_item cfg w now in_group cid uid s =
     (if \<not> in_group then ([ReplyText ''Bu buyruq faqat guruh chatida ishlaydi.''], s)
      else
        case get_group_assignment s cid of
          None \<Rightarrow>
            ([ReplyText ''Faqat ushbu guruhga tayinlangan sales manager /new yozishi mumkin.''], s)
        | Some a \<Rightarrow>
            if j_user_id a \<noteq> uid
            then ([ReplyText ''Faqat ushbu guruhga tayinlangan sales manager /new yozishi mumkin.''], s)
            else if j_credentials_status a \<noteq> Some ''active''
            then ([ReplyText ''Avval ERPNext API kalitlarini to'liq tasdiqlang.''], s)
            else if \<not> truthy (erpnext_base_url cfg)
            then ([ReplyText ''ERPNext URL sozlanmagan. Administrator bilan bog'laning.''], s)
            else
              let (ensured, s1) = ensure_customer_exists cfg w a (j_api_key a) (j_api_secret a) s;
                  d = \<lparr>stage = Some ''await_item_code'', data = [], d_chat_id = Some cid,
                       choices = [], pages = []\<rparr>
              in (ensured @
                  [ReplyText (''Yangi Item yaratishni boshladik.'' @ newline @
                     ''1-qadam: Item Code (ID) ni kiriting. Masalan: ITEM-001'' @ newline @
                     ''Har bir qadamga javobni shu guruhda yozing. Jarayonni qayta boshlash uchun /new ni yana kiriting.'')],
                  snd (save_item_draft now uid d s1)))"

text \<open>
  \<open>handle_choice_callback\<close>, for the user who pressed the button, the \<open>callback_data\<close> of the
  button, and the chat of the message that carries it when the query has that message.
\<close>

definition handle_choice_callback ::
  "config \<Rightarrow> world \<Rightarrow> string \<Rightarrow> int \<Rightarrow> string \<Rightarrow> int option \<Rightarrow> db \<Rightarrow> action list \<times> db"
where
  "handle_choice_callback cfg w now from_user query_data message_chat s =
     (if query_data = [] then ([], s)
      else
        case py_split_max (CHR '':'') 3 query_data of
          [act, chat_id_raw, user_id_raw, val] \<Rightarrow>
            (case (py_int chat_id_raw, py_int user_id_raw) of
               (Some cid, Some target_user_id) \<Rightarrow>
                 if from_user \<noteq> target_user_id
                 then ([Answer (Some ''Bu tugmalar siz uchun emas.'') True], s)
                 else
                   (case get_group_assignment s cid of
                      None \<Rightarrow> ([Answer (Some ''Guruh tayinlanishi topilmadi.'') True], s)
                    | Some a \<Rightarrow>
                        if j_user_id a \<noteq> target_user_id
                        then ([Answer (Some ''Guruh tayinlanishi topilmadi.'') True], s)
                        else if j_credentials_status a \<noteq> Some ''active''
                        then ([Answer (Some ''Avval API credentiallari tasdiqlansin.'') True], s)
                        else
                          (case get_item_draft s target_user_id of
                             None \<Rightarrow>
                               ([Answer (Some ''Jarayon topilmadi. /new bilan qayta boshlang.'') True], s)
                           | Some d \<Rightarrow>
                               if d_chat_id d \<noteq> Some cid
                               then ([Answer (Some ''Jarayon topilmadi. /new bilan qayta boshlang.'') True],
                                     snd (delete_item_draft target_user_id s))
                               else if take 5 act = ''page_''
                               then
                                 (let kind = drop 5 act
                                  in if CHOICE_CONFIG kind = None
                                     then ([Answer (Some ''Noto'g'ri tur.'') True], s)
                                     else
                                       case py_int val of
                                         None \<Rightarrow> ([Answer (Some ''Noto'g'ri sahifa.'') True], s)
                                       | Some v \<Rightarrow>
                                           let d' = d\<lparr>pages := dict_set kind (max 0 v) (pages d)\<rparr>
                                           in (fst (send_choice_keyboard kind d' cid target_user_id ViaQuery) @
                                                 [Answer None False],
                                               snd (save_item_draft now target_user_id d' s)))
                               else if take 5 act = ''pick_''
                               then
                                 (let kind = drop 5 act
                                  in case py_int val of
                                       None \<Rightarrow> ([Answer (Some ''Noto'g'ri tanlov.'') True], s)
                                     | Some index \<Rightarrow>
                                         case CHOICE_CONFIG kind of
                                           None \<Rightarrow> ([Answer (Some ''Noto'g'ri tur.'') True], s)
                                         | Some (choices_key, prompt) \<Rightarrow>
                                             let options = choices_of d choices_key
                                             in if index < 0 \<or> index \<ge> int (length options)
                                                then ([Answer (Some ''Variant topilmadi.'') True], s)
                                                else
                                                  let selected = options ! nat index;
                                                      (sent, msg_chat) =
                                                        (case message_chat of
                                                           Some c \<Rightarrow> ([], c)
                                                         | None \<Rightarrow>
                                                             ([SendMessage cid (selected @ '' tanlandi.'')], cid));
                                                      (acts, s') =
                                                        progress_item_creation cfg w now target_user_id
                                                          msg_chat a d selected s
                                                  in ([Answer (Some (selected @ '' tanlandi.'')) False,
                                                       EditMessageText (selected @ '' tanlandi.'')] @
                                                      sent @ acts, s'))
                               else ([Answer (Some ''Noma'lum amal.'') True], s)))
             | _ \<Rightarrow> ([Answer (Some ''Noto'g'ri format.'') True], s))
        | _ \<Rightarrow> ([Answer (Some ''Noto'g'ri format.'') True], s))"

text \<open>\<open>handle_start\<close>, for a private chat (\<open>private\<close>) or another one, with its title.\<close>

definition handle_start ::
  "string \<Rightarrow> bool \<Rightarrow> int \<Rightarrow> string option \<Rightarrow> tg_user \<Rightarrow> db \<Rightarrow> action list \<times> db"
where
  "handle_start now private cid ttl usr s =
     (case record_tg_user now usr s of
        (Inl e, s1) \<Rightarrow> ([Raised e], s1)
      | (Inr created, s1) \<Rightarrow>
          if private then
            (let greeting =
                   (case get_user_assignment s1 (tg_id usr) of
                      Some a \<Rightarrow>
                        if status_of a = ''pending_key''
                        then ''Siz '' @ dquote @ (if truthy (j_title a) then the (j_title a) else py_str (j_chat_id a)) @
                             dquote @ '' guruhida sales manager sifatida tayinlandingiz.'' @ newline @
                             ''Iltimos ERPNext profilidan API kalitni (masalan: 3739e78cec4e139) yozib yuboring.''
                        else if status_of a = ''pending_secret''
                        then ''API kalit saqlangan. Endi ERPNext profilidagi API secret ni yuboring (masalan: 2a428d03deaceb8).''
                        else ''ERPNext API kalitlari saqlangan. Agar yangilash kerak bo'lsa, admin bilan bog'laning.''
                    | None \<Rightarrow>
                        ''Assalomu alaykum!'' @ newline @ newline @
                        ''Sales manager tanlovi admin tomonidan amalga oshirilgach, bot sizga shaxsiy xabar yuboradi.'')
             in ([SendMessage cid greeting], s1))
          else
            case record_group_chat now cid ttl s1 of
              (Inl e, s2) \<Rightarrow> ([Raised e], s2)
            | (Inr u, s2) \<Rightarrow>
                ([ReplyText (''Salom! Bu bot orqali guruh uchun bitta sales manager tayinlanadi.'' @ newline @
                    ''Admin uchun buyruq: `/assign_manager`'')], s2))"

text \<open>\<open>handle_assign_command\<close>.\<close>

definition handle_assign_command ::
  "config \<Rightarrow> string \<Rightarrow> bool \<Rightarrow> int \<Rightarrow> string option \<Rightarrow> int \<Rightarrow> db \<Rightarrow> action list \<times> db"
where
  "handle_assign_command cfg now in_group cid ttl uid s =
     (if \<not> in_group then ([ReplyText ''Bu buyruq faqat guruhlarda ishlaydi.''], s)
      else if \<not> is_admin cfg uid then ([ReplyText ''Bu buyruq faqat administrator uchun.''], s)
      else
        case record_group_chat now cid ttl s of
          (Inl e, s1) \<Rightarrow> ([Raised e], s1)
        | (Inr u, s1) \<Rightarrow>
            case get_group_assignment s1 cid of
              Some existing \<Rightarrow>
                ([ReplyText (''Bu guruh uchun allaqachon sales manager tayinlangan: '' @
                    (let label = py_strip (py_join '' ''
                           (filter (\<lambda>part. part \<noteq> [])
                              [case j_first_name existing of None \<Rightarrow> [] | Some n \<Rightarrow> n,
                               case j_last_name existing of None \<Rightarrow> [] | Some n \<Rightarrow> n]));
                         label' = (if label = [] \<and> truthy (j_username existing)
                                   then CHR ''@'' # the (j_username existing) else label)
                     in if label' = [] then py_str (j_user_id existing) else label') @ ''.'')], s1)
            | None \<Rightarrow>
                let candidates = list_unassigned_users s1 25
                in if candidates = []
                   then ([ReplyText (''Hali hech kim botga shaxsiy chatda /start yubormagan. '' @
                            ''Iltimos, nomzodlar /start yuborsin.'')], s1)
                   else
                     ([ReplyKeyboard
                         (''Sales manager qilib tayinlamoqchi bo'lgan foydalanuvchini tanlang.'' @ newline @
                          ''Ro'yxatda ko'rinmasa, ular botga /start yuborganini tekshiring.'')
                         (map (map (\<lambda>c. \<lparr>b_label = display_label c,
                                         b_callback_data = ''assign_sm:'' @ py_str cid @ '':'' @
                                           py_str (cand_telegram_id c)\<rparr>))
                            (rows_of_two candidates))], s1))"

text \<open>
  \<open>handle_assign_callback\<close>, for the user who pressed the button, the \<open>callback_data\<close>, and
  the chat (id and title) of the message that carries the button when the query has it.
\<close>

definition handle_assign_callback ::
  "config \<Rightarrow> world \<Rightarrow> string \<Rightarrow> int \<Rightarrow> string \<Rightarrow> (int \<times> string option) option \<Rightarrow> db \<Rightarrow> action list \<times> db"
where
  "handle_assign_callback cfg w now from_user query_data message_chat s =
     (if \<not> is_admin cfg from_user
      then ([Answer None False, EditMessageText ''Faqat administrator tanlovni tasdiqlashi mumkin.''], s)
      else
        case py_split_sep (CHR '':'') query_data of
          [act, chat_id_raw, candidate_id_raw] \<Rightarrow>
            (case (py_int chat_id_raw, py_int candidate_id_raw) of
               (Some cid, Some candidate_id) \<Rightarrow>
                 (case message_chat of
                    None \<Rightarrow> ([Answer None False, EditMessageText ''Tanlov bu guruhga tegishli emas.''], s)
                  | Some (message_cid, ttl) \<Rightarrow>
                      if message_cid \<noteq> cid
                      then ([Answer None False, EditMessageText ''Tanlov bu guruhga tegishli emas.''], s)
                      else
                        case record_group_chat now cid ttl s of
                          (Inl e, s1) \<Rightarrow> ([Answer None False, Raised e], s1)
                        | (Inr u, s1) \<Rightarrow>
                            case get_user s1 candidate_id of
                              None \<Rightarrow>
                                ([Answer None False,
                                  EditMessageText ''Bu foydalanuvchi botga /start yubormagan.''], s1)
                            | Some candidate \<Rightarrow>
                                if \<not> w_chat_member w cid candidate_id
                                then ([Answer None False,
                                       EditMessageText ''Foydalanuvchi guruh a'zosi emas yoki aniqlanmadi.''], s1)
                                else
                                  case assign_sales_manager now cid candidate_id s1 of
                                    (Inl (AssignmentError msg), s2) \<Rightarrow>
                                      ([Answer None False, EditMessageText msg], s2)
                                  | (Inl e, s2) \<Rightarrow> ([Answer None False, Raised e], s2)
                                  | (Inr u', s2) \<Rightarrow>
                                      let private_message =
                                            party @ '' Tabriklaymiz!'' @ newline @ newline @
                                            ''Siz '' @ dquote @ (if truthy ttl then the ttl else py_str cid) @
                                            dquote @ '' guruhida sales manager sifatida tayinlandingiz.'' @ newline @
                                            ''Bot orqali keladigan so'rovlarni kuzatib boring.'' @ newline @ newline @
                                            ''Endi ERPNext profilidan API kalitni shu chatga yuboring (masalan: 3739e78cec4e139).'' @ newline @
                                            ''Kalit saqlangach bot sizdan API secret ni so'raydi.'';
                                          dm_status =
                                            (if w_can_message w candidate_id
                                             then ''Shaxsiy xabar yuborildi.''
                                             else ''Foydalanuvchiga shaxsiy xabar yuborilmadi. '' @
                                                  ''Iltimos, ularga botga /start yuborishlarini eslatib qo'ying.'')
                                      in ([Answer None False, SendMessage candidate_id private_message,
                                           EditMessageText (display_label candidate @
                                             '' sales manager sifatida tayinlandi.'' @ newline @ dm_status)],
                                          s2))
             | _ \<Rightarrow> ([Answer None False, EditMessageText ''Tanlov ma'lumotlari buzilgan.''], s))
        | _ \<Rightarrow> ([Answer None False, EditMessageText ''Noto'g'ri format.''], s))"

subsection \<open>Inbound events\<close>

text \<open>
  One constructor for each handler that \<open>_register_handlers\<close> registers and that may write
  to the store.  \<open>handle_help\<close>, \<open>handle_status\<close>, \<open>handle_report\<close> and \<open>handle_inline_query\<close>
  only read it; \<open>ReadOnly\<close> stands for them.  The application handles one update after the
  other, so an event is one step; it comes with the outside world and the clock of its
  moment.
\<close>

datatype event =
    Start bool int "string option" tg_user
  | GroupActivity int "string option" "tg_user option" "string option"
  | PrivateMessage int string
  | ResetApi bool int
  | ClearAssignments int
  | NewItem bool int int
  | AssignCommand bool int "string option" int
  | AssignCallback int string "(int \<times> string option) option"
  | ChoiceCallback int string "int option"
  | ReadOnly

fun handle :: "config \<Rightarrow> world \<Rightarrow> string \<Rightarrow> event \<Rightarrow> db \<Rightarrow> action list \<times> db" where
  "handle cfg w now (Start private cid ttl usr) s = handle_start now private cid ttl usr s"
| "handle cfg w now (GroupActivity cid ttl user message_text) s =
     handle_group_activity cfg w now cid ttl user message_text s"
| "handle cfg w now (PrivateMessage uid message_text) s = handle_private_message cfg w uid message_text s"
| "handle cfg w now (ResetApi private uid) s = handle_reset_api private uid s"
| "handle cfg w now (ClearAssignments uid) s = handle_clear_assignments cfg uid s"
| "handle cfg w now (NewItem in_group cid uid) s = handle_new_item cfg w now in_group cid uid s"
| "handle cfg w now (AssignCommand in_group cid ttl uid) s = handle_assign_command cfg now in_group cid ttl uid s"
| "handle cfg w now (AssignCallback from_user query_data message_chat) s =
     handle_assign_callback cfg w now from_user query_data message_chat s"
| "handle cfg w now (ChoiceCallback from_user query_data message_chat) s =
     handle_choice_callback cfg w now from_user query_data message_chat s"
| "handle cfg w now ReadOnly s = ([], s)"

definition run_events :: "config \<Rightarrow> (world \<times> string \<times> event) list \<Rightarrow> db \<Rightarrow> db" where
  "run_events cfg inputs s = fold (\<lambda>(w, now, ev) s'. snd (handle cfg w now ev s')) inputs s"

section \<open>Predicates of the proofs\<close>

text \<open>A token of \<open>str.split\<close>: not empty, and free of whitespace.\<close>

definition token :: "string \<Rightarrow> bool" where
  "token t \<longleftrightarrow> t \<noteq> [] \<and> (\<forall>c\<in>set t. \<not> py_isspace c)"

text \<open>The two uniqueness constraints of the table \<open>assignments\<close>.\<close>

definition uniq :: "db \<Rightarrow> bool" where
  "uniq s \<longleftrightarrow> distinct (map a_chat_id (assignments s)) \<and> distinct (map user_id (assignments s))"

text \<open>The customer name in a request to ERPNext, when the request carries one.\<close>

fun request_name :: "action \<Rightarrow> string option" where
  "request_name (FindCustomer key secret name) = Some name"
| "request_name (CreateCustomer key secret name) = Some name"
| "request_name other = None"

section \<open>Example inputs\<close>

text \<open>
  A configuration with a base URL and administrator 1; a world in which ERPNext refuses
  the credentials (\<open>world_refusing\<close>) and one in which it accepts them (\<open>world_accepting\<close>);
  in both it knows no customer and creates \<open>CUST-1\<close>, and lists the options \<open>Box\<close> and \<open>kg\<close>.
\<close>

definition example_config :: config where
  "example_config = \<lparr>erpnext_base_url = Some ''http://erp'', admin_ids = [1], bot_username = None\<rparr>"

definition world_refusing :: world where
  "world_refusing =
     \<lparr>w_verify = (\<lambda>key secret. HttpResponse 401 ''denied''),
      w_find_customer = (\<lambda>key secret name. (True, None, None)),
      w_create_customer = (\<lambda>key secret name. (True, Some ''CUST-1'', None)),
      w_resource_names = (\<lambda>key secret doctype limit. (True, None, [''Box'', ''kg''])),
      w_create_item = (\<lambda>key secret item_code item_name item_group uom. (True, None)),
      w_chat_member = (\<lambda>cid uid. True),
      w_can_message = (\<lambda>uid. True)\<rparr>"

definition world_accepting :: world where
  "world_accepting = world_refusing\<lparr>w_verify := (\<lambda>key secret. HttpResponse 200 [])\<rparr>"

definition user_111 :: tg_user where
  "user_111 =
     \<lparr>tg_id = 111, tg_username = None, tg_first_name = Some ''Ali'', tg_last_name = None,
      tg_is_bot = False\<rparr>"

text \<open>
  User 111 writes to the bot, the administrator assigns the user to chat 555, and the
  user sends the key: the store in which the secret is awaited.
\<close>

definition events_to_pending_secret :: "(world \<times> string \<times> event) list" where
  "events_to_pending_secret =
     [(world_refusing, ''t0'', Start True 111 None user_111),
      (world_refusing, ''t1'', AssignCallback 1 ''assign_sm:555:111'' (Some (555, Some ''Sales Team''))),
      (world_refusing, ''t2'', PrivateMessage 111 ''3739e78cec4e139'')]"

definition db_pending_secret :: db where
  "db_pending_secret =
     \<lparr>users = [\<lparr>telegram_id = 111, username = None, first_name = Some ''Ali'', last_name = None,
                 started_at = ''t0'', u_updated_at = ''t0''\<rparr>],
      chats = [\<lparr>chat_id = 555, title = Some ''Sales Team'', created_at = ''t1'', c_updated_at = ''t1''\<rparr>],
      assignments = [\<lparr>a_chat_id = 555, user_id = 111, assigned_at = ''t1'',
                       api_key = Some ''3739e78cec4e139'', api_secret = None,
                       credentials_status = Some ''pending_secret'', customer_docname = None\<rparr>],
      item_drafts = []\<rparr>"

definition example_assignment :: assignment where
  "example_assignment =
     \<lparr>j_chat_id = 555, j_user_id = 111, j_assigned_at = ''t1'', j_api_key = Some ''3739e78cec4e139'',
      j_api_secret = Some ''2a428d03deaceb8'', j_credentials_status = Some ''active'',
      j_customer_docname = None, j_title = Some ''Sales Team'', j_username = None,
      j_first_name = Some ''Ali'', j_last_name = None\<rparr>"

text \<open>
  Users 111 and 222 are recorded; 111 is assigned to chat 555; then 222 is tried for chat
  555 and 111 for chat 556.
\<close>

definition example_ops :: "op list" where
  "example_ops =
     [RecordUser ''t0'' 111 None (Some ''Ali'') None,
      RecordUser ''t0'' 222 None (Some ''Vali'') None,
      AssignSalesManager ''t1'' 555 111,
      AssignSalesManager ''t2'' 555 222,
      AssignSalesManager ''t3'' 556 111]"

text \<open>
  Two users are recorded, none assigned: user 7 with the user name \<open>zed\<close> and the last name
  \<open>Adams\<close> but no first name, and user 2 with the first name \<open>Bob\<close>.
\<close>

definition ops_last_name_only :: "op list" where
  "ops_last_name_only =
     [RecordUser ''t0'' 7 (Some ''zed'') None (Some ''Adams''),
      RecordUser ''t0'' 2 None (Some ''Bob'') None]"

text \<open>The text of a message that a handler sends, and whether a text occurs in another.\<close>

fun message_text :: "action \<Rightarrow> string" where
  "message_text (ReplyText t) = t"
| "message_text (ReplyKeyboard t rows) = t"
| "message_text (EditMessageText t) = t"
| "message_text (EditKeyboard t rows) = t"
| "message_text (SendMessage cid t) = t"
| "message_text (Answer t alert) = (case t of None \<Rightarrow> [] | Some u \<Rightarrow> u)"
| "message_text other = []"

primrec contains_text :: "string \<Rightarrow> string \<Rightarrow> bool" where
  "contains_text [] p = (p = [])"
| "contains_text (c # cs) p = (take (length p) (c # cs) = p \<or> contains_text cs p)"

text \<open>The store of the examples before the key has been sent.\<close>

definition db_pending_key :: db where
  "db_pending_key =
     db_pending_secret\<lparr>assignments :=
       [\<lparr>a_chat_id = 555, user_id = 111, assigned_at = ''t1'', api_key = None, api_secret = None,
         credentials_status = Some ''pending_key'', customer_docname = None\<rparr>]\<rparr>"

text \<open>The columns of an assignment that the credential handshake is about.\<close>

definition creds :: "assignment_row \<Rightarrow> int \<times> int \<times> string option \<times> string option \<times> string option" where
  "creds r = (a_chat_id r, user_id r, api_key r, api_secret r, credentials_status r)"

definition hex_digits :: string where
  "hex_digits = ''0123456789abcdefABCDEF''"




text \<open>How often a text matches an option when case is ignored.\<close>

definition count_matches :: "string \<Rightarrow> string list \<Rightarrow> nat" where
  "count_matches t options = length (filter (\<lambda>option. py_lower option = py_lower t) options)"

text \<open>
  The store of the examples once the credentials are verified and the draft of user 111
  waits for the unit; and the same with a menu of thirteen units, asked for page 5.
\<close>

definition draft_at_uom :: draft where
  "draft_at_uom =
     \<lparr>stage = Some ''await_uom'',
      data = [(''item_code'', ''ITEM-1''), (''item_name'', ''Item one''), (''item_group'', ''Box'')],
      d_chat_id = Some 555,
      choices = [(''item_groups'', [''Box'', ''kg'']), (''uoms'', [''Box'', ''kg''])],
      pages = [(''item_group'', 0), (''uom'', 0)]\<rparr>"

definition db_active :: db where
  "db_active =
     db_pending_secret\<lparr>assignments :=
       [\<lparr>a_chat_id = 555, user_id = 111, assigned_at = ''t1'', api_key = Some ''3739e78cec4e139'',
         api_secret = Some ''2a428d03deaceb8'', credentials_status = Some ''active'',
         customer_docname = Some ''CUST-1''\<rparr>],
       item_drafts := [\<lparr>d_user_id = 111, state = draft_at_uom, d_updated_at = ''t6''\<rparr>]\<rparr>"






text \<open>The example configuration without a base URL, which is the default of the configuration.\<close>

definition config_without_url :: config where
  "config_without_url = example_config\<lparr>erpnext_base_url := None\<rparr>"

text \<open>The credential columns of all assignments of a store.\<close>

definition cred_rows :: "db \<Rightarrow> (int \<times> int \<times> string option \<times> string option \<times> string option) list" where
  "cred_rows s = map creds (assignments s)"

text \<open>
  The three states of the handshake; a store is well formed when its assignments satisfy
  the two uniqueness constraints and carry one of the three states each.
\<close>

definition valid_status :: "string option \<Rightarrow> bool" where
  "valid_status st \<longleftrightarrow> st = Some ''pending_key'' \<or> st = Some ''pending_secret'' \<or> st = Some ''active''"

definition wf :: "db \<Rightarrow> bool" where
  "wf s \<longleftrightarrow> uniq s \<and> list_all (\<lambda>r. valid_status (credentials_status r)) (assignments s)"

text \<open>
  The edges of the handshake: \<open>edge cfg w ev r st'\<close> says that the event \<open>ev\<close>, in the world
  \<open>w\<close>, may take the assignment \<open>r\<close> to the state \<open>st'\<close>.  Either the state stays; or a private
  text of the manager that matches the key pattern takes \<open>pending_key\<close> to \<open>pending_secret\<close>;
  or a private text of the manager that matches the secret pattern and that
  \<open>_verify_credentials\<close> affirms, with the stored key, takes \<open>pending_secret\<close> to \<open>active\<close>; or
  \<open>/reset_api\<close> of the manager in a private chat leads to \<open>pending_key\<close>.
\<close>

definition edge :: "config \<Rightarrow> world \<Rightarrow> event \<Rightarrow> assignment_row \<Rightarrow> string option \<Rightarrow> bool" where
  "edge cfg w ev r st' \<longleftrightarrow>
     st' = credentials_status r \<or>
     (credentials_status r = Some ''pending_key'' \<and> st' = Some ''pending_secret'' \<and>
        (\<exists>t. ev = PrivateMessage (user_id r) t \<and> validate_api_key (py_strip t))) \<or>
     (credentials_status r = Some ''pending_secret'' \<and> st' = Some ''active'' \<and>
        (\<exists>t. ev = PrivateMessage (user_id r) t \<and> validate_api_secret (py_strip t) \<and>
           fst (snd (verify_credentials cfg w (case api_key r of None \<Rightarrow> [] | Some k \<Rightarrow> k) (py_strip t))))) \<or>
     (st' = Some ''pending_key'' \<and> ev = ResetApi True (user_id r))"

definition step_ok :: "config \<Rightarrow> world \<Rightarrow> event \<Rightarrow> db \<Rightarrow> db \<Rightarrow> bool" where
  "step_ok cfg w ev s s' \<longleftrightarrow>
     (\<forall>r\<in>set (assignments s). \<forall>r'\<in>set (assignments s').
        a_chat_id r' = a_chat_id r \<longrightarrow> user_id r' = user_id r \<and> edge cfg w ev r (credentials_status r')) \<and>
     (\<forall>r'\<in>set (assignments s').
        a_chat_id r' \<notin> a_chat_id ` set (assignments s) \<longrightarrow>
          credentials_status r' = Some ''pending_key'' \<and> api_key r' = None \<and> api_secret r' = None)"

section \<open>Facts about the string functions\<close>

lemma split_acc_tokens:
  "\<forall>c\<in>set cur. \<not> py_isspace c \<Longrightarrow> tok \<in> set (split_acc cur s) \<Longrightarrow>
     tok \<noteq> [] \<and> (\<forall>c\<in>set tok. \<not> py_isspace c)"
proof (induction cur s rule: split_acc.induct)
  case (1 cur)
  then show ?case by (simp split: if_splits)
next
  case (2 cur c cs)
  show ?case
  proof (cases "py_isspace c")
    case True
    note sp = this
    show ?thesis
    proof (cases "cur = []")
      case True
      with sp "2.prems" have "tok \<in> set (split_acc [] cs)" by simp
      with "2.IH"(1)[OF sp True] show ?thesis by simp
    next
      case False
      with sp "2.prems" have "tok = cur \<or> tok \<in> set (split_acc [] cs)" by simp
      then show ?thesis
      proof
        assume "tok = cur" with False "2.prems"(1) show ?thesis by simp
      next
        assume "tok \<in> set (split_acc [] cs)"
        with "2.IH"(2)[OF sp False] show ?thesis by simp
      qed
    qed
  next
    case False
    with "2.prems" have a: "tok \<in> set (split_acc (cur @ [c]) cs)" 
      and b: "\<forall>c\<in>set (cur @ [c]). \<not> py_isspace c" by simp_all
    from "2.IH"(3)[OF False b a] show ?thesis .
  qed
qed

lemma split_acc_empty:
  "split_acc cur s = [] \<longleftrightarrow> cur = [] \<and> (\<forall>c\<in>set s. py_isspace c)"
  apply (induction cur s rule: split_acc.induct)
   apply simp
  apply (simp (no_asm_simp))
  done

lemma dropWhile_id: "xs \<noteq> [] \<Longrightarrow> \<not> P (hd xs) \<Longrightarrow> dropWhile P xs = xs"
  by (cases xs) auto

lemma py_strip_empty: "py_strip s = [] \<longleftrightarrow> (\<forall>c\<in>set s. py_isspace c)"
proof (cases "dropWhile py_isspace s = []")
  case True
  then have "\<forall>c\<in>set s. py_isspace c" by (simp only: dropWhile_eq_Nil_conv)
  moreover from True have "py_strip s = []" by (simp only: py_strip_def rev.simps dropWhile.simps)
  ultimately show ?thesis by simp
next
  case False
  then have "\<not> py_isspace (hd (dropWhile py_isspace s))" by (rule hd_dropWhile)
  moreover from False have "hd (dropWhile py_isspace s) \<in> set (dropWhile py_isspace s)" by simp
  ultimately have "dropWhile py_isspace (rev (dropWhile py_isspace s)) \<noteq> []"
    by (auto simp: dropWhile_eq_Nil_conv)
  then have "py_strip s \<noteq> []" by (simp add: py_strip_def)
  moreover from False have "\<not> (\<forall>c\<in>set s. py_isspace c)"
    by (simp only: dropWhile_eq_Nil_conv not_False_eq_True)
  ultimately show ?thesis by simp
qed

lemma py_split_empty: "py_split t = [] \<longleftrightarrow> py_strip t = []"
  by (simp add: py_split_def split_acc_empty py_strip_empty)

lemma py_strip_id:
  assumes "s \<noteq> []" "\<not> py_isspace (hd s)" "\<not> py_isspace (last s)"
  shows "py_strip s = s"
proof -
  from assms have a: "dropWhile py_isspace s = s" by (simp add: dropWhile_id)
  from assms have "hd (rev s) = last s" "rev s \<noteq> []" by (simp_all add: hd_rev)
  with assms have "dropWhile py_isspace (rev s) = rev s" by (simp add: dropWhile_id)
  with a show ?thesis by (simp add: py_strip_def)
qed

lemma py_join_ends:
  "ps \<noteq> [] \<Longrightarrow> \<forall>p\<in>set ps. token p \<Longrightarrow>
     py_join sep ps \<noteq> [] \<and> hd (py_join sep ps) = hd (hd ps) \<and> last (py_join sep ps) = last (last ps)"
  by (induction sep ps rule: py_join.induct) (auto simp: token_def)

lemma py_strip_join:
  assumes "ps \<noteq> []" "\<forall>p\<in>set ps. token p"
  shows "py_strip (py_join sep ps) = py_join sep ps" "py_join sep ps \<noteq> []"
proof -
  from assms have "token (hd ps)" "token (last ps)" by auto
  then have "\<not> py_isspace (hd (hd ps))" "\<not> py_isspace (last (last ps))"
    by (auto simp: token_def)
  with py_join_ends[OF assms, of sep] show "py_strip (py_join sep ps) = py_join sep ps"
    by (intro py_strip_id) auto
  from py_join_ends[OF assms, of sep] show "py_join sep ps \<noteq> []" by simp
qed

lemma py_split_tokens: "tok \<in> set (py_split s) \<Longrightarrow> token tok"
  using split_acc_tokens[of "[]" tok s] by (simp add: py_split_def token_def)

section \<open>The uniqueness constraints hold in every reachable store\<close>

lemma fetchone_simps [simp]: "fetchone [] = None" "fetchone (r # rows) = Some r"
  by (simp_all add: fetchone_def)

lemma fetchone_None [simp]: "fetchone rows = None \<longleftrightarrow> rows = []"
  by (cases rows) simp_all

lemma connection_cases:
  "connection body s = (Inl e, s') \<Longrightarrow> s' = s"
  "connection body s = (Inr v, s') \<Longrightarrow> body s = (Inr v, s')"
  by (auto simp: connection_def split: prod.splits sum.splits)

lemma snd_connection: "snd (connection body s) = s \<or> snd (connection body s) = snd (body s)"
  by (auto simp: connection_def split: prod.splits sum.splits)

lemma sql_update_keys:
  "(\<And>r. f (upd r) = f r) \<Longrightarrow> map f (sql_update cond upd tbl) = map f tbl"
  by (induction tbl) (simp_all add: sql_update_def)

lemma uniq_update:
  assumes "\<And>r. a_chat_id (upd r) = a_chat_id r" "\<And>r. user_id (upd r) = user_id r"
  shows "uniq (s\<lparr>assignments := sql_update cond upd (assignments s)\<rparr>) = uniq s"
  using assms by (simp add: uniq_def sql_update_keys)

lemma uniq_other [simp]:
  "uniq (s\<lparr>users := us\<rparr>) = uniq s" "uniq (s\<lparr>chats := cs\<rparr>) = uniq s"
  "uniq (s\<lparr>item_drafts := ds\<rparr>) = uniq s"
  by (simp_all add: uniq_def)

lemma uniq_clear [simp]: "uniq (s\<lparr>assignments := []\<rparr>)"
  by (simp add: uniq_def)

lemma uniq_insert:
  assumes "uniq s"
    and "sql_insert (\<lambda>a. a_chat_id a = a_chat_id r \<or> user_id a = user_id r) r (assignments s) = Inr tbl"
  shows "uniq (s\<lparr>assignments := tbl\<rparr>)"
proof -
  from assms(2) have tbl: "tbl = assignments s @ [r]"
    and free: "\<forall>a\<in>set (assignments s). a_chat_id a \<noteq> a_chat_id r \<and> user_id a \<noteq> user_id r"
    by (auto simp: sql_insert_def list_ex_iff split: if_splits)
  from free have "a_chat_id r \<notin> a_chat_id ` set (assignments s)"
    "user_id r \<notin> user_id ` set (assignments s)" by force+
  with assms(1) tbl show ?thesis by (simp add: uniq_def)
qed

lemma uniq_update_credentials:
  assumes "\<And>r. a_chat_id (upd r) = a_chat_id r" "\<And>r. user_id (upd r) = user_id r"
  shows "uniq (snd (update_credentials upd uid s)) = uniq s"
  using assms by (simp add: update_credentials_def Let_def uniq_update)

lemma uniq_assign_body: "uniq s \<Longrightarrow> uniq (snd (assign_sales_manager_body now cid uid s))"
proof -
  assume u: "uniq s"
  have ins: "uniq s1 \<Longrightarrow> uniq (snd (case sql_insert (\<lambda>a. a_chat_id a = cid \<or> user_id a = uid)
                    \<lparr>a_chat_id = cid, user_id = uid, assigned_at = now, api_key = None,
                     api_secret = None, credentials_status = Some ''pending_key'',
                     customer_docname = None\<rparr> (assignments s1) of
               Inl e \<Rightarrow> (Inl e, s1)
             | Inr tbl \<Rightarrow> (Inr (), s1\<lparr>assignments := tbl\<rparr>)))" for s1
    using uniq_insert[of s1 "\<lparr>a_chat_id = cid, user_id = uid, assigned_at = now, api_key = None,
                     api_secret = None, credentials_status = Some ''pending_key'',
                     customer_docname = None\<rparr>"]
    by (auto split: sum.splits)
  show ?thesis
    using u ins[of s] ins[of "s\<lparr>chats := chats s @ [\<lparr>chat_id = cid, title = None, created_at = now, c_updated_at = now\<rparr>]\<rparr>"]
    by (auto simp: assign_sales_manager_body_def sql_insert_def[of _ _ "chats s"] split: option.splits sum.splits if_splits)
qed

lemma uniq_connection: "uniq s \<Longrightarrow> uniq (snd (body s)) \<Longrightarrow> uniq (snd (connection body s))"
  using snd_connection[of body s] by auto

lemma uniq_apply_op: "uniq s \<Longrightarrow> uniq (apply_op op s)"
proof (cases op)
  case (RecordUser now tid uname fname lname)
  then show "uniq s \<Longrightarrow> ?thesis"
    by (auto intro!: uniq_connection simp: record_user_def record_user_body_def split: option.splits sum.splits)
next
  case (RecordGroupChat now cid ttl)
  then show "uniq s \<Longrightarrow> ?thesis"
    by (auto intro!: uniq_connection simp: record_group_chat_def record_group_chat_body_def split: option.splits sum.splits)
next
  case (AssignSalesManager now cid uid)
  then show "uniq s \<Longrightarrow> ?thesis"
    by (auto intro!: uniq_connection uniq_assign_body simp: assign_sales_manager_def)
next
  case (StoreApiKey uid key)
  then show "uniq s \<Longrightarrow> ?thesis"
    by (auto intro!: uniq_connection simp: store_api_key_def uniq_update_credentials)
next
  case (StoreApiSecret uid secret verified)
  then show "uniq s \<Longrightarrow> ?thesis"
    by (auto intro!: uniq_connection simp: store_api_secret_def uniq_update_credentials)
next
  case (ResetCredentials uid)
  then show "uniq s \<Longrightarrow> ?thesis"
    by (auto intro!: uniq_connection simp: reset_credentials_def uniq_update_credentials)
next
  case ResetAll
  then show "uniq s \<Longrightarrow> ?thesis"
    by (auto intro!: uniq_connection simp: reset_all_def)
next
  case ClearAllAssignments
  then show "uniq s \<Longrightarrow> ?thesis"
    by (auto intro!: uniq_connection simp: clear_all_assignments_def)
next
  case (StoreCustomerDoc cid docname)
  then show "uniq s \<Longrightarrow> ?thesis"
    by (auto intro!: uniq_connection simp: store_customer_doc_def uniq_update)
next
  case (SaveItemDraft now uid st)
  then show "uniq s \<Longrightarrow> ?thesis"
    by (auto intro!: uniq_connection simp: save_item_draft_def)
next
  case (DeleteItemDraft uid)
  then show "uniq s \<Longrightarrow> ?thesis"
    by (auto intro!: uniq_connection simp: delete_item_draft_def)
qed

lemma uniq_run_ops: "uniq s \<Longrightarrow> uniq (run_ops ops s)"
  unfolding run_ops_def by (induction ops arbitrary: s) (simp_all add: uniq_apply_op)

text \<open>
  C1.  Starting from the empty store, after any sequence of storage operations no two
  rows of \<open>assignments\<close> have the same chat id and no two have the same user id: a chat is
  the key of at most one assignment and a user is referenced by at most one.
\<close>

theorem assignments_one_per_chat_one_per_user:
  "distinct (map a_chat_id (assignments (run_ops ops empty_db))) \<and>
   distinct (map user_id (assignments (run_ops ops empty_db)))"
proof -
  have "uniq empty_db" by (simp add: uniq_def empty_db_def)
  then have "uniq (run_ops ops empty_db)" by (rule uniq_run_ops)
  then show ?thesis by (simp add: uniq_def)
qed

theorem assignments_one_per_chat_one_per_user_witness:
  "map a_chat_id (assignments (run_ops example_ops empty_db)) = [555] \<and>
   map user_id (assignments (run_ops example_ops empty_db)) = [111] \<and>
   distinct (map a_chat_id (assignments (run_ops example_ops empty_db))) \<and>
   distinct (map user_id (assignments (run_ops example_ops empty_db)))"
  using assignments_one_per_chat_one_per_user[of example_ops]
  by code_simp
section \<open>Creating an assignment\<close>

lemma fetchone_filter_None: "fetchone (filter P xs) = None \<longleftrightarrow> (\<forall>x\<in>set xs. \<not> P x)"
  by (simp add: filter_empty_conv)

lemma sql_insert_free:
  "\<forall>x\<in>set tbl. \<not> conflicts x \<Longrightarrow> sql_insert conflicts r tbl = Inr (tbl @ [r])"
  by (simp add: sql_insert_def list_ex_iff)

lemma assign_body_unfold:
  obtains s1 where
    "users s1 = users s" "assignments s1 = assignments s" "item_drafts s1 = item_drafts s"
    "assign_sales_manager_body now cid uid s =
       (if fetchone (filter (\<lambda>u. telegram_id u = uid) (users s)) = None
          then (Inl (AssignmentError ''Foydalanuvchi botga shaxsiy chatda /start yubormagan.''), s1)
          else if fetchone (filter (\<lambda>a. a_chat_id a = cid) (assignments s)) \<noteq> None
          then (Inl (AssignmentError ''Bu guruh uchun sales manager allaqachon tanlangan.''), s1)
          else if fetchone (filter (\<lambda>a. user_id a = uid) (assignments s)) \<noteq> None
          then (Inl (AssignmentError
                  ''Bu foydalanuvchi boshqa guruhda sales manager sifatida tayinlangan.''), s1)
          else
            (case sql_insert (\<lambda>a. a_chat_id a = cid \<or> user_id a = uid)
                    \<lparr>a_chat_id = cid, user_id = uid, assigned_at = now, api_key = None,
                     api_secret = None, credentials_status = Some ''pending_key'',
                     customer_docname = None\<rparr> (assignments s) of
               Inl e \<Rightarrow> (Inl e, s1)
             | Inr tbl \<Rightarrow> (Inr (), s1\<lparr>assignments := tbl\<rparr>)))"
proof (cases "fetchone (filter (\<lambda>c. chat_id c = cid) (chats s))")
  case None
  then have "\<forall>c\<in>set (chats s). \<not> chat_id c = cid" by (simp add: filter_empty_conv)
  then have "sql_insert (\<lambda>c. chat_id c = cid)
      \<lparr>chat_id = cid, title = None, created_at = now, c_updated_at = now\<rparr> (chats s)
      = Inr (chats s @ [\<lparr>chat_id = cid, title = None, created_at = now, c_updated_at = now\<rparr>])"
    by (rule sql_insert_free)
  with None show ?thesis
    by (intro that[of "s\<lparr>chats := chats s @ [\<lparr>chat_id = cid, title = None, created_at = now, c_updated_at = now\<rparr>]\<rparr>"])
       (simp_all add: assign_sales_manager_body_def)
next
  case (Some c)
  then show ?thesis
    by (intro that[of s]) (simp_all add: assign_sales_manager_body_def)
qed

lemma assign_body_result:
  "fst (assign_sales_manager_body now cid uid s) =
     (if uid \<notin> telegram_id ` set (users s)
      then Inl (AssignmentError ''Foydalanuvchi botga shaxsiy chatda /start yubormagan.'')
      else if cid \<in> a_chat_id ` set (assignments s)
      then Inl (AssignmentError ''Bu guruh uchun sales manager allaqachon tanlangan.'')
      else if uid \<in> user_id ` set (assignments s)
      then Inl (AssignmentError ''Bu foydalanuvchi boshqa guruhda sales manager sifatida tayinlangan.'')
      else Inr ())"
proof -
  obtain s1 where eq: "assign_sales_manager_body now cid uid s =
       (if fetchone (filter (\<lambda>u. telegram_id u = uid) (users s)) = None
          then (Inl (AssignmentError ''Foydalanuvchi botga shaxsiy chatda /start yubormagan.''), s1)
          else if fetchone (filter (\<lambda>a. a_chat_id a = cid) (assignments s)) \<noteq> None
          then (Inl (AssignmentError ''Bu guruh uchun sales manager allaqachon tanlangan.''), s1)
          else if fetchone (filter (\<lambda>a. user_id a = uid) (assignments s)) \<noteq> None
          then (Inl (AssignmentError
                  ''Bu foydalanuvchi boshqa guruhda sales manager sifatida tayinlangan.''), s1)
          else
            (case sql_insert (\<lambda>a. a_chat_id a = cid \<or> user_id a = uid)
                    \<lparr>a_chat_id = cid, user_id = uid, assigned_at = now, api_key = None,
                     api_secret = None, credentials_status = Some ''pending_key'',
                     customer_docname = None\<rparr> (assignments s) of
               Inl e \<Rightarrow> (Inl e, s1)
             | Inr tbl \<Rightarrow> (Inr (), s1\<lparr>assignments := tbl\<rparr>)))"
    by (rule assign_body_unfold)
  have a: "fetchone (filter (\<lambda>u. telegram_id u = uid) (users s)) = None \<longleftrightarrow>
      uid \<notin> telegram_id ` set (users s)"
    by (auto simp: filter_empty_conv)
  have b: "fetchone (filter (\<lambda>a. a_chat_id a = cid) (assignments s)) = None \<longleftrightarrow>
      cid \<notin> a_chat_id ` set (assignments s)"
    by (auto simp: filter_empty_conv)
  have c: "fetchone (filter (\<lambda>a. user_id a = uid) (assignments s)) = None \<longleftrightarrow>
      uid \<notin> user_id ` set (assignments s)"
    by (auto simp: filter_empty_conv)
  have d: "sql_insert (\<lambda>a. a_chat_id a = cid \<or> user_id a = uid) r (assignments s)
      = Inr (assignments s @ [r])"
    if "cid \<notin> a_chat_id ` set (assignments s)" "uid \<notin> user_id ` set (assignments s)" for r
    using that by (intro sql_insert_free) auto
  show ?thesis
    unfolding eq a b c by (simp add: d)
qed

lemma assign_result:
  "fst (assign_sales_manager now cid uid s) = fst (assign_sales_manager_body now cid uid s)"
  by (simp add: assign_sales_manager_def connection_def split: prod.splits sum.splits)

lemma assign_rollback:
  "fst (assign_sales_manager now cid uid s) = Inl e \<Longrightarrow> snd (assign_sales_manager now cid uid s) = s"
  by (simp add: assign_sales_manager_def connection_def split: prod.splits sum.splits)

text \<open>
  C2.  \<open>assign_sales_manager\<close> raises \<open>AssignmentError\<close> exactly when the user is not recorded,
  or the chat has an assignment, or the user has an assignment for another chat; it raises
  nothing else; and when it raises, the store is what it was before the call (the chat row
  that the body may have inserted is dropped with the connection).
\<close>

theorem assign_sales_manager_raises_iff:
  "((\<exists>msg. fst (assign_sales_manager now cid uid s) = Inl (AssignmentError msg)) \<longleftrightarrow>
      (uid \<notin> telegram_id ` set (users s) \<or>
       cid \<in> a_chat_id ` set (assignments s) \<or>
       (\<exists>a\<in>set (assignments s). user_id a = uid \<and> a_chat_id a \<noteq> cid))) \<and>
   ((\<exists>e. fst (assign_sales_manager now cid uid s) = Inl e) \<longleftrightarrow>
      (\<exists>msg. fst (assign_sales_manager now cid uid s) = Inl (AssignmentError msg))) \<and>
   (\<forall>e. fst (assign_sales_manager now cid uid s) = Inl e \<longrightarrow>
      snd (assign_sales_manager now cid uid s) = s)"
proof (intro conjI)
  show "(\<exists>msg. fst (assign_sales_manager now cid uid s) = Inl (AssignmentError msg)) \<longleftrightarrow>
      (uid \<notin> telegram_id ` set (users s) \<or>
       cid \<in> a_chat_id ` set (assignments s) \<or>
       (\<exists>a\<in>set (assignments s). user_id a = uid \<and> a_chat_id a \<noteq> cid))"
    unfolding assign_result assign_body_result by (auto simp: image_iff)
  show "(\<exists>e. fst (assign_sales_manager now cid uid s) = Inl e) \<longleftrightarrow>
      (\<exists>msg. fst (assign_sales_manager now cid uid s) = Inl (AssignmentError msg))"
    unfolding assign_result assign_body_result by auto
  show "\<forall>e. fst (assign_sales_manager now cid uid s) = Inl e \<longrightarrow>
      snd (assign_sales_manager now cid uid s) = s"
    by (auto dest: assign_rollback)
qed

theorem assign_sales_manager_raises_iff_witness:
  "fst (assign_sales_manager ''t1'' 557 112 empty_db)
     = Inl (AssignmentError ''Foydalanuvchi botga shaxsiy chatda /start yubormagan.'') \<and>
   snd (assign_sales_manager ''t1'' 557 112 empty_db) = empty_db \<and>
   map chat_id (chats (snd (assign_sales_manager_body ''t1'' 557 112 empty_db))) = [557] \<and>
   fst (assign_sales_manager ''t3'' 556 111 (run_ops (take 3 example_ops) empty_db))
     = Inl (AssignmentError ''Bu foydalanuvchi boshqa guruhda sales manager sifatida tayinlangan.'') \<and>
   snd (assign_sales_manager ''t3'' 556 111 (run_ops (take 3 example_ops) empty_db))
     = run_ops (take 3 example_ops) empty_db \<and>
   fst (assign_sales_manager ''t3'' 556 222 (run_ops (take 3 example_ops) empty_db)) = Inr ()"
proof -
  have raised:
    "fst (assign_sales_manager ''t1'' 557 112 empty_db)
       = Inl (AssignmentError ''Foydalanuvchi botga shaxsiy chatda /start yubormagan.'')"
    "fst (assign_sales_manager ''t3'' 556 111 (run_ops (take 3 example_ops) empty_db))
       = Inl (AssignmentError ''Bu foydalanuvchi boshqa guruhda sales manager sifatida tayinlangan.'')"
    by code_simp+
  have rest:
    "map chat_id (chats (snd (assign_sales_manager_body ''t1'' 557 112 empty_db))) = [557]"
    "fst (assign_sales_manager ''t3'' 556 222 (run_ops (take 3 example_ops) empty_db)) = Inr ()"
    by code_simp+
  from raised(1) assign_sales_manager_raises_iff[of "''t1''" 557 112 empty_db]
  have "snd (assign_sales_manager ''t1'' 557 112 empty_db) = empty_db" by blast
  moreover
  from raised(2)
    assign_sales_manager_raises_iff[of "''t3''" 556 111 "run_ops (take 3 example_ops) empty_db"]
  have "snd (assign_sales_manager ''t3'' 556 111 (run_ops (take 3 example_ops) empty_db))
     = run_ops (take 3 example_ops) empty_db" by blast
  ultimately show ?thesis using raised rest by simp
qed
section \<open>Clearing the assignments\<close>

text \<open>
  C8.  \<open>clear_all_assignments\<close> returns, empties the table \<open>assignments\<close> and leaves the tables
  \<open>users\<close>, \<open>chats\<close> and \<open>item_drafts\<close> as they were: afterwards \<open>get_group_assignment\<close> and
  \<open>get_user_assignment\<close> return \<open>None\<close> for every chat and user, and \<open>get_user\<close> and \<open>get_chat\<close>
  return what they returned before.
\<close>

theorem clear_all_assignments_frame:
  "fst (clear_all_assignments s) = Inr () \<and>
   assignments (snd (clear_all_assignments s)) = [] \<and>
   users (snd (clear_all_assignments s)) = users s \<and>
   chats (snd (clear_all_assignments s)) = chats s \<and>
   item_drafts (snd (clear_all_assignments s)) = item_drafts s \<and>
   get_group_assignment (snd (clear_all_assignments s)) cid = None \<and>
   get_user_assignment (snd (clear_all_assignments s)) uid = None \<and>
   get_user (snd (clear_all_assignments s)) uid = get_user s uid \<and>
   get_chat (snd (clear_all_assignments s)) cid = get_chat s cid"
  by (simp add: clear_all_assignments_def connection_def get_group_assignment_def
      get_user_assignment_def joined_rows_def get_user_def get_chat_def fetchone_def)

theorem clear_all_assignments_frame_witness:
  "get_group_assignment db_pending_secret 555 \<noteq> None \<and>
   get_user_assignment db_pending_secret 111 \<noteq> None \<and>
   get_group_assignment (snd (clear_all_assignments db_pending_secret)) 555 = None \<and>
   get_user_assignment (snd (clear_all_assignments db_pending_secret)) 111 = None \<and>
   get_user (snd (clear_all_assignments db_pending_secret)) 111
     = Some \<lparr>cand_telegram_id = 111, cand_username = None, cand_first_name = Some ''Ali'',
             cand_last_name = None, cand_started_at = ''t0''\<rparr>"
  using clear_all_assignments_frame[of db_pending_secret 555 111]
  by code_simp
section \<open>Listing the unassigned users\<close>

text \<open>
  C9.  The list is not in ascending order of the display label.  For a user without a first
  name the sort key of the query is the user name (or the id), also when the user has a last
  name, which \<open>display_label\<close> shows: user 7, labelled \<open>Adams\<close>, is sorted as \<open>zed\<close> and comes
  after user 2, labelled \<open>Bob\<close>.
\<close>

theorem list_unassigned_users_ignores_last_name:
  "list_unassigned_users (run_ops ops_last_name_only empty_db) 25 =
     [\<lparr>cand_telegram_id = 2, cand_username = None, cand_first_name = Some ''Bob'',
       cand_last_name = None, cand_started_at = ''t0''\<rparr>,
      \<lparr>cand_telegram_id = 7, cand_username = Some ''zed'', cand_first_name = None,
       cand_last_name = Some ''Adams'', cand_started_at = ''t0''\<rparr>] \<and>
   map display_label (list_unassigned_users (run_ops ops_last_name_only empty_db) 25)
     = [''Bob'', ''Adams''] \<and>
   text_le ''Adams'' ''Bob'' \<and> \<not> text_le ''Bob'' ''Adams'' \<and>
   map order_key (users (run_ops ops_last_name_only empty_db)) = [SqlText ''zed'', SqlText ''Bob'']"
  by code_simp
section \<open>Credential updates and the joined rows\<close>

lemma joined_rows_update:
  assumes keys: "\<And>a. a_chat_id (f a) = a_chat_id a" "\<And>a. user_id (f a) = user_id a"
    and g: "\<And>a c u. joined (f a) c u = g (joined a c u)"
  shows "joined_rows (s\<lparr>assignments := sql_update (\<lambda>a. user_id a = uid) f (assignments s)\<rparr>)
           = map (\<lambda>j. if j_user_id j = uid then g j else j) (joined_rows s)"
proof -
  have "[joined a c u. a \<leftarrow> sql_update (\<lambda>a. user_id a = uid) f as, c \<leftarrow> cs, chat_id c = a_chat_id a,
                    u \<leftarrow> us, telegram_id u = user_id a]
        = map (\<lambda>j. if j_user_id j = uid then g j else j)
            [joined a c u. a \<leftarrow> as, c \<leftarrow> cs, chat_id c = a_chat_id a, u \<leftarrow> us, telegram_id u = user_id a]"
    for as cs us
  proof (induction as)
    case Nil
    then show ?case by (simp add: sql_update_def)
  next
    case (Cons a as)
    have row: "[joined a' c u. c \<leftarrow> cs, chat_id c = a_chat_id a', u \<leftarrow> us, telegram_id u = user_id a']
        = map (\<lambda>j. if j_user_id j = uid then g j else j)
            [joined a c u. c \<leftarrow> cs, chat_id c = a_chat_id a, u \<leftarrow> us, telegram_id u = user_id a]"
      if "a' = (if user_id a = uid then f a else a)" for a'
    proof (cases "user_id a = uid")
      case True
      with that keys g show ?thesis
        by (simp add: map_concat comp_def joined_def[of a] if_distrib[of "map _"] cong: if_cong)
    next
      case False
      with that show ?thesis
        by (simp add: map_concat comp_def if_distrib[of "map _"] joined_def cong: if_cong)
    qed
    from Cons row[OF refl] show ?case
      by (simp add: sql_update_def)
  qed
  from this[where as = "assignments s" and cs = "chats s" and us = "users s"] show ?thesis
    by (simp add: joined_rows_def cong: if_cong)
qed

lemma fetchone_filter_map:
  assumes "\<And>j. P (h j) = P j"
  shows "fetchone (filter P (map h js)) = map_option h (fetchone (filter P js))"
  using assms by (induction js) (simp_all add: fetchone_def)

lemma get_user_assignment_update:
  assumes keys: "\<And>a. a_chat_id (f a) = a_chat_id a" "\<And>a. user_id (f a) = user_id a"
    and g: "\<And>a c u. joined (f a) c u = g (joined a c u)"
    and gk: "\<And>j. j_user_id (g j) = j_user_id j"
  shows "get_user_assignment (s\<lparr>assignments := sql_update (\<lambda>a. user_id a = uid) f (assignments s)\<rparr>) tid
           = map_option (\<lambda>j. if j_user_id j = uid then g j else j) (get_user_assignment s tid)"
  unfolding get_user_assignment_def joined_rows_update[of f g, OF keys g]
  by (rule fetchone_filter_map) (simp add: gk)

lemma update_credentials_found:
  assumes "get_user_assignment s uid = Some a"
  shows "connection (update_credentials upd uid) s
           = (Inr (), s\<lparr>assignments := sql_update (\<lambda>r. user_id r = uid) upd (assignments s)\<rparr>)"
proof -
  from assms have "filter (\<lambda>j. j_user_id j = uid) (joined_rows s) \<noteq> []"
    by (auto simp: get_user_assignment_def)
  then obtain j where "j \<in> set (joined_rows s)" "j_user_id j = uid"
    by (auto simp: filter_empty_conv)
  then obtain r where "r \<in> set (assignments s)" "user_id r = uid"
    by (auto simp: joined_rows_def joined_def split: if_splits)
  then have "rowcount (\<lambda>r. user_id r = uid) (assignments s) \<noteq> 0"
    by (auto simp: rowcount_def filter_empty_conv)
  then show ?thesis
    by (simp add: connection_def update_credentials_def Let_def)
qed
section \<open>The credential handshake\<close>

lemma get_user_assignment_id: "get_user_assignment s uid = Some a \<Longrightarrow> j_user_id a = uid"
proof -
  assume "get_user_assignment s uid = Some a"
  then have "a \<in> set (filter (\<lambda>j. j_user_id j = uid) (joined_rows s))"
    by (cases "filter (\<lambda>j. j_user_id j = uid) (joined_rows s)")
       (simp_all add: get_user_assignment_def)
  then show ?thesis by simp
qed

lemma store_api_key_found:
  "get_user_assignment s uid = Some a \<Longrightarrow>
     store_api_key uid key s
       = (Inr (), s\<lparr>assignments := sql_update (\<lambda>r. user_id r = uid)
            (\<lambda>r. r\<lparr>api_key := Some key, credentials_status := Some ''pending_secret''\<rparr>) (assignments s)\<rparr>)"
  unfolding store_api_key_def by (rule update_credentials_found)

lemma store_api_secret_found:
  "get_user_assignment s uid = Some a \<Longrightarrow>
     store_api_secret uid secret verified s
       = (Inr (), s\<lparr>assignments := sql_update (\<lambda>r. user_id r = uid)
            (\<lambda>r. r\<lparr>api_secret := Some secret,
                    credentials_status := Some (if verified then ''active'' else ''pending_secret'')\<rparr>)
            (assignments s)\<rparr>)"
  unfolding store_api_secret_def Let_def by (rule update_credentials_found)

lemma reset_credentials_found:
  "get_user_assignment s uid = Some a \<Longrightarrow>
     reset_credentials uid s
       = (Inr (), s\<lparr>assignments := sql_update (\<lambda>r. user_id r = uid)
            (\<lambda>r. r\<lparr>api_key := None, api_secret := None, credentials_status := Some ''pending_key''\<rparr>)
            (assignments s)\<rparr>)"
  unfolding reset_credentials_def by (rule update_credentials_found)

lemma is_hex_iff: "is_hex c \<longleftrightarrow> c \<in> set hex_digits"
proof -
  have "c \<in> set hex_digits \<longleftrightarrow> (of_char c :: nat) \<in> of_char ` set hex_digits"
    by (auto simp: inj_image_mem_iff[OF inj_of_char])
  also have "\<dots> \<longleftrightarrow> is_hex c"
    by (simp add: hex_digits_def is_hex_def Let_def) arith
  finally show ?thesis by simp
qed

lemma handle_pending_key:
  assumes "get_user_assignment s uid = Some a" "status_of a = ''pending_key''"
  shows "handle_private_message cfg w uid raw s =
     (if validate_api_key (py_strip raw)
      then ([ReplyText ''API kalit saqlandi. Endi API secret key yuboring.''],
            s\<lparr>assignments := sql_update (\<lambda>r. user_id r = uid)
              (\<lambda>r. r\<lparr>api_key := Some (py_strip raw), credentials_status := Some ''pending_secret''\<rparr>)
              (assignments s)\<rparr>)
      else (if py_strip raw = [] then []
            else [ReplyText ''API kalit formati noto'g'ri. Masalan: 3739e78cec4e139''], s))"
proof -
  have "\<not> validate_api_key []" by (simp add: validate_api_key_def)
  then show ?thesis
    using assms store_api_key_found[OF assms(1), of "py_strip raw"]
    by (auto simp: handle_private_message_def Let_def)
qed

lemma handle_pending_secret:
  assumes "get_user_assignment s uid = Some a" "status_of a = ''pending_secret''"
  shows "handle_private_message cfg w uid raw s =
     (let text = py_strip raw;
          api_key = (if truthy (j_api_key a) then the (j_api_key a) else []);
          (reqs, verified, error_detail) = verify_credentials cfg w api_key text;
          s1 = s\<lparr>assignments := sql_update (\<lambda>r. user_id r = uid)
                 (\<lambda>r. r\<lparr>api_secret := Some text,
                         credentials_status := Some (if verified then ''active'' else ''pending_secret'')\<rparr>)
                 (assignments s)\<rparr>
      in if \<not> validate_api_secret text
         then (if text = [] then []
               else [ReplyText
                 ''API secret formati noto'g'ri. Masalan: 2a428d03deaceb8 (15-16 ta hex belgi)''], s)
         else if verified
         then (reqs @ ReplyText (''API kalit muvaffaqqiyatli kiritildi.'' @ newline @
                   ''ERPNext bilan ham muvaffaqqiyatli ulandi.'') #
                 fst (ensure_customer_exists cfg w a (Some api_key) (Some text) s1) @
                 [SendMessage (j_chat_id a) (format_assignment_label a @ '' ERPNext API kalitlarini kiritdi.'')],
               snd (ensure_customer_exists cfg w a (Some api_key) (Some text) s1))
         else (reqs @
                 [ReplyText (''API secret saqlandi, biroq ERPNext bilan ulanish amalga oshmadi. Lutfan ma'lumotlarni tekshiring.'' @
                    (if truthy error_detail then newline @ ''Ma'lumot: '' @ the error_detail else [])),
                  SendMessage (j_chat_id a) (format_assignment_label a @
                    '' API ma'lumotlarini yubordi, ammo ERPNext bilan ulanish amalga oshmadi.'')],
               s1))"
proof -
  have e: "\<not> validate_api_secret []" by (simp add: validate_api_secret_def)
  have ne: "''pending_secret'' \<noteq> ''pending_key''" by simp
  show ?thesis
    using assms e
    by (auto simp: handle_private_message_def Let_def store_api_secret_found[OF assms(1)]
        split: prod.splits)
qed

lemma store_customer_doc_eq:
  "store_customer_doc cid docname s
     = (Inr (), s\<lparr>assignments := sql_update (\<lambda>a. a_chat_id a = cid)
          (\<lambda>a. a\<lparr>customer_docname := Some docname\<rparr>) (assignments s)\<rparr>)"
  by (simp add: store_customer_doc_def connection_def)

lemma creds_sql_update:
  "(\<And>r. creds (upd r) = creds r) \<Longrightarrow> map creds (sql_update cond upd tbl) = map creds tbl"
  by (rule sql_update_keys)

lemma ensure_customer_exists_creds:
  "map creds (assignments (snd (ensure_customer_exists cfg w a key secret s))) = map creds (assignments s)"
  by (auto simp: ensure_customer_exists_def Let_def store_customer_doc_eq creds_sql_update creds_def
      split: prod.splits)

lemma validate_api_key_iff:
  "validate_api_key t \<longleftrightarrow> length t = 15 \<and> set t \<subseteq> set hex_digits"
  by (auto simp: validate_api_key_def list_all_iff is_hex_iff)

lemma validate_api_secret_iff:
  "validate_api_secret t \<longleftrightarrow> (length t = 15 \<or> length t = 16) \<and> set t \<subseteq> set hex_digits"
  by (auto simp: validate_api_secret_def list_all_iff is_hex_iff)

text \<open>
  C5, as amended.  The key pattern accepts exactly the texts of 15 hexadecimal characters
  and the secret pattern exactly those of 15 or 16.  For a private text of an assigned user,
  with the whitespace around it removed: in state \<open>pending_key\<close> the stripped text is stored
  as the key and the state becomes \<open>pending_secret\<close> if the stripped text matches the key
  pattern, and otherwise the store is not changed; in state \<open>pending_secret\<close> the stripped text
  goes to \<open>_verify_credentials\<close>, whose verdict is stored with it, if it matches the secret
  pattern, and otherwise the store is not changed.  A text that is refused is answered by
  the format message, except that a text of whitespace only is not answered at all.
\<close>

theorem private_text_validation:
  "(validate_api_key t \<longleftrightarrow> length t = 15 \<and> set t \<subseteq> set hex_digits) \<and>
   (validate_api_secret t \<longleftrightarrow> (length t = 15 \<or> length t = 16) \<and> set t \<subseteq> set hex_digits) \<and>
   (get_user_assignment s uid = Some a \<and> status_of a = ''pending_key'' \<longrightarrow>
      handle_private_message cfg w uid raw s =
        (if validate_api_key (py_strip raw)
         then ([ReplyText ''API kalit saqlandi. Endi API secret key yuboring.''],
               s\<lparr>assignments := sql_update (\<lambda>r. user_id r = uid)
                 (\<lambda>r. r\<lparr>api_key := Some (py_strip raw), credentials_status := Some ''pending_secret''\<rparr>)
                 (assignments s)\<rparr>)
         else (if py_strip raw = [] then []
               else [ReplyText ''API kalit formati noto'g'ri. Masalan: 3739e78cec4e139''], s))) \<and>
   (get_user_assignment s uid = Some a \<and> status_of a = ''pending_secret'' \<longrightarrow>
      (if validate_api_secret (py_strip raw)
       then (\<exists>rest. fst (handle_private_message cfg w uid raw s) =
                 fst (verify_credentials cfg w (if truthy (j_api_key a) then the (j_api_key a) else [])
                        (py_strip raw)) @ rest) \<and>
            map creds (assignments (snd (handle_private_message cfg w uid raw s))) =
              map creds (sql_update (\<lambda>r. user_id r = uid)
                (\<lambda>r. r\<lparr>api_secret := Some (py_strip raw),
                        credentials_status :=
                          Some (if fst (snd (verify_credentials cfg w
                                   (if truthy (j_api_key a) then the (j_api_key a) else []) (py_strip raw)))
                                then ''active'' else ''pending_secret'')\<rparr>)
                (assignments s))
       else handle_private_message cfg w uid raw s =
              (if py_strip raw = [] then []
               else [ReplyText
                 ''API secret formati noto'g'ri. Masalan: 2a428d03deaceb8 (15-16 ta hex belgi)''], s)))"
proof (intro conjI impI)
  show "validate_api_key t \<longleftrightarrow> length t = 15 \<and> set t \<subseteq> set hex_digits"
    by (rule validate_api_key_iff)
  show "validate_api_secret t \<longleftrightarrow> (length t = 15 \<or> length t = 16) \<and> set t \<subseteq> set hex_digits"
    by (rule validate_api_secret_iff)
next
  assume "get_user_assignment s uid = Some a \<and> status_of a = ''pending_key''"
  then have k: "get_user_assignment s uid = Some a" "status_of a = ''pending_key''" by blast+
  show "handle_private_message cfg w uid raw s =
        (if validate_api_key (py_strip raw)
         then ([ReplyText ''API kalit saqlandi. Endi API secret key yuboring.''],
               s\<lparr>assignments := sql_update (\<lambda>r. user_id r = uid)
                 (\<lambda>r. r\<lparr>api_key := Some (py_strip raw), credentials_status := Some ''pending_secret''\<rparr>)
                 (assignments s)\<rparr>)
         else (if py_strip raw = [] then []
               else [ReplyText ''API kalit formati noto'g'ri. Masalan: 3739e78cec4e139''], s))"
    by (rule handle_pending_key[OF k])
next
  assume "get_user_assignment s uid = Some a \<and> status_of a = ''pending_secret''"
  then have a: "get_user_assignment s uid = Some a" "status_of a = ''pending_secret''" by blast+
  show "if validate_api_secret (py_strip raw)
       then (\<exists>rest. fst (handle_private_message cfg w uid raw s) =
                 fst (verify_credentials cfg w (if truthy (j_api_key a) then the (j_api_key a) else [])
                        (py_strip raw)) @ rest) \<and>
            map creds (assignments (snd (handle_private_message cfg w uid raw s))) =
              map creds (sql_update (\<lambda>r. user_id r = uid)
                (\<lambda>r. r\<lparr>api_secret := Some (py_strip raw),
                        credentials_status :=
                          Some (if fst (snd (verify_credentials cfg w
                                   (if truthy (j_api_key a) then the (j_api_key a) else []) (py_strip raw)))
                                then ''active'' else ''pending_secret'')\<rparr>)
                (assignments s))
       else handle_private_message cfg w uid raw s =
              (if py_strip raw = [] then []
               else [ReplyText
                 ''API secret formati noto'g'ri. Masalan: 2a428d03deaceb8 (15-16 ta hex belgi)''], s)"
    unfolding handle_pending_secret[OF a]
    by (auto simp: Let_def ensure_customer_exists_creds split: prod.splits)
qed

theorem private_text_validation_witness:
  "validate_api_key ''3739e78cec4e139'' \<and> \<not> validate_api_key ''3739e78cec4e13'' \<and>
   \<not> validate_api_key ''3739e78cec4e13g'' \<and> validate_api_secret ''2A428D03DEACEB81'' \<and>
   handle_private_message example_config world_refusing 111 ''3739e78cec4e139'' db_pending_key
     = ([ReplyText ''API kalit saqlandi. Endi API secret key yuboring.''], db_pending_secret) \<and>
   handle_private_message example_config world_refusing 111 ''3739e78cec4e13'' db_pending_key
     = ([ReplyText ''API kalit formati noto'g'ri. Masalan: 3739e78cec4e139''], db_pending_key) \<and>
   handle_private_message example_config world_refusing 111 ''2a428d03deaceb'' db_pending_secret
     = ([ReplyText ''API secret formati noto'g'ri. Masalan: 2a428d03deaceb8 (15-16 ta hex belgi)''],
        db_pending_secret) \<and>
   map credentials_status (assignments (snd
      (handle_private_message example_config world_accepting 111 ''2a428d03deaceb8'' db_pending_secret)))
     = [Some ''active''] \<and>
   run_events example_config events_to_pending_secret empty_db = db_pending_secret"
proof -
  have k: "get_user_assignment db_pending_key 111 = Some (the (get_user_assignment db_pending_key 111)) \<and>
      status_of (the (get_user_assignment db_pending_key 111)) = ''pending_key''"
    by code_simp
  have s: "get_user_assignment db_pending_secret 111 = Some (the (get_user_assignment db_pending_secret 111)) \<and>
      status_of (the (get_user_assignment db_pending_secret 111)) = ''pending_secret''"
    by code_simp
  have v: "validate_api_key (py_strip ''3739e78cec4e139'')" "\<not> validate_api_key (py_strip ''3739e78cec4e13'')"
    "py_strip ''3739e78cec4e139'' = ''3739e78cec4e139''" "py_strip ''3739e78cec4e13'' \<noteq> []"
    "\<not> validate_api_secret (py_strip ''2a428d03deaceb'')" "py_strip ''2a428d03deaceb'' \<noteq> []"
    by code_simp+
  have upd: "db_pending_key\<lparr>assignments := sql_update (\<lambda>r. user_id r = 111)
                 (\<lambda>r. r\<lparr>api_key := Some ''3739e78cec4e139'', credentials_status := Some ''pending_secret''\<rparr>)
                 (assignments db_pending_key)\<rparr> = db_pending_secret"
    by code_simp
  from k v upd
    private_text_validation[of "[]" db_pending_key 111 "the (get_user_assignment db_pending_key 111)"
      example_config world_refusing "''3739e78cec4e139''"]
  have 1: "handle_private_message example_config world_refusing 111 ''3739e78cec4e139'' db_pending_key
     = ([ReplyText ''API kalit saqlandi. Endi API secret key yuboring.''], db_pending_secret)"
    by simp
  from k v
    private_text_validation[of "[]" db_pending_key 111 "the (get_user_assignment db_pending_key 111)"
      example_config world_refusing "''3739e78cec4e13''"]
  have 2: "handle_private_message example_config world_refusing 111 ''3739e78cec4e13'' db_pending_key
     = ([ReplyText ''API kalit formati noto'g'ri. Masalan: 3739e78cec4e139''], db_pending_key)"
    by simp
  from s v
    private_text_validation[of "[]" db_pending_secret 111 "the (get_user_assignment db_pending_secret 111)"
      example_config world_refusing "''2a428d03deaceb''"]
  have 3: "handle_private_message example_config world_refusing 111 ''2a428d03deaceb'' db_pending_secret
     = ([ReplyText ''API secret formati noto'g'ri. Masalan: 2a428d03deaceb8 (15-16 ta hex belgi)''],
        db_pending_secret)"
    by simp
  have rest: "validate_api_key ''3739e78cec4e139''" "\<not> validate_api_key ''3739e78cec4e13''"
    "\<not> validate_api_key ''3739e78cec4e13g''" "validate_api_secret ''2A428D03DEACEB81''"
    "map credentials_status (assignments (snd
      (handle_private_message example_config world_accepting 111 ''2a428d03deaceb8'' db_pending_secret)))
     = [Some ''active'']"
    "run_events example_config events_to_pending_secret empty_db = db_pending_secret"
    by code_simp+
  from 1 2 3 rest show ?thesis by simp
qed

text \<open>
  The claim as stated fails for a text with whitespace around it: a key sent with a space
  in front is not 15 hexadecimal characters, yet it moves the assignment to
  \<open>pending_secret\<close>, and what is stored is the stripped text, not the text.  A text of
  whitespace only is invalid and gets no answer.
\<close>

theorem private_text_stripped_counterexample:
  "length '' 3739e78cec4e139'' = 16 \<and> \<not> validate_api_key '' 3739e78cec4e139'' \<and>
   snd (handle_private_message example_config world_refusing 111 '' 3739e78cec4e139'' db_pending_key)
     = db_pending_secret \<and>
   map credentials_status (assignments db_pending_key) = [Some ''pending_key''] \<and>
   map credentials_status (assignments db_pending_secret) = [Some ''pending_secret''] \<and>
   map api_key (assignments db_pending_secret) = [Some ''3739e78cec4e139''] \<and>
   handle_private_message example_config world_refusing 111 ''   '' db_pending_key = ([], db_pending_key)"
  by code_simp

text \<open>
  C4, as amended.  When the assigned user in state \<open>pending_secret\<close> sends a text that matches
  the secret pattern and \<open>_verify_credentials\<close> answers no, the secret is stored on the
  assignment, the state stays \<open>pending_secret\<close>, and every other column, the key among them,
  is as before; the user is told that the connection failed, with the detail of the failure
  when there is one; and the chat of the assignment is told that the connection failed,
  without the detail.
\<close>

theorem secret_stored_on_failed_verification:
  assumes "get_user_assignment s uid = Some a"
    and "status_of a = ''pending_secret''"
    and "validate_api_secret (py_strip raw)"
    and "verify_credentials cfg w (if truthy (j_api_key a) then the (j_api_key a) else []) (py_strip raw)
           = (reqs, False, error_detail)"
  shows "handle_private_message cfg w uid raw s =
           (reqs @
              [ReplyText (''API secret saqlandi, biroq ERPNext bilan ulanish amalga oshmadi. Lutfan ma'lumotlarni tekshiring.'' @
                 (if truthy error_detail then newline @ ''Ma'lumot: '' @ the error_detail else [])),
               SendMessage (j_chat_id a) (format_assignment_label a @
                 '' API ma'lumotlarini yubordi, ammo ERPNext bilan ulanish amalga oshmadi.'')],
            s\<lparr>assignments := sql_update (\<lambda>r. user_id r = uid)
               (\<lambda>r. r\<lparr>api_secret := Some (py_strip raw), credentials_status := Some ''pending_secret''\<rparr>)
               (assignments s)\<rparr>) \<and>
         get_user_assignment (snd (handle_private_message cfg w uid raw s)) uid =
           Some (a\<lparr>j_api_secret := Some (py_strip raw), j_credentials_status := Some ''pending_secret''\<rparr>)"
proof -
  have eq: "handle_private_message cfg w uid raw s =
           (reqs @
              [ReplyText (''API secret saqlandi, biroq ERPNext bilan ulanish amalga oshmadi. Lutfan ma'lumotlarni tekshiring.'' @
                 (if truthy error_detail then newline @ ''Ma'lumot: '' @ the error_detail else [])),
               SendMessage (j_chat_id a) (format_assignment_label a @
                 '' API ma'lumotlarini yubordi, ammo ERPNext bilan ulanish amalga oshmadi.'')],
            s\<lparr>assignments := sql_update (\<lambda>r. user_id r = uid)
               (\<lambda>r. r\<lparr>api_secret := Some (py_strip raw), credentials_status := Some ''pending_secret''\<rparr>)
               (assignments s)\<rparr>)"
    unfolding handle_pending_secret[OF assms(1,2)] using assms(3,4) by (simp add: Let_def)
  have "get_user_assignment (s\<lparr>assignments := sql_update (\<lambda>r. user_id r = uid)
               (\<lambda>r. r\<lparr>api_secret := Some (py_strip raw), credentials_status := Some ''pending_secret''\<rparr>)
               (assignments s)\<rparr>) uid
        = map_option (\<lambda>j. if j_user_id j = uid
            then j\<lparr>j_api_secret := Some (py_strip raw), j_credentials_status := Some ''pending_secret''\<rparr>
            else j) (get_user_assignment s uid)"
    by (rule get_user_assignment_update) (simp_all add: joined_def)
  with assms(1) get_user_assignment_id[OF assms(1)] eq show ?thesis by simp
qed

theorem secret_stored_on_failed_verification_witness:
  "handle_private_message example_config world_refusing 111 ''2a428d03deaceb8'' db_pending_secret =
     ([VerifyRequest ''3739e78cec4e139'' ''2a428d03deaceb8'',
       ReplyText (''API secret saqlandi, biroq ERPNext bilan ulanish amalga oshmadi. Lutfan ma'lumotlarni tekshiring.'' @
         newline @ ''Ma'lumot: HTTP 401: denied''),
       SendMessage 555 ''Ali API ma'lumotlarini yubordi, ammo ERPNext bilan ulanish amalga oshmadi.''],
      db_pending_secret\<lparr>assignments :=
        [\<lparr>a_chat_id = 555, user_id = 111, assigned_at = ''t1'', api_key = Some ''3739e78cec4e139'',
          api_secret = Some ''2a428d03deaceb8'', credentials_status = Some ''pending_secret'',
          customer_docname = None\<rparr>]\<rparr>)"
proof -
  have h: "get_user_assignment db_pending_secret 111 = Some (the (get_user_assignment db_pending_secret 111))"
    "status_of (the (get_user_assignment db_pending_secret 111)) = ''pending_secret''"
    "validate_api_secret (py_strip ''2a428d03deaceb8'')"
    "verify_credentials example_config world_refusing
       (if truthy (j_api_key (the (get_user_assignment db_pending_secret 111)))
        then the (j_api_key (the (get_user_assignment db_pending_secret 111))) else [])
       (py_strip ''2a428d03deaceb8'')
     = ([VerifyRequest ''3739e78cec4e139'' ''2a428d03deaceb8''], False, Some ''HTTP 401: denied'')"
    by code_simp+
  have e: "([VerifyRequest ''3739e78cec4e139'' ''2a428d03deaceb8''] @
       [ReplyText (''API secret saqlandi, biroq ERPNext bilan ulanish amalga oshmadi. Lutfan ma'lumotlarni tekshiring.'' @
          (if truthy (Some ''HTTP 401: denied'') then newline @ ''Ma'lumot: '' @ the (Some ''HTTP 401: denied'') else [])),
        SendMessage (j_chat_id (the (get_user_assignment db_pending_secret 111)))
          (format_assignment_label (the (get_user_assignment db_pending_secret 111)) @
           '' API ma'lumotlarini yubordi, ammo ERPNext bilan ulanish amalga oshmadi.'')],
      db_pending_secret\<lparr>assignments := sql_update (\<lambda>r. user_id r = 111)
         (\<lambda>r. r\<lparr>api_secret := Some (py_strip ''2a428d03deaceb8''), credentials_status := Some ''pending_secret''\<rparr>)
         (assignments db_pending_secret)\<rparr>)
    = ([VerifyRequest ''3739e78cec4e139'' ''2a428d03deaceb8'',
       ReplyText (''API secret saqlandi, biroq ERPNext bilan ulanish amalga oshmadi. Lutfan ma'lumotlarni tekshiring.'' @
         newline @ ''Ma'lumot: HTTP 401: denied''),
       SendMessage 555 ''Ali API ma'lumotlarini yubordi, ammo ERPNext bilan ulanish amalga oshmadi.''],
      db_pending_secret\<lparr>assignments :=
        [\<lparr>a_chat_id = 555, user_id = 111, assigned_at = ''t1'', api_key = Some ''3739e78cec4e139'',
          api_secret = Some ''2a428d03deaceb8'', credentials_status = Some ''pending_secret'',
          customer_docname = None\<rparr>]\<rparr>)"
    by code_simp
  from secret_stored_on_failed_verification[OF h] e show ?thesis by simp
qed

text \<open>
  The claim as stated fails in its last part: the detail of the failure is in the answer
  to the user and not in the message to the chat.
\<close>

theorem failure_detail_not_in_chat_counterexample:
  "fst (snd (verify_credentials example_config world_refusing ''3739e78cec4e139'' ''2a428d03deaceb8'')) = False \<and>
   snd (snd (verify_credentials example_config world_refusing ''3739e78cec4e139'' ''2a428d03deaceb8''))
     = Some ''HTTP 401: denied'' \<and>
   contains_text
     (message_text (fst (handle_private_message example_config world_refusing 111 ''2a428d03deaceb8''
        db_pending_secret) ! 1)) ''HTTP 401: denied'' \<and>
   fst (handle_private_message example_config world_refusing 111 ''2a428d03deaceb8'' db_pending_secret) ! 2
     = SendMessage 555 ''Ali API ma'lumotlarini yubordi, ammo ERPNext bilan ulanish amalga oshmadi.'' \<and>
   \<not> contains_text ''Ali API ma'lumotlarini yubordi, ammo ERPNext bilan ulanish amalga oshmadi.''
     ''HTTP 401: denied'' \<and>
   length (fst (handle_private_message example_config world_refusing 111 ''2a428d03deaceb8''
        db_pending_secret)) = 3"
  by code_simp
section \<open>Choice menus: pages and picks\<close>







lemma map_of_dict_set: "map_of (dict_set k v ps) k' = (if k' = k then Some v else map_of ps k')"
  by (induction ps) auto






section \<open>Free text at a choice stage\<close>

lemma py_lower_Nil [simp]: "py_lower t = [] \<longleftrightarrow> t = []"
  by (simp add: py_lower_def)

lemma match_choice_empty: "match_choice t [] = Some t"
  by (simp add: match_choice_def)

lemma match_choice_None:
  "L \<noteq> [] \<Longrightarrow> match_choice t L = None \<longleftrightarrow> (\<forall>option\<in>set L. py_lower option \<noteq> py_lower t)"
  by (auto simp: match_choice_def find_None_iff)

lemma match_choice_Some:
  "L \<noteq> [] \<Longrightarrow> match_choice t L = Some option \<longleftrightarrow>
     (\<exists>i<length L. L ! i = option \<and> py_lower option = py_lower t \<and>
        (\<forall>j<i. py_lower (L ! j) \<noteq> py_lower t))"
  by (auto simp: match_choice_def find_Some_iff)

lemma match_choice_truthy:
  assumes "t \<noteq> []"
  shows "truthy (match_choice t L) \<longleftrightarrow> L = [] \<or> (\<exists>option\<in>set L. py_lower option = py_lower t)"
proof (cases "L = []")
  case True
  with assms show ?thesis by (simp add: match_choice_empty truthy_def)
next
  case False
  show ?thesis
  proof (cases "match_choice t L")
    case None
    with False have "\<forall>option\<in>set L. py_lower option \<noteq> py_lower t"
      by (simp add: match_choice_None)
    with None False show ?thesis by (simp add: truthy_def)
  next
    case (Some option)
    with False have "option \<in> set L" "py_lower option = py_lower t"
      by (auto simp: match_choice_Some)
    moreover from this assms have "option \<noteq> []"
      by (metis py_lower_Nil)
    ultimately show ?thesis using Some False by (auto simp: truthy_def)
  qed
qed

lemma progress_at_item_group:
  assumes "truthy (j_api_key a)" "truthy (j_api_secret a)" "py_strip txt \<noteq> []"
    and "stage d = Some ''await_item_group''"
  shows "progress_item_creation cfg w now uid message_chat a d txt s =
     (if truthy (match_choice (py_strip txt) (choices_of d ''item_groups''))
      then prompt_uom cfg w now uid message_chat
             (d\<lparr>data := dict_set ''item_group''
                 (the (match_choice (py_strip txt) (choices_of d ''item_groups''))) (data d)\<rparr>)
             (the (j_api_key a)) (the (j_api_secret a)) s
      else ([ReplyText ''Noto'g'ri item group. Ro'yxatdan birini tanlang yoki aniq nomini kiriting.''], s))"
  using assms by (simp add: progress_item_creation_def Let_def)

lemma progress_at_uom:
  assumes "truthy (j_api_key a)" "truthy (j_api_secret a)" "py_strip txt \<noteq> []"
    and "stage d = Some ''await_uom''"
  shows "progress_item_creation cfg w now uid message_chat a d txt s =
     (if truthy (match_choice (py_strip txt) (choices_of d ''uoms''))
      then
        (case (map_of (data d) ''item_code'', map_of (data d) ''item_name'', map_of (data d) ''item_group'') of
           (Some item_code, Some item_name, Some item_group) \<Rightarrow>
             (let selected = the (match_choice (py_strip txt) (choices_of d ''uoms''));
                  (reqs, success, error_detail) =
                    create_item cfg w (the (j_api_key a)) (the (j_api_secret a)) item_code item_name
                      item_group selected
              in if success
                 then
                   (reqs @ [ReplyText
                      (check_mark @ '' Item ERPNext ga muvaffaqiyatli yaratildi.'' @ newline @
                       bullet @ '' Item Code: '' @ item_code @ newline @
                       bullet @ '' Item Name: '' @ item_name @ newline @
                       bullet @ '' Item Group: '' @ item_group @ newline @
                       bullet @ '' UOM: '' @ selected)],
                    snd (delete_item_draft uid s))
                 else
                   (reqs @ [ReplyText (''Item yaratishda xatolik yuz berdi.'' @
                      (if truthy error_detail then newline @ ''Ma'lumot: '' @ the error_detail else []))], s))
         | (None, _, _) \<Rightarrow> ([Raised (KeyError ''item_code'')], s)
         | (_, None, _) \<Rightarrow> ([Raised (KeyError ''item_name'')], s)
         | (_, _, None) \<Rightarrow> ([Raised (KeyError ''item_group'')], s))
      else ([ReplyText ''Noto'g'ri o'lchov birligi. Ro'yxatdan birini tanlang yoki aniq nomini kiriting.''], s))"
  using assms
  by (auto simp: progress_item_creation_def Let_def map_of_dict_set split: option.splits prod.splits)

text \<open>
  C7, as amended.  For a draft at a choice stage, credentials on the assignment and an answer
  that is not blank after stripping: the answer is accepted exactly when the cached option
  list is empty or the answer equals at least one option when case is ignored; otherwise
  the retry prompt is sent and the store, the draft in it, is not changed.  The value that is
  accepted is the answer itself when the list is empty and otherwise the first option that
  matches, in its own casing; at the group stage it is put into the draft and the units are
  fetched, at the unit stage it is sent to ERPNext as the unit of the new item.
\<close>

theorem free_text_choice:
  "(match_choice t [] = Some t) \<and>
   (L \<noteq> [] \<longrightarrow>
      (match_choice t L = None \<longleftrightarrow> (\<forall>option\<in>set L. py_lower option \<noteq> py_lower t)) \<and>
      (match_choice t L = Some chosen \<longleftrightarrow>
         (\<exists>i<length L. L ! i = chosen \<and> py_lower chosen = py_lower t \<and>
            (\<forall>j<i. py_lower (L ! j) \<noteq> py_lower t)))) \<and>
   (t \<noteq> [] \<longrightarrow>
      (truthy (match_choice t L) \<longleftrightarrow> L = [] \<or> (\<exists>option\<in>set L. py_lower option = py_lower t))) \<and>
   (truthy (j_api_key a) \<and> truthy (j_api_secret a) \<and> py_strip txt \<noteq> [] \<and>
    stage d = Some ''await_item_group'' \<longrightarrow>
      progress_item_creation cfg w now uid message_chat a d txt s =
        (if truthy (match_choice (py_strip txt) (choices_of d ''item_groups''))
         then prompt_uom cfg w now uid message_chat
                (d\<lparr>data := dict_set ''item_group''
                    (the (match_choice (py_strip txt) (choices_of d ''item_groups''))) (data d)\<rparr>)
                (the (j_api_key a)) (the (j_api_secret a)) s
         else ([ReplyText ''Noto'g'ri item group. Ro'yxatdan birini tanlang yoki aniq nomini kiriting.''],
               s))) \<and>
   (truthy (j_api_key a) \<and> truthy (j_api_secret a) \<and> py_strip txt \<noteq> [] \<and>
    stage d = Some ''await_uom'' \<longrightarrow>
      progress_item_creation cfg w now uid message_chat a d txt s =
        (if truthy (match_choice (py_strip txt) (choices_of d ''uoms''))
         then
           (case (map_of (data d) ''item_code'', map_of (data d) ''item_name'',
                  map_of (data d) ''item_group'') of
              (Some item_code, Some item_name, Some item_group) \<Rightarrow>
                (let selected = the (match_choice (py_strip txt) (choices_of d ''uoms''));
                     (reqs, success, error_detail) =
                       create_item cfg w (the (j_api_key a)) (the (j_api_secret a)) item_code item_name
                         item_group selected
                 in if success
                    then
                      (reqs @ [ReplyText
                         (check_mark @ '' Item ERPNext ga muvaffaqiyatli yaratildi.'' @ newline @
                          bullet @ '' Item Code: '' @ item_code @ newline @
                          bullet @ '' Item Name: '' @ item_name @ newline @
                          bullet @ '' Item Group: '' @ item_group @ newline @
                          bullet @ '' UOM: '' @ selected)],
                       snd (delete_item_draft uid s))
                    else
                      (reqs @ [ReplyText (''Item yaratishda xatolik yuz berdi.'' @
                         (if truthy error_detail then newline @ ''Ma'lumot: '' @ the error_detail else []))],
                       s))
            | (None, _, _) \<Rightarrow> ([Raised (KeyError ''item_code'')], s)
            | (_, None, _) \<Rightarrow> ([Raised (KeyError ''item_name'')], s)
            | (_, _, None) \<Rightarrow> ([Raised (KeyError ''item_group'')], s))
         else ([ReplyText ''Noto'g'ri o'lchov birligi. Ro'yxatdan birini tanlang yoki aniq nomini kiriting.''],
               s)))"
  using match_choice_empty[of t] match_choice_None[of L t] match_choice_Some[of L t chosen]
    match_choice_truthy[of t L]
    progress_at_item_group[of a "txt" d cfg w now uid message_chat s]
    progress_at_uom[of a "txt" d cfg w now uid message_chat s]
  by blast

theorem free_text_choice_witness:
  "progress_item_creation example_config world_accepting ''t7'' 111 555 example_assignment draft_at_uom
       '' KG '' db_active
     = ([CreateItem ''3739e78cec4e139'' ''2a428d03deaceb8'' ''ITEM-1'' ''Item one'' ''Box'' ''kg'',
         ReplyText
           (check_mark @ '' Item ERPNext ga muvaffaqiyatli yaratildi.'' @ newline @
            bullet @ '' Item Code: ITEM-1'' @ newline @ bullet @ '' Item Name: Item one'' @ newline @
            bullet @ '' Item Group: Box'' @ newline @ bullet @ '' UOM: kg'')],
        db_active\<lparr>item_drafts := []\<rparr>) \<and>
   progress_item_creation example_config world_accepting ''t7'' 111 555 example_assignment draft_at_uom
       ''k'' db_active
     = ([ReplyText ''Noto'g'ri o'lchov birligi. Ro'yxatdan birini tanlang yoki aniq nomini kiriting.''],
        db_active) \<and>
   match_choice ''BOX'' [''Box'', ''kg''] = Some ''Box''"
proof -
  have h: "truthy (j_api_key example_assignment) \<and> truthy (j_api_secret example_assignment) \<and>
      py_strip '' KG '' \<noteq> [] \<and> stage draft_at_uom = Some ''await_uom''"
    "truthy (j_api_key example_assignment) \<and> truthy (j_api_secret example_assignment) \<and>
      py_strip ''k'' \<noteq> [] \<and> stage draft_at_uom = Some ''await_uom''"
    by code_simp+
  note t1 = free_text_choice[of "''BOX''" "[''Box'', ''kg'']" "''Box''" example_assignment "'' KG ''"
      draft_at_uom example_config world_accepting "''t7''" 111 555 db_active]
  note t2 = free_text_choice[of "''BOX''" "[''Box'', ''kg'']" "''Box''" example_assignment "''k''"
      draft_at_uom example_config world_accepting "''t7''" 111 555 db_active]
  from t1 h(1) have 1: "progress_item_creation example_config world_accepting ''t7'' 111 555
      example_assignment draft_at_uom '' KG '' db_active =
        (if truthy (match_choice (py_strip '' KG '') (choices_of draft_at_uom ''uoms''))
         then
           (case (map_of (data draft_at_uom) ''item_code'', map_of (data draft_at_uom) ''item_name'',
                  map_of (data draft_at_uom) ''item_group'') of
              (Some item_code, Some item_name, Some item_group) \<Rightarrow>
                (let selected = the (match_choice (py_strip '' KG '') (choices_of draft_at_uom ''uoms''));
                     (reqs, success, error_detail) =
                       create_item example_config world_accepting (the (j_api_key example_assignment))
                         (the (j_api_secret example_assignment)) item_code item_name
                         item_group selected
                 in if success
                    then
                      (reqs @ [ReplyText
                         (check_mark @ '' Item ERPNext ga muvaffaqiyatli yaratildi.'' @ newline @
                          bullet @ '' Item Code: '' @ item_code @ newline @
                          bullet @ '' Item Name: '' @ item_name @ newline @
                          bullet @ '' Item Group: '' @ item_group @ newline @
                          bullet @ '' UOM: '' @ selected)],
                       snd (delete_item_draft 111 db_active))
                    else
                      (reqs @ [ReplyText (''Item yaratishda xatolik yuz berdi.'' @
                         (if truthy error_detail then newline @ ''Ma'lumot: '' @ the error_detail else []))],
                       db_active))
            | (None, _, _) \<Rightarrow> ([Raised (KeyError ''item_code'')], db_active)
            | (_, None, _) \<Rightarrow> ([Raised (KeyError ''item_name'')], db_active)
            | (_, _, None) \<Rightarrow> ([Raised (KeyError ''item_group'')], db_active))
         else ([ReplyText ''Noto'g'ri o'lchov birligi. Ro'yxatdan birini tanlang yoki aniq nomini kiriting.''],
               db_active))"
    by blast
  have e1: "(if truthy (match_choice (py_strip '' KG '') (choices_of draft_at_uom ''uoms''))
         then
           (case (map_of (data draft_at_uom) ''item_code'', map_of (data draft_at_uom) ''item_name'',
                  map_of (data draft_at_uom) ''item_group'') of
              (Some item_code, Some item_name, Some item_group) \<Rightarrow>
                (let selected = the (match_choice (py_strip '' KG '') (choices_of draft_at_uom ''uoms''));
                     (reqs, success, error_detail) =
                       create_item example_config world_accepting (the (j_api_key example_assignment))
                         (the (j_api_secret example_assignment)) item_code item_name
                         item_group selected
                 in if success
                    then
                      (reqs @ [ReplyText
                         (check_mark @ '' Item ERPNext ga muvaffaqiyatli yaratildi.'' @ newline @
                          bullet @ '' Item Code: '' @ item_code @ newline @
                          bullet @ '' Item Name: '' @ item_name @ newline @
                          bullet @ '' Item Group: '' @ item_group @ newline @
                          bullet @ '' UOM: '' @ selected)],
                       snd (delete_item_draft 111 db_active))
                    else
                      (reqs @ [ReplyText (''Item yaratishda xatolik yuz berdi.'' @
                         (if truthy error_detail then newline @ ''Ma'lumot: '' @ the error_detail else []))],
                       db_active))
            | (None, _, _) \<Rightarrow> ([Raised (KeyError ''item_code'')], db_active)
            | (_, None, _) \<Rightarrow> ([Raised (KeyError ''item_name'')], db_active)
            | (_, _, None) \<Rightarrow> ([Raised (KeyError ''item_group'')], db_active))
         else ([ReplyText ''Noto'g'ri o'lchov birligi. Ro'yxatdan birini tanlang yoki aniq nomini kiriting.''],
               db_active))
      = ([CreateItem ''3739e78cec4e139'' ''2a428d03deaceb8'' ''ITEM-1'' ''Item one'' ''Box'' ''kg'',
         ReplyText
           (check_mark @ '' Item ERPNext ga muvaffaqiyatli yaratildi.'' @ newline @
            bullet @ '' Item Code: ITEM-1'' @ newline @ bullet @ '' Item Name: Item one'' @ newline @
            bullet @ '' Item Group: Box'' @ newline @ bullet @ '' UOM: kg'')],
        db_active\<lparr>item_drafts := []\<rparr>)"
    by code_simp
  have rest: "progress_item_creation example_config world_accepting ''t7'' 111 555 example_assignment
       draft_at_uom ''k'' db_active
     = ([ReplyText ''Noto'g'ri o'lchov birligi. Ro'yxatdan birini tanlang yoki aniq nomini kiriting.''],
        db_active)"
    "match_choice ''BOX'' [''Box'', ''kg''] = Some ''Box''"
    by code_simp+
  from 1 e1 rest show ?thesis by simp
qed

text \<open>
  The claim as stated fails in two ways.  With an empty option list any answer is
  accepted: \<open>kg\<close> becomes the unit of the new item.  With two options that differ in case
  only, an answer that matches both is accepted, with the first of them.
\<close>

theorem free_text_choice_counterexample:
  "choices_of (draft_at_uom\<lparr>choices := []\<rparr>) ''uoms'' = [] \<and>
   match_choice ''kg'' [] = Some ''kg'' \<and>
   fst (progress_item_creation example_config world_accepting ''t7'' 111 555 example_assignment
          (draft_at_uom\<lparr>choices := []\<rparr>) ''kg'' db_active) ! 0
     = CreateItem ''3739e78cec4e139'' ''2a428d03deaceb8'' ''ITEM-1'' ''Item one'' ''Box'' ''kg'' \<and>
   snd (progress_item_creation example_config world_accepting ''t7'' 111 555 example_assignment
          (draft_at_uom\<lparr>choices := []\<rparr>) ''kg'' db_active) = db_active\<lparr>item_drafts := []\<rparr> \<and>
   count_matches ''box'' [''Box'', ''BOX''] = 2 \<and>
   match_choice ''box'' [''Box'', ''BOX''] = Some ''Box''"
  by code_simp
section \<open>What an event does to the credential columns\<close>

lemma cred_rows_other [simp]:
  "cred_rows (s\<lparr>users := us\<rparr>) = cred_rows s" "cred_rows (s\<lparr>chats := cs\<rparr>) = cred_rows s"
  "cred_rows (s\<lparr>item_drafts := ds\<rparr>) = cred_rows s"
  by (simp_all add: cred_rows_def)

lemma cred_rows_record_user [simp]: "cred_rows (snd (record_user now tid un fnm lnm s)) = cred_rows s"
  by (auto simp: record_user_def record_user_body_def connection_def split: option.splits sum.splits)

lemma cred_rows_record_tg_user [simp]: "cred_rows (snd (record_tg_user now u s)) = cred_rows s"
  by (simp add: record_tg_user_def)

lemma cred_rows_record_group_chat [simp]: "cred_rows (snd (record_group_chat now cid ttl s)) = cred_rows s"
  by (auto simp: record_group_chat_def record_group_chat_body_def connection_def
      split: option.splits sum.splits)

lemma cred_rows_save_item_draft [simp]: "cred_rows (snd (save_item_draft now uid d s)) = cred_rows s"
  by (simp add: save_item_draft_def connection_def)

lemma cred_rows_delete_item_draft [simp]: "cred_rows (snd (delete_item_draft uid s)) = cred_rows s"
  by (simp add: delete_item_draft_def connection_def)

lemma cred_rows_store_customer_doc [simp]:
  "cred_rows (snd (store_customer_doc cid docname s)) = cred_rows s"
  by (simp add: store_customer_doc_eq cred_rows_def creds_sql_update creds_def)

lemma cred_rows_ensure [simp]:
  "cred_rows (snd (ensure_customer_exists cfg w a key secret s)) = cred_rows s"
  using ensure_customer_exists_creds[of cfg w a key secret s] by (simp add: cred_rows_def)

lemma cred_rows_prompt_item_group [simp]:
  "cred_rows (snd (prompt_item_group cfg w now uid mc d key secret s)) = cred_rows s"
  by (simp add: prompt_item_group_def Let_def split: prod.splits)

lemma cred_rows_prompt_uom [simp]:
  "cred_rows (snd (prompt_uom cfg w now uid mc d key secret s)) = cred_rows s"
  by (simp add: prompt_uom_def Let_def split: prod.splits)

lemma cred_rows_progress [simp]:
  "cred_rows (snd (progress_item_creation cfg w now uid mc a d t s)) = cred_rows s"
  by (simp add: progress_item_creation_def Let_def split: prod.splits option.splits)

lemma cred_rows_maybe_progress [simp]:
  "cred_rows (snd (maybe_progress_group_item_flow cfg w now cid uid t s)) = cred_rows s"
  by (simp add: maybe_progress_group_item_flow_def Let_def split: option.splits)

lemma cred_rows_group_activity [simp]:
  "cred_rows (snd (handle_group_activity cfg w now cid ttl user t s)) = cred_rows s"
proof -
  have a: "cred_rows s1 = cred_rows s" if "record_group_chat now cid ttl s = (r, s1)" for r s1
    using cred_rows_record_group_chat[of now cid ttl s] that by simp
  have b: "cred_rows s2 = cred_rows s1" if "record_tg_user now u s1 = (r, s2)" for r s1 s2 u
    using cred_rows_record_tg_user[of now u s1] that by simp
  show ?thesis
    by (auto simp: handle_group_activity_def a b split: prod.splits sum.splits option.splits)
qed

lemma cred_rows_new_item [simp]:
  "cred_rows (snd (handle_new_item cfg w now g cid uid s)) = cred_rows s"
proof -
  have e: "cred_rows s1 = cred_rows s" if "ensure_customer_exists cfg w a k sec s = (acts, s1)" for a k sec acts s1
    using cred_rows_ensure[of cfg w a k sec s] that by simp
  show ?thesis
    by (auto simp: handle_new_item_def Let_def e split: option.splits prod.splits)
qed

lemma cred_rows_start [simp]:
  "cred_rows (snd (handle_start now private cid ttl usr s)) = cred_rows s"
proof -
  have a: "cred_rows s1 = cred_rows s0" if "record_group_chat now cid ttl s0 = (r, s1)" for r s0 s1
    using cred_rows_record_group_chat[of now cid ttl s0] that by simp
  have b: "cred_rows s2 = cred_rows s1" if "record_tg_user now u s1 = (r, s2)" for r s1 s2 u
    using cred_rows_record_tg_user[of now u s1] that by simp
  show ?thesis
    by (auto simp: handle_start_def Let_def a b split: prod.splits sum.splits)
qed

lemma cred_rows_assign_command [simp]:
  "cred_rows (snd (handle_assign_command cfg now g cid ttl uid s)) = cred_rows s"
proof -
  have a: "cred_rows s1 = cred_rows s0" if "record_group_chat now cid ttl s0 = (r, s1)" for r s0 s1
    using cred_rows_record_group_chat[of now cid ttl s0] that by simp
  show ?thesis
    by (auto simp: handle_assign_command_def Let_def a split: prod.splits sum.splits option.splits)
qed

lemma cred_rows_choice_callback [simp]:
  "cred_rows (snd (handle_choice_callback cfg w now from_user query_data mc s)) = cred_rows s"
proof -
  have p: "cred_rows s1 = cred_rows s"
    if "progress_item_creation cfg w now uid mcc a d t s = (acts, s1)" for uid mcc a d t acts s1
    using cred_rows_progress[of cfg w now uid mcc a d t s] that by simp
  show ?thesis
    by (auto simp: handle_choice_callback_def Let_def p
        split: list.splits option.splits prod.splits)
qed

lemma cred_rows_clear:
  "cred_rows (snd (handle_clear_assignments cfg uid s)) = cred_rows s \<or>
   assignments (snd (handle_clear_assignments cfg uid s)) = []"
  by (simp add: handle_clear_assignments_def clear_all_assignments_def connection_def)

lemma cred_rows_reset_api:
  "cred_rows (snd (handle_reset_api private uid s)) = cred_rows s \<or>
   private \<and>
   cred_rows (snd (handle_reset_api private uid s)) =
     map creds (sql_update (\<lambda>r. user_id r = uid)
       (\<lambda>r. r\<lparr>api_key := None, api_secret := None, credentials_status := Some ''pending_key''\<rparr>)
       (assignments s))"
  by (auto simp: handle_reset_api_def reset_credentials_found cred_rows_def split: option.splits)

lemma assign_sales_manager_rows:
  "cred_rows (snd (assign_sales_manager now cid uid s)) = cred_rows s \<or>
   cid \<notin> a_chat_id ` set (assignments s) \<and> uid \<notin> user_id ` set (assignments s) \<and>
   cred_rows (snd (assign_sales_manager now cid uid s))
     = cred_rows s @ [(cid, uid, None, None, Some ''pending_key'')]"
proof (cases "fst (assign_sales_manager now cid uid s)")
  case (Inl e)
  then show ?thesis by (simp add: assign_rollback)
next
  case (Inr u)
  then have ok: "fst (assign_sales_manager_body now cid uid s) = Inr ()"
    by (simp add: assign_result)
  then have free: "cid \<notin> a_chat_id ` set (assignments s)" "uid \<notin> user_id ` set (assignments s)"
    unfolding assign_body_result by (auto split: if_splits)
  obtain s1 where s1: "assignments s1 = assignments s"
    and eq: "assign_sales_manager_body now cid uid s =
       (if fetchone (filter (\<lambda>u. telegram_id u = uid) (users s)) = None
          then (Inl (AssignmentError ''Foydalanuvchi botga shaxsiy chatda /start yubormagan.''), s1)
          else if fetchone (filter (\<lambda>a. a_chat_id a = cid) (assignments s)) \<noteq> None
          then (Inl (AssignmentError ''Bu guruh uchun sales manager allaqachon tanlangan.''), s1)
          else if fetchone (filter (\<lambda>a. user_id a = uid) (assignments s)) \<noteq> None
          then (Inl (AssignmentError
                  ''Bu foydalanuvchi boshqa guruhda sales manager sifatida tayinlangan.''), s1)
          else
            (case sql_insert (\<lambda>a. a_chat_id a = cid \<or> user_id a = uid)
                    \<lparr>a_chat_id = cid, user_id = uid, assigned_at = now, api_key = None,
                     api_secret = None, credentials_status = Some ''pending_key'',
                     customer_docname = None\<rparr> (assignments s) of
               Inl e \<Rightarrow> (Inl e, s1)
             | Inr tbl \<Rightarrow> (Inr (), s1\<lparr>assignments := tbl\<rparr>)))"
    by (rule assign_body_unfold[where s = s and now = now and cid = cid and uid = uid]) blast
  have ins: "sql_insert (\<lambda>a. a_chat_id a = cid \<or> user_id a = uid) r (assignments s)
      = Inr (assignments s @ [r])" for r
    using free by (intro sql_insert_free) auto
  from ok have "assignments (snd (assign_sales_manager_body now cid uid s))
      = assignments s @ [\<lparr>a_chat_id = cid, user_id = uid, assigned_at = now, api_key = None,
                     api_secret = None, credentials_status = Some ''pending_key'',
                     customer_docname = None\<rparr>]"
    unfolding eq by (auto simp: ins split: if_splits)
  moreover from ok have "snd (assign_sales_manager now cid uid s) = snd (assign_sales_manager_body now cid uid s)"
    by (auto simp: assign_sales_manager_def connection_def split: prod.splits sum.splits)
  ultimately show ?thesis using free s1 by (simp add: cred_rows_def creds_def)
qed

lemma cred_rows_assign_callback:
  "cred_rows (snd (handle_assign_callback cfg w now from_user query_data mc s)) = cred_rows s \<or>
   (\<exists>cid uid. cid \<notin> a_chat_id ` set (assignments s) \<and> uid \<notin> user_id ` set (assignments s) \<and>
      cred_rows (snd (handle_assign_callback cfg w now from_user query_data mc s))
        = cred_rows s @ [(cid, uid, None, None, Some ''pending_key'')])"
proof -
  have a: "cred_rows s1 = cred_rows s \<and> assignments s1 = assignments s"
    if "record_group_chat now cid ttl s = (r, s1)" for r s1 cid ttl
    using that
    by (auto simp: record_group_chat_def record_group_chat_body_def connection_def cred_rows_def
      split: option.splits sum.splits)
  have b: "cred_rows s2 = cred_rows s1 \<or>
      cid \<notin> a_chat_id ` set (assignments s1) \<and> uid \<notin> user_id ` set (assignments s1) \<and>
      cred_rows s2 = cred_rows s1 @ [(cid, uid, None, None, Some ''pending_key'')]"
    if "assign_sales_manager now cid uid s1 = (r, s2)" for r s1 s2 cid uid
    using assign_sales_manager_rows[of now cid uid s1] that by simp
  show ?thesis
    unfolding handle_assign_callback_def Let_def
    by (auto split: list.splits option.splits prod.splits sum.splits error.splits dest!: a dest: b)
qed
section \<open>Steps of the handshake\<close>

lemma creds_simps [simp]:
  "creds r = creds r' \<longleftrightarrow> a_chat_id r = a_chat_id r' \<and> user_id r = user_id r' \<and>
     api_key r = api_key r' \<and> api_secret r = api_secret r' \<and>
     credentials_status r = credentials_status r'"
  by (auto simp: creds_def)

lemma cred_rows_mem:
  "cred_rows s' = map creds xs \<Longrightarrow> r' \<in> set (assignments s') \<Longrightarrow> \<exists>x\<in>set xs. creds r' = creds x"
proof -
  assume a: "cred_rows s' = map creds xs" and b: "r' \<in> set (assignments s')"
  from b have "creds r' \<in> set (cred_rows s')" by (simp add: cred_rows_def)
  with a show ?thesis by auto
qed

lemma uniq_chat_eq:
  "uniq s \<Longrightarrow> r \<in> set (assignments s) \<Longrightarrow> x \<in> set (assignments s) \<Longrightarrow>
     a_chat_id x = a_chat_id r \<Longrightarrow> x = r"
  by (auto simp: uniq_def distinct_map dest: inj_onD)

lemma uniq_user_eq:
  "uniq s \<Longrightarrow> r \<in> set (assignments s) \<Longrightarrow> x \<in> set (assignments s) \<Longrightarrow>
     user_id x = user_id r \<Longrightarrow> x = r"
  by (auto simp: uniq_def distinct_map dest: inj_onD)

lemma edge_refl: "edge cfg w ev r (credentials_status r)"
  by (simp add: edge_def)

lemma step_same:
  assumes "uniq s" "cred_rows s' = cred_rows s"
  shows "step_ok cfg w ev s s'"
  unfolding step_ok_def
proof (intro conjI ballI impI)
  fix r r' assume r: "r \<in> set (assignments s)" and r': "r' \<in> set (assignments s')"
    and c: "a_chat_id r' = a_chat_id r"
  from cred_rows_mem[OF assms(2)[unfolded cred_rows_def[of s]] r']
  obtain x where x: "x \<in> set (assignments s)" "creds r' = creds x" by blast
  with c uniq_chat_eq[OF assms(1) r, of x] have "x = r" by simp
  with x show "user_id r' = user_id r" "edge cfg w ev r (credentials_status r')"
    by (simp_all add: edge_refl)
next
  fix r' assume r': "r' \<in> set (assignments s')"
    and n: "a_chat_id r' \<notin> a_chat_id ` set (assignments s)"
  from cred_rows_mem[OF assms(2)[unfolded cred_rows_def[of s]] r']
  obtain x where x: "x \<in> set (assignments s)" "creds r' = creds x" by blast
  with n have False by auto
  then show "credentials_status r' = Some ''pending_key''" "api_key r' = None" "api_secret r' = None"
    by blast+
qed

lemma step_update:
  assumes u: "uniq s"
    and c: "cred_rows s' = map creds (sql_update P f (assignments s))"
    and ids: "\<And>r. a_chat_id (f r) = a_chat_id r" "\<And>r. user_id (f r) = user_id r"
    and e: "\<And>r. r \<in> set (assignments s) \<Longrightarrow> P r \<Longrightarrow> edge cfg w ev r (credentials_status (f r))"
  shows "step_ok cfg w ev s s'"
  unfolding step_ok_def
proof (intro conjI ballI impI)
  have mem: "\<exists>x\<in>set (assignments s). creds r' = creds (if P x then f x else x)"
    if "r' \<in> set (assignments s')" for r'
    using cred_rows_mem[OF c that] by (auto simp: sql_update_def)
  {
    fix r r' assume r: "r \<in> set (assignments s)" and r': "r' \<in> set (assignments s')"
      and ch: "a_chat_id r' = a_chat_id r"
    from mem[OF r'] obtain x where x: "x \<in> set (assignments s)"
      "creds r' = creds (if P x then f x else x)" by blast
    with ch ids have "a_chat_id x = a_chat_id r" by (auto split: if_splits)
    with uniq_chat_eq[OF u r x(1)] have xr: "x = r" by simp
    with x ids show "user_id r' = user_id r" by (auto split: if_splits)
    from xr x e[OF r] show "edge cfg w ev r (credentials_status r')"
      by (auto simp: edge_refl split: if_splits)
  }
  fix r' assume r': "r' \<in> set (assignments s')"
    and n: "a_chat_id r' \<notin> a_chat_id ` set (assignments s)"
  from mem[OF r'] obtain x where x: "x \<in> set (assignments s)"
      "creds r' = creds (if P x then f x else x)" by blast
  with ids have "a_chat_id r' = a_chat_id x" by (auto split: if_splits)
  with n x have False by auto
  then show "credentials_status r' = Some ''pending_key''" "api_key r' = None" "api_secret r' = None"
    by blast+
qed

lemma step_clear: "assignments s' = [] \<Longrightarrow> step_ok cfg w ev s s'"
  by (simp add: step_ok_def)

lemma step_new:
  assumes u: "uniq s"
    and c: "cred_rows s' = cred_rows s @ [(cid, uid, None, None, Some ''pending_key'')]"
    and n: "cid \<notin> a_chat_id ` set (assignments s)"
  shows "step_ok cfg w ev s s'"
  unfolding step_ok_def
proof (intro conjI ballI impI)
  have mem: "(\<exists>x\<in>set (assignments s). creds r' = creds x) \<or>
      creds r' = (cid, uid, None, None, Some ''pending_key'')"
    if "r' \<in> set (assignments s')" for r'
  proof -
    from that have "creds r' \<in> set (cred_rows s')" by (simp add: cred_rows_def)
    with c show ?thesis by (auto simp: cred_rows_def)
  qed
  {
    fix r r' assume r: "r \<in> set (assignments s)" and r': "r' \<in> set (assignments s')"
      and ch: "a_chat_id r' = a_chat_id r"
    from mem[OF r'] show "user_id r' = user_id r"
    proof
      assume "\<exists>x\<in>set (assignments s). creds r' = creds x"
      then obtain x where x: "x \<in> set (assignments s)" "creds r' = creds x" by blast
      with ch uniq_chat_eq[OF u r x(1)] show ?thesis by simp
    next
      assume "creds r' = (cid, uid, None, None, Some ''pending_key'')"
      then have "a_chat_id r' = cid" by (simp add: creds_def)
      with ch have "cid = a_chat_id r" by simp
      with r have "cid \<in> a_chat_id ` set (assignments s)" by simp
      with n show ?thesis by contradiction
    qed
    from mem[OF r'] show "edge cfg w ev r (credentials_status r')"
    proof
      assume "\<exists>x\<in>set (assignments s). creds r' = creds x"
      then obtain x where x: "x \<in> set (assignments s)" "creds r' = creds x" by blast
      with ch uniq_chat_eq[OF u r x(1)] show ?thesis by (simp add: edge_refl)
    next
      assume "creds r' = (cid, uid, None, None, Some ''pending_key'')"
      then have "a_chat_id r' = cid" by (simp add: creds_def)
      with ch have "cid = a_chat_id r" by simp
      with r have "cid \<in> a_chat_id ` set (assignments s)" by simp
      with n show ?thesis by contradiction
    qed
  }
  fix r' assume r': "r' \<in> set (assignments s')"
    and nn: "a_chat_id r' \<notin> a_chat_id ` set (assignments s)"
  from mem[OF r'] nn have "creds r' = (cid, uid, None, None, Some ''pending_key'')" by auto
  then show "credentials_status r' = Some ''pending_key''" "api_key r' = None" "api_secret r' = None"
    by (simp_all add: creds_def)
qed
section \<open>Well-formed stores and the private message\<close>

lemma wf_cred_rows:
  "wf s \<longleftrightarrow> distinct (map fst (cred_rows s)) \<and> distinct (map (fst \<circ> snd) (cred_rows s)) \<and>
     list_all (\<lambda>c. valid_status (snd (snd (snd (snd c))))) (cred_rows s)"
  by (simp add: wf_def uniq_def cred_rows_def creds_def comp_def list_all_iff)

lemma wf_same: "cred_rows s' = cred_rows s \<Longrightarrow> wf s' = wf s"
  by (simp add: wf_cred_rows)

lemma wf_clear: "assignments s' = [] \<Longrightarrow> wf s'"
  by (simp add: wf_def uniq_def)

lemma wf_update:
  assumes "wf s" "cred_rows s' = map creds (sql_update P f (assignments s))"
    and ids: "\<And>r. a_chat_id (f r) = a_chat_id r" "\<And>r. user_id (f r) = user_id r"
    and v: "\<And>r. valid_status (credentials_status (f r))"
  shows "wf s'"
proof -
  have 1: "map fst (cred_rows s') = map a_chat_id (assignments s)"
    unfolding assms(2) by (simp add: sql_update_def creds_def comp_def ids if_distrib cong: if_cong)
  have 2: "map (fst \<circ> snd) (cred_rows s') = map user_id (assignments s)"
    unfolding assms(2) by (simp add: sql_update_def creds_def comp_def ids if_distrib cong: if_cong)
  have 3: "list_all (\<lambda>c. valid_status (snd (snd (snd (snd c))))) (cred_rows s')"
    unfolding assms(2) using assms(1) v
    by (auto simp: sql_update_def creds_def list_all_iff wf_def)
  from assms(1) have "distinct (map a_chat_id (assignments s))" "distinct (map user_id (assignments s))"
    by (simp_all add: wf_def uniq_def)
  with 1 2 3 show ?thesis unfolding wf_cred_rows[of s'] by simp
qed

lemma wf_new:
  assumes "wf s" "cred_rows s' = cred_rows s @ [(cid, uid, None, None, Some ''pending_key'')]"
    and "cid \<notin> a_chat_id ` set (assignments s)" "uid \<notin> user_id ` set (assignments s)"
  shows "wf s'"
proof -
  from assms(1) have "distinct (map a_chat_id (assignments s))" "distinct (map user_id (assignments s))"
    "list_all (\<lambda>r. valid_status (credentials_status r)) (assignments s)"
    by (simp_all add: wf_def uniq_def)
  with assms(3,4) show ?thesis
    unfolding wf_cred_rows[of s'] assms(2)
    by (simp add: cred_rows_def creds_def comp_def valid_status_def list_all_iff)
qed

lemma joined_row_of:
  assumes u: "uniq s" and g: "get_user_assignment s uid = Some a"
    and r: "r \<in> set (assignments s)" "user_id r = uid"
  shows "j_credentials_status a = credentials_status r \<and> j_api_key a = api_key r"
proof -
  from g have "a \<in> set (filter (\<lambda>j. j_user_id j = uid) (joined_rows s))"
    by (cases "filter (\<lambda>j. j_user_id j = uid) (joined_rows s)")
       (simp_all add: get_user_assignment_def)
  then have "a \<in> set (joined_rows s)" "j_user_id a = uid" by simp_all
  then obtain x c usr where x: "x \<in> set (assignments s)" "a = joined x c usr"
    by (auto simp: joined_rows_def split: if_splits)
  with \<open>j_user_id a = uid\<close> have "user_id x = uid" by (simp add: joined_def)
  with uniq_user_eq[OF u r(1) x(1)] r(2) have "x = r" by simp
  with x show ?thesis by (simp add: joined_def)
qed

lemma status_of_valid:
  "valid_status (j_credentials_status a) \<Longrightarrow> j_credentials_status a = Some (status_of a)"
  by (auto simp: valid_status_def status_of_def truthy_def)

lemma handle_pending_secret_creds:
  assumes "get_user_assignment s uid = Some a" "status_of a = ''pending_secret''"
    and "validate_api_secret (py_strip raw)"
  shows "cred_rows (snd (handle_private_message cfg w uid raw s)) =
           map creds (sql_update (\<lambda>r. user_id r = uid)
             (\<lambda>r. r\<lparr>api_secret := Some (py_strip raw),
                     credentials_status :=
                       Some (if fst (snd (verify_credentials cfg w
                                (if truthy (j_api_key a) then the (j_api_key a) else []) (py_strip raw)))
                             then ''active'' else ''pending_secret'')\<rparr>)
             (assignments s))"
  unfolding handle_pending_secret[OF assms(1,2)] cred_rows_def using assms(3)
  by (auto simp: Let_def ensure_customer_exists_creds split: prod.splits)

lemma private_message_effect:
  assumes wf: "wf s"
  shows "cred_rows (snd (handle_private_message cfg w uid raw s)) = cred_rows s \<or>
    (\<exists>f. cred_rows (snd (handle_private_message cfg w uid raw s))
            = map creds (sql_update (\<lambda>r. user_id r = uid) f (assignments s)) \<and>
         (\<forall>r. a_chat_id (f r) = a_chat_id r \<and> user_id (f r) = user_id r \<and>
              valid_status (credentials_status (f r))) \<and>
         (\<forall>r\<in>set (assignments s). user_id r = uid \<longrightarrow>
              edge cfg w (PrivateMessage uid raw) r (credentials_status (f r))))"
proof (cases "get_user_assignment s uid")
  case None
  then show ?thesis by (simp add: handle_private_message_def Let_def)
next
  case (Some a)
  from wf have u: "uniq s" by (simp add: wf_def)
  have row: "j_credentials_status a = credentials_status r \<and> j_api_key a = api_key r"
    if "r \<in> set (assignments s)" "user_id r = uid" for r
    using joined_row_of[OF u Some that] .
  have valid: "valid_status (credentials_status r)" if "r \<in> set (assignments s)" for r
    using wf that by (simp add: wf_def list_all_iff)
  consider (k) "status_of a = ''pending_key''" "validate_api_key (py_strip raw)"
    | (s) "status_of a = ''pending_secret''" "validate_api_secret (py_strip raw)"
    | (kn) "status_of a = ''pending_key''" "\<not> validate_api_key (py_strip raw)"
    | (sn) "status_of a = ''pending_secret''" "\<not> validate_api_secret (py_strip raw)"
    | (other) "status_of a \<noteq> ''pending_key''" "status_of a \<noteq> ''pending_secret''"
    by blast
  then show ?thesis
  proof cases
    case k
    let ?f = "\<lambda>r. r\<lparr>api_key := Some (py_strip raw), credentials_status := Some ''pending_secret''\<rparr>"
    have "cred_rows (snd (handle_private_message cfg w uid raw s))
        = map creds (sql_update (\<lambda>r. user_id r = uid) ?f (assignments s))"
      using handle_pending_key[OF Some k(1), of cfg w raw] k(2) by (simp add: cred_rows_def)
    moreover have "edge cfg w (PrivateMessage uid raw) r (credentials_status (?f r))"
      if "r \<in> set (assignments s)" "user_id r = uid" for r
    proof -
      from row[OF that] valid[OF that(1)] have "credentials_status r = Some (status_of a)"
        using status_of_valid[of a] by simp
      with k that show ?thesis by (simp add: edge_def)
    qed
    ultimately show ?thesis
      by (intro disjI2 exI[of _ ?f]) (simp add: valid_status_def)
  next
    case s
    let ?v = "fst (snd (verify_credentials cfg w
                (if truthy (j_api_key a) then the (j_api_key a) else []) (py_strip raw)))"
    let ?f = "\<lambda>r. r\<lparr>api_secret := Some (py_strip raw),
                     credentials_status := Some (if ?v then ''active'' else ''pending_secret'')\<rparr>"
    have "cred_rows (snd (handle_private_message cfg w uid raw s))
        = map creds (sql_update (\<lambda>r. user_id r = uid) ?f (assignments s))"
      by (rule handle_pending_secret_creds[OF Some s])
    moreover have "edge cfg w (PrivateMessage uid raw) r (credentials_status (?f r))"
      if "r \<in> set (assignments s)" "user_id r = uid" for r
    proof -
      from row[OF that] valid[OF that(1)] have st: "credentials_status r = Some (status_of a)"
        and key: "j_api_key a = api_key r"
        using status_of_valid[of a] by simp_all
      have "(if truthy (j_api_key a) then the (j_api_key a) else [])
          = (case api_key r of None \<Rightarrow> [] | Some k \<Rightarrow> k)"
        unfolding key by (simp add: truthy_def split: option.splits)
      with st s that show ?thesis by (auto simp: edge_def)
    qed
    ultimately show ?thesis
      by (intro disjI2 exI[of _ ?f]) (simp add: valid_status_def)
  next
    case kn
    then show ?thesis using handle_pending_key[OF Some kn(1), of cfg w raw] by simp
  next
    case sn
    then show ?thesis using handle_pending_secret[OF Some sn(1), of cfg w raw]
      by (simp add: Let_def split: prod.splits)
  next
    case other
    with Some show ?thesis by (simp add: handle_private_message_def Let_def)
  qed
qed
section \<open>The edges of the credential state\<close>

lemma handle_effect:
  assumes wf: "wf s"
  shows "wf (snd (handle cfg w now ev s)) \<and> step_ok cfg w ev s (snd (handle cfg w now ev s))"
proof -
  from wf have u: "uniq s" by (simp add: wf_def)
  have same: "wf s' \<and> step_ok cfg w ev s s'" if "cred_rows s' = cred_rows s" for s'
    using that wf wf_same[OF that] step_same[OF u that] by simp
  show ?thesis
  proof (cases ev)
    case (Start priv cid ttl usr)
    then have "cred_rows (snd (handle cfg w now ev s)) = cred_rows s" by simp
    then show ?thesis by (rule same)
  next
    case (GroupActivity cid ttl user message_text)
    then have "cred_rows (snd (handle cfg w now ev s)) = cred_rows s" by simp
    then show ?thesis by (rule same)
  next
    case (PrivateMessage uid raw)
    from private_message_effect[OF wf, of cfg w uid raw] show ?thesis
    proof
      assume "cred_rows (snd (handle_private_message cfg w uid raw s)) = cred_rows s"
      with PrivateMessage have "cred_rows (snd (handle cfg w now ev s)) = cred_rows s" by simp
      then show ?thesis by (rule same)
    next
      assume "\<exists>f. cred_rows (snd (handle_private_message cfg w uid raw s))
            = map creds (sql_update (\<lambda>r. user_id r = uid) f (assignments s)) \<and>
         (\<forall>r. a_chat_id (f r) = a_chat_id r \<and> user_id (f r) = user_id r \<and>
              valid_status (credentials_status (f r))) \<and>
         (\<forall>r\<in>set (assignments s). user_id r = uid \<longrightarrow>
              edge cfg w (PrivateMessage uid raw) r (credentials_status (f r)))"
      then obtain f where f: "cred_rows (snd (handle_private_message cfg w uid raw s))
            = map creds (sql_update (\<lambda>r. user_id r = uid) f (assignments s))"
        "\<And>r. a_chat_id (f r) = a_chat_id r" "\<And>r. user_id (f r) = user_id r"
        "\<And>r. valid_status (credentials_status (f r))"
        "\<And>r. r \<in> set (assignments s) \<Longrightarrow> user_id r = uid \<Longrightarrow>
              edge cfg w (PrivateMessage uid raw) r (credentials_status (f r))"
        by blast
      from wf_update[OF wf f(1) f(2) f(3) f(4)]
        step_update[OF u f(1) f(2) f(3), of cfg w "PrivateMessage uid raw"] f(5)
      show ?thesis unfolding PrivateMessage by simp
    qed
  next
    case (ResetApi priv uid)
    let ?f = "\<lambda>r. r\<lparr>api_key := None, api_secret := None, credentials_status := Some ''pending_key''\<rparr>"
    from cred_rows_reset_api[of priv uid s] show ?thesis
    proof
      assume "cred_rows (snd (handle_reset_api priv uid s)) = cred_rows s"
      with ResetApi have "cred_rows (snd (handle cfg w now ev s)) = cred_rows s" by simp
      then show ?thesis by (rule same)
    next
      assume a: "priv \<and> cred_rows (snd (handle_reset_api priv uid s)) =
        map creds (sql_update (\<lambda>r. user_id r = uid) ?f (assignments s))"
      then have c: "cred_rows (snd (handle_reset_api priv uid s)) =
        map creds (sql_update (\<lambda>r. user_id r = uid) ?f (assignments s))" and p: priv by blast+
      have "wf (snd (handle_reset_api priv uid s))"
        by (rule wf_update[OF wf c]) (simp_all add: valid_status_def)
      moreover have "step_ok cfg w (ResetApi priv uid) s (snd (handle_reset_api priv uid s))"
        by (rule step_update[OF u c]) (simp_all add: edge_def p)
      ultimately show ?thesis unfolding ResetApi by simp
    qed
  next
    case (ClearAssignments uid)
    from cred_rows_clear[of cfg uid s] show ?thesis
    proof
      assume "cred_rows (snd (handle_clear_assignments cfg uid s)) = cred_rows s"
      with ClearAssignments have "cred_rows (snd (handle cfg w now ev s)) = cred_rows s" by simp
      then show ?thesis by (rule same)
    next
      assume "assignments (snd (handle_clear_assignments cfg uid s)) = []"
      with ClearAssignments show ?thesis by (simp add: wf_clear step_clear)
    qed
  next
    case (NewItem in_group cid uid)
    then have "cred_rows (snd (handle cfg w now ev s)) = cred_rows s" by simp
    then show ?thesis by (rule same)
  next
    case (AssignCommand in_group cid ttl uid)
    then have "cred_rows (snd (handle cfg w now ev s)) = cred_rows s" by simp
    then show ?thesis by (rule same)
  next
    case (AssignCallback from_user query_data message_chat)
    from cred_rows_assign_callback[of cfg w now from_user query_data message_chat s] show ?thesis
    proof
      assume "cred_rows (snd (handle_assign_callback cfg w now from_user query_data message_chat s)) = cred_rows s"
      with AssignCallback have "cred_rows (snd (handle cfg w now ev s)) = cred_rows s" by simp
      then show ?thesis by (rule same)
    next
      assume "\<exists>cid uid. cid \<notin> a_chat_id ` set (assignments s) \<and> uid \<notin> user_id ` set (assignments s) \<and>
        cred_rows (snd (handle_assign_callback cfg w now from_user query_data message_chat s))
          = cred_rows s @ [(cid, uid, None, None, Some ''pending_key'')]"
      then obtain cid uid where n: "cid \<notin> a_chat_id ` set (assignments s)"
        "uid \<notin> user_id ` set (assignments s)"
        and c: "cred_rows (snd (handle_assign_callback cfg w now from_user query_data message_chat s))
          = cred_rows s @ [(cid, uid, None, None, Some ''pending_key'')]"
        by blast
      from wf_new[OF wf c n] step_new[OF u c n(1)] show ?thesis unfolding AssignCallback by simp
    qed
  next
    case (ChoiceCallback from_user query_data message_chat)
    then have "cred_rows (snd (handle cfg w now ev s)) = cred_rows s" by simp
    then show ?thesis by (rule same)
  next
    case ReadOnly
    then have "cred_rows (snd (handle cfg w now ev s)) = cred_rows s" by simp
    then show ?thesis by (rule same)
  qed
qed

lemma wf_run_events: "wf s \<Longrightarrow> wf (run_events cfg inputs s)"
  unfolding run_events_def
  by (induction inputs arbitrary: s) (auto simp: handle_effect)

lemma wf_empty: "wf empty_db"
  by (simp add: wf_def uniq_def empty_db_def)

lemma verify_credentials_affirmative:
  "fst (snd (verify_credentials cfg w key secret)) \<longleftrightarrow>
     \<not> truthy (erpnext_base_url cfg) \<or>
     (key \<noteq> [] \<and> secret \<noteq> [] \<and>
      fst (verify_credentials cfg w key secret) = [VerifyRequest key secret] \<and>
      (\<exists>code detail. w_verify w key secret = HttpResponse code detail \<and> 200 \<le> code \<and> code < 300))"
  by (auto simp: verify_credentials_def split: http_result.splits)

lemma activation_request:
  assumes wf: "wf s"
    and r: "r \<in> set (assignments s)" "credentials_status r = Some ''pending_secret''"
    and r': "r' \<in> set (assignments (snd (handle_private_message cfg w (user_id r) t s)))"
      "a_chat_id r' = a_chat_id r" "credentials_status r' = Some ''active''"
    and v: "validate_api_secret (py_strip t)"
      "fst (snd (verify_credentials cfg w (case api_key r of None \<Rightarrow> [] | Some k \<Rightarrow> k) (py_strip t)))"
    and url: "truthy (erpnext_base_url cfg)"
  shows "\<exists>key code detail.
           api_key r = Some key \<and>
           VerifyRequest key (py_strip t) \<in> set (fst (handle_private_message cfg w (user_id r) t s)) \<and>
           w_verify w key (py_strip t) = HttpResponse code detail \<and> 200 \<le> code \<and> code < 300"
proof -
  let ?k = "case api_key r of None \<Rightarrow> [] | Some k \<Rightarrow> k"
  from wf have u: "uniq s" by (simp add: wf_def)
  from v(2) url have k: "?k \<noteq> []"
    and req: "fst (verify_credentials cfg w ?k (py_strip t)) = [VerifyRequest ?k (py_strip t)]"
    and ans: "\<exists>code detail. w_verify w ?k (py_strip t) = HttpResponse code detail \<and> 200 \<le> code \<and> code < 300"
    unfolding verify_credentials_affirmative by blast+
  from k obtain key where key: "api_key r = Some key" by (cases "api_key r") simp_all
  show ?thesis
  proof (cases "get_user_assignment s (user_id r)")
    case None
    then have "snd (handle_private_message cfg w (user_id r) t s) = s"
      by (simp add: handle_private_message_def Let_def)
    with r' have "r' \<in> set (assignments s)" by simp
    from uniq_chat_eq[OF u this r(1)] r'(2) have "r' = r" by simp
    with r(2) r'(3) show ?thesis by simp
  next
    case (Some a)
    from joined_row_of[OF u Some r(1) refl]
    have st: "j_credentials_status a = Some ''pending_secret''" and jk: "j_api_key a = api_key r"
      using r(2) by simp_all
    from st have so: "status_of a = ''pending_secret''" by (simp add: status_of_def truthy_def)
    have jk': "(if truthy (j_api_key a) then the (j_api_key a) else []) = ?k"
      unfolding jk by (simp add: truthy_def split: option.splits)
    have "VerifyRequest ?k (py_strip t) \<in> set (fst (handle_private_message cfg w (user_id r) t s))"
      unfolding handle_pending_secret[OF Some so] Let_def jk' using v req
      by (simp add: split_beta)
    with key ans show ?thesis by simp
  qed
qed

text \<open>
  C3, as amended.  Take any sequence of inbound events from the empty store, and one more
  event.  In the store before it every assignment is in one of the three states.  An
  assignment that is there before and after the event keeps its manager, and its state
  either stays (which includes \<open>pending_secret\<close> after a verification that failed), or goes
  from \<open>pending_key\<close> to \<open>pending_secret\<close> on a private text of the manager that matches the key
  pattern, or goes from \<open>pending_secret\<close> to \<open>active\<close> on a private text of the manager that
  matches the secret pattern, or goes to \<open>pending_key\<close> on \<open>/reset_api\<close> of the manager in a
  private chat.  On the step to \<open>active\<close>, either no base URL is configured, and then
  \<open>_verify_credentials\<close> skips the check, or the handler has sent the verification request
  with the stored key and the text, and ERPNext has answered it with a status code from 200
  to 299.  An assignment that the event creates is in \<open>pending_key\<close>, with no key and no
  secret.
\<close>

theorem credentials_status_edges:
  assumes "s = run_events cfg inputs empty_db" and "s' = snd (handle cfg w now ev s)"
  shows "(\<forall>r\<in>set (assignments s).
            credentials_status r = Some ''pending_key'' \<or> credentials_status r = Some ''pending_secret'' \<or>
            credentials_status r = Some ''active'') \<and>
         (\<forall>r\<in>set (assignments s). \<forall>r'\<in>set (assignments s').
            a_chat_id r' = a_chat_id r \<longrightarrow>
              user_id r' = user_id r \<and>
              (credentials_status r' = credentials_status r \<or>
               (credentials_status r = Some ''pending_key'' \<and> credentials_status r' = Some ''pending_secret'' \<and>
                  (\<exists>t. ev = PrivateMessage (user_id r) t \<and> validate_api_key (py_strip t))) \<or>
               (credentials_status r = Some ''pending_secret'' \<and> credentials_status r' = Some ''active'' \<and>
                  (\<exists>t. ev = PrivateMessage (user_id r) t \<and> validate_api_secret (py_strip t) \<and>
                     (\<not> truthy (erpnext_base_url cfg) \<or>
                      (\<exists>key code detail.
                         api_key r = Some key \<and>
                         VerifyRequest key (py_strip t) \<in> set (fst (handle cfg w now ev s)) \<and>
                         w_verify w key (py_strip t) = HttpResponse code detail \<and>
                         200 \<le> code \<and> code < 300)))) \<or>
               (credentials_status r' = Some ''pending_key'' \<and> ev = ResetApi True (user_id r)))) \<and>
         (\<forall>r'\<in>set (assignments s').
            a_chat_id r' \<notin> a_chat_id ` set (assignments s) \<longrightarrow>
              credentials_status r' = Some ''pending_key'' \<and> api_key r' = None \<and> api_secret r' = None)"
proof -
  have wf: "wf s" unfolding assms(1) by (rule wf_run_events[OF wf_empty])
  from handle_effect[OF wf, of cfg w now ev] have step: "step_ok cfg w ev s s'"
    unfolding assms(2) by simp
  from wf have valid: "\<forall>r\<in>set (assignments s). valid_status (credentials_status r)"
    by (simp add: wf_def list_all_iff)
  have request: "\<exists>key code detail.
        api_key r = Some key \<and>
        VerifyRequest key (py_strip t) \<in> set (fst (handle cfg w now ev s)) \<and>
        w_verify w key (py_strip t) = HttpResponse code detail \<and> 200 \<le> code \<and> code < 300"
    if "r \<in> set (assignments s)" "r' \<in> set (assignments s')" "a_chat_id r' = a_chat_id r"
      "credentials_status r = Some ''pending_secret''" "credentials_status r' = Some ''active''"
      "ev = PrivateMessage (user_id r) t" "validate_api_secret (py_strip t)"
      "fst (snd (verify_credentials cfg w (case api_key r of None \<Rightarrow> [] | Some k \<Rightarrow> k) (py_strip t)))"
      "truthy (erpnext_base_url cfg)"
    for r r' t
  proof -
    from that(2) have "r' \<in> set (assignments (snd (handle_private_message cfg w (user_id r) t s)))"
      unfolding assms(2) that(6) by simp
    from activation_request[OF wf that(1) that(4) this that(3) that(5) that(7) that(8) that(9)]
    show ?thesis unfolding that(6) by simp
  qed
  from step have old: "\<forall>r\<in>set (assignments s). \<forall>r'\<in>set (assignments s').
        a_chat_id r' = a_chat_id r \<longrightarrow> user_id r' = user_id r \<and> edge cfg w ev r (credentials_status r')"
    and new: "\<forall>r'\<in>set (assignments s').
        a_chat_id r' \<notin> a_chat_id ` set (assignments s) \<longrightarrow>
          credentials_status r' = Some ''pending_key'' \<and> api_key r' = None \<and> api_secret r' = None"
    unfolding step_ok_def by blast+
  have edges: "user_id r' = user_id r \<and>
      (credentials_status r' = credentials_status r \<or>
       (credentials_status r = Some ''pending_key'' \<and> credentials_status r' = Some ''pending_secret'' \<and>
          (\<exists>t. ev = PrivateMessage (user_id r) t \<and> validate_api_key (py_strip t))) \<or>
       (credentials_status r = Some ''pending_secret'' \<and> credentials_status r' = Some ''active'' \<and>
          (\<exists>t. ev = PrivateMessage (user_id r) t \<and> validate_api_secret (py_strip t) \<and>
             (\<not> truthy (erpnext_base_url cfg) \<or>
              (\<exists>key code detail.
                 api_key r = Some key \<and>
                 VerifyRequest key (py_strip t) \<in> set (fst (handle cfg w now ev s)) \<and>
                 w_verify w key (py_strip t) = HttpResponse code detail \<and>
                 200 \<le> code \<and> code < 300)))) \<or>
       (credentials_status r' = Some ''pending_key'' \<and> ev = ResetApi True (user_id r)))"
    if m: "r \<in> set (assignments s)" "r' \<in> set (assignments s')" "a_chat_id r' = a_chat_id r"
    for r r'
  proof -
    from old m have id: "user_id r' = user_id r" and e: "edge cfg w ev r (credentials_status r')"
      by blast+
    from e consider (same) "credentials_status r' = credentials_status r"
      | (key) "credentials_status r = Some ''pending_key''" "credentials_status r' = Some ''pending_secret''"
          "\<exists>t. ev = PrivateMessage (user_id r) t \<and> validate_api_key (py_strip t)"
      | (secret) t where "credentials_status r = Some ''pending_secret''"
          "credentials_status r' = Some ''active''"
          "ev = PrivateMessage (user_id r) t" "validate_api_secret (py_strip t)"
          "fst (snd (verify_credentials cfg w (case api_key r of None \<Rightarrow> [] | Some k \<Rightarrow> k) (py_strip t)))"
      | (reset) "credentials_status r' = Some ''pending_key''" "ev = ResetApi True (user_id r)"
      unfolding edge_def by blast
    then show ?thesis
    proof cases
      case same
      with id show ?thesis by simp
    next
      case key
      with id show ?thesis by simp
    next
      case secret
      show ?thesis
      proof (cases "truthy (erpnext_base_url cfg)")
        case True
        from request[OF m secret True] secret id show ?thesis by blast
      next
        case False
        with secret id show ?thesis by blast
      qed
    next
      case reset
      with id show ?thesis by simp
    qed
  qed
  from valid have "\<forall>r\<in>set (assignments s).
      credentials_status r = Some ''pending_key'' \<or> credentials_status r = Some ''pending_secret'' \<or>
      credentials_status r = Some ''active''"
    unfolding valid_status_def .
  with edges new show ?thesis by blast
qed

theorem credentials_status_edges_witness:
  "map credentials_status (assignments (run_events example_config events_to_pending_secret empty_db))
     = [Some ''pending_secret''] \<and>
   map credentials_status (assignments (snd (handle example_config world_accepting ''t3''
       (PrivateMessage 111 ''2a428d03deaceb8'')
       (run_events example_config events_to_pending_secret empty_db)))) = [Some ''active''] \<and>
   validate_api_secret (py_strip ''2a428d03deaceb8'') \<and>
   VerifyRequest ''3739e78cec4e139'' (py_strip ''2a428d03deaceb8'')
     \<in> set (fst (handle example_config world_accepting ''t3'' (PrivateMessage 111 ''2a428d03deaceb8'')
         (run_events example_config events_to_pending_secret empty_db))) \<and>
   map credentials_status (assignments (snd (handle example_config world_refusing ''t3''
       (PrivateMessage 111 ''2a428d03deaceb8'')
       (run_events example_config events_to_pending_secret empty_db)))) = [Some ''pending_secret''] \<and>
   map credentials_status (assignments (snd (handle example_config world_refusing ''t3''
       (ResetApi True 111)
       (run_events example_config events_to_pending_secret empty_db)))) = [Some ''pending_key'']"
proof -
  let ?s = "run_events example_config events_to_pending_secret empty_db"
  let ?ev = "PrivateMessage 111 ''2a428d03deaceb8''"
  let ?s' = "snd (handle example_config world_accepting ''t3'' ?ev ?s)"
  let ?r = "\<lparr>a_chat_id = 555, user_id = 111, assigned_at = ''t1'', api_key = Some ''3739e78cec4e139'',
      api_secret = None, credentials_status = Some ''pending_secret'', customer_docname = None\<rparr>"
  let ?r' = "\<lparr>a_chat_id = 555, user_id = 111, assigned_at = ''t1'', api_key = Some ''3739e78cec4e139'',
      api_secret = Some ''2a428d03deaceb8'', credentials_status = Some ''active'',
      customer_docname = Some ''CUST-1''\<rparr>"
  have before: "assignments ?s = [?r]" by code_simp
  have after: "assignments ?s' = [?r']" by code_simp
  have url: "truthy (erpnext_base_url example_config)" by code_simp
  from credentials_status_edges[OF refl refl, of example_config events_to_pending_secret
      world_accepting "''t3''" ?ev]
  have "\<forall>r\<in>set (assignments ?s). \<forall>r'\<in>set (assignments ?s').
            a_chat_id r' = a_chat_id r \<longrightarrow>
              user_id r' = user_id r \<and>
              (credentials_status r' = credentials_status r \<or>
               (credentials_status r = Some ''pending_key'' \<and> credentials_status r' = Some ''pending_secret'' \<and>
                  (\<exists>t. ?ev = PrivateMessage (user_id r) t \<and> validate_api_key (py_strip t))) \<or>
               (credentials_status r = Some ''pending_secret'' \<and> credentials_status r' = Some ''active'' \<and>
                  (\<exists>t. ?ev = PrivateMessage (user_id r) t \<and> validate_api_secret (py_strip t) \<and>
                     (\<not> truthy (erpnext_base_url example_config) \<or>
                      (\<exists>key code detail.
                         api_key r = Some key \<and>
                         VerifyRequest key (py_strip t)
                           \<in> set (fst (handle example_config world_accepting ''t3'' ?ev ?s)) \<and>
                         w_verify world_accepting key (py_strip t) = HttpResponse code detail \<and>
                         200 \<le> code \<and> code < 300)))) \<or>
               (credentials_status r' = Some ''pending_key'' \<and> ?ev = ResetApi True (user_id r)))"
    by blast
  then have verified: "validate_api_secret (py_strip ''2a428d03deaceb8'') \<and>
      VerifyRequest ''3739e78cec4e139'' (py_strip ''2a428d03deaceb8'')
        \<in> set (fst (handle example_config world_accepting ''t3'' ?ev ?s))"
    unfolding before after using url by simp
  have rest:
    "map credentials_status (assignments (snd (handle example_config world_refusing ''t3''
       (PrivateMessage 111 ''2a428d03deaceb8'') ?s))) = [Some ''pending_secret'']"
    "map credentials_status (assignments (snd (handle example_config world_refusing ''t3''
       (ResetApi True 111) ?s))) = [Some ''pending_key'']"
    by code_simp+
  from before after verified rest show ?thesis by simp
qed

text \<open>
  The claim as stated fails without a base URL, which is how the configuration starts: the
  secret of the manager makes the assignment \<open>active\<close> although the handler sends no
  verification request, in a world where ERPNext would refuse the credentials.
\<close>

theorem active_without_verification_call_counterexample:
  "map credentials_status
     (assignments (run_events config_without_url events_to_pending_secret empty_db))
     = [Some ''pending_secret''] \<and>
   w_verify world_refusing ''3739e78cec4e139'' ''2a428d03deaceb8'' = HttpResponse 401 ''denied'' \<and>
   fst (handle config_without_url world_refusing ''t3'' (PrivateMessage 111 ''2a428d03deaceb8'')
          (run_events config_without_url events_to_pending_secret empty_db))
     = [ReplyText (''API kalit muvaffaqqiyatli kiritildi.'' @ newline @
                   ''ERPNext bilan ham muvaffaqqiyatli ulandi.''),
        SendMessage 555 ''Ali ERPNext API kalitlarini kiritdi.''] \<and>
   map credentials_status
     (assignments (snd (handle config_without_url world_refusing ''t3''
        (PrivateMessage 111 ''2a428d03deaceb8'')
        (run_events config_without_url events_to_pending_secret empty_db))))
     = [Some ''active'']"
  by code_simp
section \<open>The customer name of a chat\<close>

lemma derive_customer_name_by_tokens:
  "derive_customer_name ttl cid =
     (case ttl of
        None \<Rightarrow> ''Auto Customer '' @ py_str cid
      | Some t \<Rightarrow>
          if length (py_split t) > 2 then py_join '' '' (drop 2 (py_split t))
          else if py_split t = [] then ''Auto Customer '' @ py_str cid
          else py_strip t)"
proof (cases ttl)
  case None
  then show ?thesis by (simp add: derive_customer_name_def)
next
  case (Some t)
  show ?thesis
  proof (cases "length (py_split t) > 2")
    case True
    let ?ps = "drop 2 (py_split t)"
    from True have ne: "?ps \<noteq> []" by simp
    have tok: "\<forall>p\<in>set ?ps. token p"
      by (auto dest: in_set_dropD py_split_tokens)
    from True have "t \<noteq> []" by (auto simp: py_split_def)
    with Some True py_strip_join[OF ne tok, of "'' ''"] show ?thesis
      by (simp add: derive_customer_name_def Let_def)
  next
    case False
    show ?thesis
    proof (cases "py_split t = []")
      case True
      then have "py_strip t = []" by (simp add: py_split_empty)
      with Some False True show ?thesis
        by (simp add: derive_customer_name_def Let_def)
    next
      case ne: False
      then have "py_strip t \<noteq> []" by (simp add: py_split_empty)
      moreover from ne have "t \<noteq> []" by (auto simp: py_split_def)
      ultimately show ?thesis using Some False ne
        by (simp add: derive_customer_name_def Let_def)
    qed
  qed
qed

lemma ensure_customer_exists_names:
  "List.map_filter request_name (fst (ensure_customer_exists cfg w a key secret s))
     \<in> {[], [derive_customer_name (j_title a) (j_chat_id a)],
         [derive_customer_name (j_title a) (j_chat_id a), derive_customer_name (j_title a) (j_chat_id a)]}"
  by (auto simp: ensure_customer_exists_def find_customer_def create_customer_def Let_def
      List.map_filter_simps split: prod.splits)

text \<open>
  C10, as amended.  The customer name of a chat is: the tokens of the title after the
  first two, joined by single spaces, when the title has more than two tokens; the title
  itself, trimmed, when it has one or two tokens; and the synthetic name
  \<open>Auto Customer <chat id>\<close> when the title is absent, empty or all whitespace.  Every
  lookup and every creation request of \<open>_ensure_customer_exists\<close> carries that name, for
  the title and the chat id of the assignment.
\<close>

theorem customer_name_of_title:
  "derive_customer_name ttl cid =
     (case ttl of
        None \<Rightarrow> ''Auto Customer '' @ py_str cid
      | Some t \<Rightarrow>
          if length (py_split t) > 2 then py_join '' '' (drop 2 (py_split t))
          else if py_split t = [] then ''Auto Customer '' @ py_str cid
          else py_strip t) \<and>
   List.map_filter request_name (fst (ensure_customer_exists cfg w a key secret s))
     \<in> {[], [derive_customer_name (j_title a) (j_chat_id a)],
         [derive_customer_name (j_title a) (j_chat_id a), derive_customer_name (j_title a) (j_chat_id a)]}"
  using derive_customer_name_by_tokens[of ttl cid] ensure_customer_exists_names[of cfg w a key secret s]
  by (rule conjI)

theorem customer_name_of_title_witness:
  "derive_customer_name (Some ''SM 12 Acme  Corp'') 555 = ''Acme Corp'' \<and>
   derive_customer_name (Some ''   '') 555 = ''Auto Customer 555'' \<and>
   derive_customer_name None 555 = ''Auto Customer 555'' \<and>
   List.map_filter request_name
     (fst (ensure_customer_exists example_config world_accepting
        (example_assignment\<lparr>j_title := Some ''SM 12 Acme  Corp''\<rparr>) (Some ''k'') (Some ''s'') empty_db))
     = [''Acme Corp'', ''Acme Corp'']"
  using customer_name_of_title[of "Some ''SM 12 Acme  Corp''" 555 example_config world_accepting
      "example_assignment\<lparr>j_title := Some ''SM 12 Acme  Corp''\<rparr>" "Some ''k''" "Some ''s''" empty_db]
    customer_name_of_title[of "Some ''   ''" 555 example_config world_accepting
      example_assignment "Some ''k''" "Some ''s''" empty_db]
    customer_name_of_title[of None 555 example_config world_accepting
      example_assignment "Some ''k''" "Some ''s''" empty_db]
  by code_simp

text \<open>
  The claim as stated fails for a title of two tokens: \<open>Sales Team\<close> is used as it is, not
  replaced by the synthetic name.
\<close>

theorem customer_name_two_tokens_counterexample:
  "length (py_split ''Sales Team'') = 2 \<and>
   derive_customer_name (Some ''Sales Team'') 555 = ''Sales Team'' \<and>
   derive_customer_name (Some ''Sales Team'') 555 \<noteq> ''Auto Customer '' @ py_str 555 \<and>
   List.map_filter request_name
     (fst (ensure_customer_exists example_config world_accepting example_assignment
        (Some ''k'') (Some ''s'') empty_db))
     = [''Sales Team'', ''Sales Team'']"
  by code_simp

end
